theory Spec2Isabelle
  imports Main
begin

section \<open>JavaScript values used by the services\<close>

text \<open>
  Optional strings (\<open>string | undefined\<close>) are \<open>string option\<close>. A test such as
  \<open>if (error)\<close> or \<open>!stageStatus.startTime\<close> is JavaScript truthiness: an undefined
  value and the empty string are both falsy.
\<close>

definition truthy :: "string option \<Rightarrow> bool" where
  "truthy v = (case v of None \<Rightarrow> False | Some s \<Rightarrow> s \<noteq> [])"

text \<open>\<open>a || b\<close> on an optional string with a string default.\<close>

definition orElse :: "string option \<Rightarrow> string \<Rightarrow> string" where
  "orElse v d = (case v of None \<Rightarrow> d | Some s \<Rightarrow> (if s = [] then d else s))"

text \<open>\<open>String.prototype.includes\<close>: the needle occurs as a contiguous substring.\<close>

fun startsWith :: "string \<Rightarrow> string \<Rightarrow> bool" where
  "startsWith s [] = True"
| "startsWith [] (c # cs) = False"
| "startsWith (x # xs) (c # cs) = (x = c \<and> startsWith xs cs)"

fun strIncludes :: "string \<Rightarrow> string \<Rightarrow> bool" where
  "strIncludes [] sub = (sub = [])"
| "strIncludes (x # xs) sub = (startsWith (x # xs) sub \<or> strIncludes xs sub)"

text \<open>Decimal rendering of a number inside a template literal.\<close>

definition digitChar :: "nat \<Rightarrow> char" where
  "digitChar d = ''0123456789'' ! d"

fun showNat :: "nat \<Rightarrow> string" where
  "showNat n = (if n < 10 then [digitChar n] else showNat (n div 10) @ [digitChar (n mod 10)])"

declare showNat.simps [simp del]

definition showInt :: "int \<Rightarrow> string" where
  "showInt i = (if i < 0 then CHR ''-'' # showNat (nat (- i)) else showNat (nat i))"

section \<open>Types of the generation pipeline (types/index.ts)\<close>

datatype ImageProvider = Ideogram | NanoBanana

record ImageGenerationOptions =
  provider :: ImageProvider
  outputFormat :: "string option"
  includeOriginalAnchor :: "bool option"

record GenerationRequest =
  sceneCount :: int
  description :: string
  includeVoiceover :: bool
  includeMusic :: bool
  imageOptions :: "ImageGenerationOptions option"

datatype SessionStatus = SessionPending | SessionProcessing | SessionCompleted | SessionFailed

datatype ProcessingStage = Prompts | Images | Videos | Audio | Merge

datatype StageState = Pending | Processing | Completed | Error

record StageStatus =
  stage :: ProcessingStage
  status :: StageState
  message :: "string option"
  progress :: "int option"
  startTime :: "string option"
  endTime :: "string option"
  error :: "string option"
  retryCount :: "int option"

record ScenePrompts =
  sceneNumber :: int
  imagePrompt :: string
  videoPrompt :: string

record GeneratedPrompts =
  scenePrompts :: "ScenePrompts list"
  voiceoverScript :: "string option"
  musicPrompt :: "string option"

section \<open>Errors (utils/errorHandler.ts)\<close>

text \<open>
  A raw error thrown by a collaborator is an object of which the code reads
  \<open>code\<close>, \<open>message\<close>, \<open>retry_after\<close>, \<open>path\<close> and \<open>response.status\<close>.
\<close>

record RawError =
  code :: "string option"
  rawMessage :: "string option"
  retry_after :: "int option"
  path :: "string option"
  responseStatus :: "int option"

record ErrorContext =
  ctxSessionId :: "string option"
  ctxStage :: "string option"
  ctxService :: "string option"
  ctxAttempt :: "int option"
  ctxTimestamp :: "string option"

datatype CtxValue = CUndefined | CStr string | CNum int

datatype ErrContext = NoContext | Fields "(string \<times> CtxValue) list" | Ctx ErrorContext

text \<open>The class an error object was constructed with (what \<open>instanceof\<close> tests).\<close>

datatype ErrorClass =
  AppErrorC | ValidationErrorC | ServiceUnavailableErrorC | RateLimitErrorC
  | AuthenticationErrorC | ResourceNotFoundErrorC | ProcessingTimeoutErrorC

record AppError =
  errClass :: ErrorClass
  errMessage :: string
  statusCode :: int
  isOperational :: bool
  retryable :: bool
  errContext :: ErrContext

definition optStr :: "string option \<Rightarrow> CtxValue" where
  "optStr v = (case v of None \<Rightarrow> CUndefined | Some s \<Rightarrow> CStr s)"

definition optNum :: "int option \<Rightarrow> CtxValue" where
  "optNum v = (case v of None \<Rightarrow> CUndefined | Some n \<Rightarrow> CNum n)"

definition newAppError :: "string \<Rightarrow> int \<Rightarrow> bool \<Rightarrow> bool \<Rightarrow> ErrContext \<Rightarrow> AppError" where
  "newAppError msg sc op r c =
     \<lparr>errClass = AppErrorC, errMessage = msg, statusCode = sc, isOperational = op,
      retryable = r, errContext = c\<rparr>"

definition ValidationError :: "string \<Rightarrow> ErrContext \<Rightarrow> AppError" where
  "ValidationError msg c = (newAppError msg 400 True False c)\<lparr>errClass := ValidationErrorC\<rparr>"

definition ServiceUnavailableError :: "string \<Rightarrow> ErrContext \<Rightarrow> AppError" where
  "ServiceUnavailableError service details =
     (newAppError (service @ '' service is currently unavailable'') 503 True True details)
       \<lparr>errClass := ServiceUnavailableErrorC\<rparr>"

definition RateLimitError :: "string \<Rightarrow> int option \<Rightarrow> AppError" where
  "RateLimitError service retryAfter =
     (newAppError (''Rate limit exceeded for '' @ service) 429 True True
        (Fields [(''retryAfter'', optNum retryAfter)]))
       \<lparr>errClass := RateLimitErrorC\<rparr>"

definition AuthenticationError :: "string \<Rightarrow> AppError" where
  "AuthenticationError service =
     (newAppError (''Authentication failed for '' @ service) 401 True False NoContext)
       \<lparr>errClass := AuthenticationErrorC\<rparr>"

definition ResourceNotFoundError :: "string \<Rightarrow> string option \<Rightarrow> AppError" where
  "ResourceNotFoundError resource ident =
     (newAppError
        (resource @ (if truthy ident then '' with ID '' @ the ident else '''') @ '' not found'')
        404 True False NoContext)
       \<lparr>errClass := ResourceNotFoundErrorC\<rparr>"

definition ProcessingTimeoutError :: "string \<Rightarrow> int \<Rightarrow> AppError" where
  "ProcessingTimeoutError stg timeout =
     (newAppError
        (''Processing timeout after '' @ showInt timeout @ ''ms in stage: '' @ stg) 408 True True
        (Fields [(''timeout'', CNum timeout), (''stage'', CStr stg)]))
       \<lparr>errClass := ProcessingTimeoutErrorC\<rparr>"

text \<open>\<open>error.message && error.message.includes(p)\<close> and \<open>error.message?.includes(p)\<close>
  agree on every optional string: the empty message contains no non-empty pattern.\<close>

definition msgIncludes :: "RawError \<Rightarrow> string \<Rightarrow> bool" where
  "msgIncludes e p = (case rawMessage e of None \<Rightarrow> False | Some m \<Rightarrow> m \<noteq> [] \<and> strIncludes m p)"

definition msgIncludesOpt :: "RawError \<Rightarrow> string \<Rightarrow> bool" where
  "msgIncludesOpt e p = (case rawMessage e of None \<Rightarrow> False | Some m \<Rightarrow> strIncludes m p)"

definition handleServiceError :: "RawError \<Rightarrow> ErrorContext \<Rightarrow> AppError" where
  "handleServiceError e c =
    (if code e = Some ''insufficient_quota'' then
       ServiceUnavailableError ''OpenAI''
         (Fields [(''reason'', CStr ''quota_exceeded''), (''originalError'', optStr (rawMessage e))])
     else if code e = Some ''rate_limit_exceeded'' then
       RateLimitError ''OpenAI'' (retry_after e)
     else if msgIncludes e ''prediction failed'' then
       ServiceUnavailableError ''Kling Video Generation''
         (Fields [(''reason'', CStr ''prediction_failed''), (''originalError'', optStr (rawMessage e))])
     else if msgIncludes e ''quota'' then
       ServiceUnavailableError ''ElevenLabs''
         (Fields [(''reason'', CStr ''quota_exceeded''), (''originalError'', optStr (rawMessage e))])
     else if code e = Some ''ENOTFOUND'' \<or> code e = Some ''ECONNREFUSED'' then
       ServiceUnavailableError (orElse (ctxService c) ''External Service'')
         (Fields [(''reason'', CStr ''network_error''), (''originalError'', optStr (rawMessage e))])
     else if code e = Some ''ETIMEDOUT'' \<or> msgIncludesOpt e ''timeout'' then
       ProcessingTimeoutError (orElse (ctxStage c) ''unknown'') 30000
     else if msgIncludes e ''ffmpeg'' \<or> msgIncludesOpt e ''ffprobe'' then
       newAppError ''Video processing failed'' 500 True True
         (Fields [(''reason'', CStr ''ffmpeg_error''), (''originalError'', optStr (rawMessage e))])
     else if code e = Some ''ENOENT'' then
       ResourceNotFoundError ''File'' (path e)
     else if code e = Some ''EACCES'' \<or> code e = Some ''EPERM'' then
       newAppError ''File permission denied'' 500 True False
         (Fields [(''reason'', CStr ''permission_error''), (''path'', optStr (path e))])
     else if code e = Some ''ENOSPC'' then
       newAppError ''Insufficient disk space'' 507 True False
         (Fields [(''reason'', CStr ''disk_full'')])
     else if msgIncludes e ''502'' \<or> msgIncludes e ''503'' \<or> msgIncludes e ''504''
               \<or> msgIncludes e ''temporary'' then
       newAppError (the (rawMessage e)) 503 True True (Ctx c)
     else
       newAppError (orElse (rawMessage e) ''An unexpected error occurred'') 500 True False (Ctx c))"

definition shouldRetry :: "AppError \<Rightarrow> int \<Rightarrow> int \<Rightarrow> bool" where
  "shouldRetry err attempt maxRetries =
    (if attempt \<ge> maxRetries then False
     else if \<not> retryable err then False
     else if errClass err = ValidationErrorC then False
     else if errClass err = AuthenticationErrorC then False
     else True)"

definition className :: "ErrorClass \<Rightarrow> string" where
  "className c = (case c of
      AppErrorC \<Rightarrow> ''AppError'' | ValidationErrorC \<Rightarrow> ''ValidationError''
    | ServiceUnavailableErrorC \<Rightarrow> ''ServiceUnavailableError''
    | RateLimitErrorC \<Rightarrow> ''RateLimitError'' | AuthenticationErrorC \<Rightarrow> ''AuthenticationError''
    | ResourceNotFoundErrorC \<Rightarrow> ''ResourceNotFoundError''
    | ProcessingTimeoutErrorC \<Rightarrow> ''ProcessingTimeoutError'')"

record ErrorSummary =
  summaryMessage :: string
  summaryType :: string
  summaryRetryable :: bool
  summaryContext :: ErrContext
  suggestions :: "string list option"

definition createErrorSummary :: "AppError \<Rightarrow> ErrorSummary" where
  "createErrorSummary err =
    (let s1 = (if errClass err = ServiceUnavailableErrorC
               then [''Check service status and API quotas'', ''Try again in a few minutes'']
               else []);
         s2 = (if errClass err = RateLimitErrorC
               then s1 @ [''Wait for rate limit to reset'', ''Consider upgrading your API plan'']
               else s1);
         s3 = (if errClass err = ProcessingTimeoutErrorC
               then s2 @ [''Try with fewer scenes or shorter content'',
                          ''Check your internet connection'']
               else s2);
         s4 = (if strIncludes (errMessage err) ''ffmpeg''
               then s3 @ [''Ensure FFmpeg is properly installed'',
                          ''Check video file formats and codecs'']
               else s3);
         s5 = (if strIncludes (errMessage err) ''quota'' \<or> strIncludes (errMessage err) ''limit''
               then s4 @ [''Check API key quotas and billing'',
                          ''Try again later when quotas reset'']
               else s4)
     in \<lparr>summaryMessage = errMessage err, summaryType = className (errClass err),
         summaryRetryable = retryable err, summaryContext = errContext err,
         suggestions = (if length s5 > 0 then Some s5 else None)\<rparr>)"

section \<open>The session store (services/sessionManager.ts)\<close>

record GenerationSession =
  sessionId :: string
  request :: GenerationRequest
  characterImagePath :: string
  sessionStatus :: SessionStatus
  stages :: "StageStatus list"
  currentStage :: "ProcessingStage option"
  createdAt :: string
  updatedAt :: string
  sessionError :: "string option"
  errorDetails :: "ErrorSummary option"
  finalVideoPath :: "string option"

text \<open>
  The private \<open>Map<string, GenerationSession>\<close>. The two values the environment
  supplies, \<open>uuidv4()\<close> and \<open>new Date().toISOString()\<close>, are parameters of each
  operation; logging is not modelled.
\<close>

type_synonym sessions = "string \<rightharpoonup> GenerationSession"

definition pendingStage :: "ProcessingStage \<Rightarrow> StageStatus" where
  "pendingStage s =
     \<lparr>stage = s, status = Pending, message = None, progress = None, startTime = None,
      endTime = None, error = None, retryCount = None\<rparr>"

definition createSession ::
  "string \<Rightarrow> string \<Rightarrow> GenerationRequest \<Rightarrow> string \<Rightarrow> sessions \<Rightarrow> GenerationSession \<times> sessions"
where
  "createSession uuid timestamp req imagePath store =
    (let stages0 = [pendingStage Prompts, pendingStage Images, pendingStage Videos];
         stages1 = (if includeVoiceover req \<or> includeMusic req
                    then stages0 @ [pendingStage Audio] else stages0);
         stages2 = stages1 @ [pendingStage Merge];
         session = \<lparr>sessionId = uuid, request = req, characterImagePath = imagePath,
                    sessionStatus = SessionPending, stages = stages2, currentStage = None,
                    createdAt = timestamp, updatedAt = timestamp, sessionError = None,
                    errorDetails = None, finalVideoPath = None\<rparr>
     in (session, store(uuid \<mapsto> session)))"

definition getSession :: "string \<Rightarrow> sessions \<Rightarrow> GenerationSession option" where
  "getSession sid store = store sid"

definition updateSessionStatus ::
  "string \<Rightarrow> string \<Rightarrow> SessionStatus \<Rightarrow> string option \<Rightarrow> ErrorSummary option \<Rightarrow> sessions \<Rightarrow> sessions"
where
  "updateSessionStatus now sid st err details store =
    (case store sid of
       None \<Rightarrow> store
     | Some session \<Rightarrow>
         (let s1 = session\<lparr>sessionStatus := st, updatedAt := now\<rparr>;
              s2 = (if truthy err
                    then (let s3 = s1\<lparr>sessionError := err\<rparr>
                          in (if details \<noteq> None then s3\<lparr>errorDetails := details\<rparr> else s3))
                    else s1)
          in store(sid \<mapsto> s2)))"

text \<open>\<open>Array.prototype.findIndex\<close>; \<open>None\<close> stands for the result \<open>-1\<close>.\<close>

fun findIndex :: "('a \<Rightarrow> bool) \<Rightarrow> 'a list \<Rightarrow> nat option" where
  "findIndex p [] = None"
| "findIndex p (x # xs) =
     (if p x then Some 0 else (case findIndex p xs of None \<Rightarrow> None | Some i \<Rightarrow> Some (Suc i)))"

definition updateStageStatus ::
  "string \<Rightarrow> string \<Rightarrow> ProcessingStage \<Rightarrow> StageState \<Rightarrow> string option \<Rightarrow> int option
     \<Rightarrow> string option \<Rightarrow> sessions \<Rightarrow> sessions"
where
  "updateStageStatus timestamp sid stg st msg prog err store =
    (case store sid of
       None \<Rightarrow> store
     | Some session \<Rightarrow>
        (case findIndex (\<lambda>s. stage s = stg) (stages session) of
           None \<Rightarrow> store
         | Some stageIndex \<Rightarrow>
            (let stageStatus = (stages session ! stageIndex)
                   \<lparr>status := st, message := msg, progress := prog, error := err\<rparr>
             in if st = Processing \<and> \<not> truthy (startTime stageStatus) then
                  store(sid \<mapsto> session
                    \<lparr>stages := (stages session)[stageIndex := stageStatus\<lparr>startTime := Some timestamp\<rparr>],
                     currentStage := Some stg, updatedAt := timestamp\<rparr>)
                else if st = Completed \<or> st = Error then
                  store(sid \<mapsto> session
                    \<lparr>stages := (stages session)[stageIndex := stageStatus\<lparr>endTime := Some timestamp\<rparr>],
                     currentStage := (if currentStage session = Some stg then None
                                      else currentStage session),
                     updatedAt := timestamp\<rparr>)
                else
                  store(sid \<mapsto> session
                    \<lparr>stages := (stages session)[stageIndex := stageStatus],
                     updatedAt := timestamp\<rparr>))))"

definition updateSessionFinalVideo :: "string \<Rightarrow> string \<Rightarrow> string \<Rightarrow> sessions \<Rightarrow> sessions" where
  "updateSessionFinalVideo now sid videoPath store =
    (case store sid of
       None \<Rightarrow> store
     | Some session \<Rightarrow> store(sid \<mapsto> session\<lparr>finalVideoPath := Some videoPath, updatedAt := now\<rparr>))"

text \<open>
  \<open>Math.round((completedStages / totalStages) * 100)\<close>, rounding half up on the exact
  quotient. An empty stage list makes the quotient \<open>0/0\<close>, which is \<open>NaN\<close>; a session
  made by \<open>createSession\<close> has at least four stages. \<open>None\<close> in the \<open>progress\<close> field
  stands for \<open>NaN\<close>.
\<close>

record SessionProgress =
  progressPercent :: "int option"
  progressStage :: "ProcessingStage option"

definition getSessionProgress :: "string \<Rightarrow> sessions \<Rightarrow> SessionProgress" where
  "getSessionProgress sid store =
    (case store sid of
       None \<Rightarrow> \<lparr>progressPercent = Some 0, progressStage = None\<rparr>
     | Some session \<Rightarrow>
        (let totalStages = int (length (stages session));
             completedStages = int (length (filter (\<lambda>s. status s = Completed) (stages session)))
         in \<lparr>progressPercent =
               (if totalStages = 0 then None
                else Some ((200 * completedStages + totalStages) div (2 * totalStages))),
             progressStage = currentStage session\<rparr>))"

text \<open>The stage record of a session, as \<open>session.stages.find(s => s.stage === stage)\<close>.\<close>

definition stageOf :: "sessions \<Rightarrow> string \<Rightarrow> ProcessingStage \<Rightarrow> StageStatus option" where
  "stageOf store sid stg =
    (case store sid of None \<Rightarrow> None
     | Some session \<Rightarrow> find (\<lambda>s. stage s = stg) (stages session))"

text \<open>\<open>error.context?.reason\<close>, the marker the classifier stores on plain \<open>AppError\<close>s.\<close>

definition contextReason :: "AppError \<Rightarrow> CtxValue" where
  "contextReason err =
    (case errContext err of
       Fields fs \<Rightarrow> (case map_of fs ''reason'' of None \<Rightarrow> CUndefined | Some v \<Rightarrow> v)
     | _ \<Rightarrow> CUndefined)"

section \<open>Bounded retry (utils/retry.ts)\<close>

text \<open>
  A value that can be thrown: a raw error of a collaborator or an \<open>AppError\<close>.
  The retry predicates read \<open>error?.code\<close> and \<open>error?.response?.status\<close>; an
  \<open>AppError\<close> has neither property.
\<close>

datatype Thrown = RawErr RawError | AppErr AppError

definition thrownCode :: "Thrown \<Rightarrow> string option" where
  "thrownCode t = (case t of RawErr e \<Rightarrow> code e | AppErr a \<Rightarrow> None)"

definition thrownResponseStatus :: "Thrown \<Rightarrow> int option" where
  "thrownResponseStatus t = (case t of RawErr e \<Rightarrow> responseStatus e | AppErr a \<Rightarrow> None)"

text \<open>\<open>error instanceof Error ? error.message : String(error)\<close> on an error object.\<close>

definition thrownMessage :: "Thrown \<Rightarrow> string option" where
  "thrownMessage t = (case t of RawErr e \<Rightarrow> rawMessage e | AppErr a \<Rightarrow> Some (errMessage a))"

text \<open>\<open>status >= n\<close> and \<open>status === n\<close> are false on an undefined status.\<close>

definition statusAtLeast :: "int option \<Rightarrow> int \<Rightarrow> bool" where
  "statusAtLeast s n = (case s of None \<Rightarrow> False | Some v \<Rightarrow> v \<ge> n)"

record 'e RetryOptions =
  maxAttempts :: int
  baseDelayMs :: int
  maxDelayMs :: int
  backoffMultiplier :: int
  retryableErrors :: "('e \<Rightarrow> bool) option"

definition defaultRetryable :: "Thrown \<Rightarrow> bool" where
  "defaultRetryable e =
    (if thrownCode e = Some ''ECONNRESET'' \<or> thrownCode e = Some ''ETIMEDOUT'' then True
     else if statusAtLeast (thrownResponseStatus e) 500 then True
     else if thrownResponseStatus e = Some 429 then True
     else False)"

definition DEFAULT_RETRY_OPTIONS :: "Thrown RetryOptions" where
  "DEFAULT_RETRY_OPTIONS =
     \<lparr>maxAttempts = 3, baseDelayMs = 1000, maxDelayMs = 30000, backoffMultiplier = 2,
      retryableErrors = Some defaultRetryable\<rparr>"

text \<open>
  \<open>Partial<RetryOptions>\<close> and the merge \<open>{ ...DEFAULT_RETRY_OPTIONS, ...options }\<close>.
  A key that is absent keeps the default; \<open>retryableErrors\<close> may also be present with
  the value \<open>undefined\<close> (\<open>Some None\<close>), which the spread copies over the default.
\<close>

record 'e PartialRetryOptions =
  pMaxAttempts :: "int option"
  pBaseDelayMs :: "int option"
  pMaxDelayMs :: "int option"
  pBackoffMultiplier :: "int option"
  pRetryableErrors :: "('e \<Rightarrow> bool) option option"

definition mergeOptions :: "'e RetryOptions \<Rightarrow> 'e PartialRetryOptions \<Rightarrow> 'e RetryOptions" where
  "mergeOptions d p =
     \<lparr>maxAttempts = (case pMaxAttempts p of None \<Rightarrow> maxAttempts d | Some v \<Rightarrow> v),
      baseDelayMs = (case pBaseDelayMs p of None \<Rightarrow> baseDelayMs d | Some v \<Rightarrow> v),
      maxDelayMs = (case pMaxDelayMs p of None \<Rightarrow> maxDelayMs d | Some v \<Rightarrow> v),
      backoffMultiplier = (case pBackoffMultiplier p of None \<Rightarrow> backoffMultiplier d | Some v \<Rightarrow> v),
      retryableErrors = (case pRetryableErrors p of None \<Rightarrow> retryableErrors d | Some v \<Rightarrow> v)\<rparr>"

definition openaiRetryable :: "Thrown \<Rightarrow> bool" where
  "openaiRetryable e =
    (if thrownResponseStatus e = Some 429 then True
     else if statusAtLeast (thrownResponseStatus e) 500 then True
     else if thrownCode e = Some ''ECONNRESET'' then True
     else False)"

definition OPENAI_RETRY_OPTIONS :: "Thrown PartialRetryOptions" where
  "OPENAI_RETRY_OPTIONS =
     \<lparr>pMaxAttempts = Some 3, pBaseDelayMs = Some 2000, pMaxDelayMs = None,
      pBackoffMultiplier = None, pRetryableErrors = Some (Some openaiRetryable)\<rparr>"

definition replicateRetryable :: "Thrown \<Rightarrow> bool" where
  "replicateRetryable e =
    (if thrownResponseStatus e = Some 429 then True
     else if statusAtLeast (thrownResponseStatus e) 500 then True
     else if thrownResponseStatus e = Some 503 then True
     else False)"

definition REPLICATE_RETRY_OPTIONS :: "Thrown PartialRetryOptions" where
  "REPLICATE_RETRY_OPTIONS =
     \<lparr>pMaxAttempts = Some 3, pBaseDelayMs = Some 5000, pMaxDelayMs = Some 60000,
      pBackoffMultiplier = None, pRetryableErrors = Some (Some replicateRetryable)\<rparr>"

definition elevenlabsRetryable :: "Thrown \<Rightarrow> bool" where
  "elevenlabsRetryable e =
    (if thrownResponseStatus e = Some 429 then True
     else if statusAtLeast (thrownResponseStatus e) 500 then True
     else False)"

definition ELEVENLABS_RETRY_OPTIONS :: "Thrown PartialRetryOptions" where
  "ELEVENLABS_RETRY_OPTIONS =
     \<lparr>pMaxAttempts = Some 3, pBaseDelayMs = Some 3000, pMaxDelayMs = None,
      pBackoffMultiplier = None, pRetryableErrors = Some (Some elevenlabsRetryable)\<rparr>"

text \<open>
  An operation is a step on a state \<open>'s\<close> (whatever the operation touches) that returns
  a value or throws. The outcome of a retry loop records the value returned or thrown
  (\<open>Inl None\<close> is \<open>throw undefined\<close>, or \<open>throw null\<close> in \<open>executeWithRetry\<close>: the loop
  body never ran), how many times the operation was invoked, and the delays slept between
  attempts before jitter. The random jitter and the log lines are not modelled.
\<close>

type_synonym ('s, 'e, 'a) operation = "'s \<Rightarrow> ('e + 'a) \<times> 's"

record ('e, 'a) RetryOutcome =
  outcome :: "'e option + 'a"
  invocations :: nat
  delays :: "int list"

definition isRetryableBy :: "'e RetryOptions \<Rightarrow> 'e \<Rightarrow> bool" where
  "isRetryableBy opts e = (case retryableErrors opts of Some p \<Rightarrow> p e | None \<Rightarrow> True)"

definition backoffDelay :: "'e RetryOptions \<Rightarrow> nat \<Rightarrow> int" where
  "backoffDelay opts attempt =
     min (baseDelayMs opts * backoffMultiplier opts ^ (attempt - 1)) (maxDelayMs opts)"

function withRetryLoop ::
  "('s, 'e, 'a) operation \<Rightarrow> 'e RetryOptions \<Rightarrow> nat \<Rightarrow> 'e option \<Rightarrow> nat \<Rightarrow> int list \<Rightarrow> 's
     \<Rightarrow> ('e, 'a) RetryOutcome \<times> 's"
where
  "withRetryLoop operation opts attempt lastError n ds s =
    (if int attempt \<le> maxAttempts opts then
       (case operation s of
          (Inr r, s') \<Rightarrow> (\<lparr>outcome = Inr r, invocations = n + 1, delays = ds\<rparr>, s')
        | (Inl e, s') \<Rightarrow>
            (let isRetryable = isRetryableBy opts e;
                 isLastAttempt = (int attempt = maxAttempts opts)
             in if \<not> isRetryable \<or> isLastAttempt
                then (\<lparr>outcome = Inl (Some e), invocations = n + 1, delays = ds\<rparr>, s')
                else withRetryLoop operation opts (attempt + 1) (Some e) (n + 1)
                       (ds @ [backoffDelay opts attempt]) s'))
     else (\<lparr>outcome = Inl lastError, invocations = n, delays = ds\<rparr>, s))"
  by pat_completeness auto
termination
  by (relation "measure (\<lambda>(operation, opts, attempt, lastError, n, ds, s).
        nat (maxAttempts opts + 1 - int attempt))") auto

declare withRetryLoop.simps [simp del]

definition withRetry ::
  "('s, 'e, 'a) operation \<Rightarrow> 'e RetryOptions \<Rightarrow> 's \<Rightarrow> ('e, 'a) RetryOutcome \<times> 's"
where
  "withRetry operation opts s = withRetryLoop operation opts 1 None 0 [] s"

section \<open>The stage executor (VideoGeneratorService.executeWithRetry)\<close>

text \<open>\<open>getRetryDelay\<close> before its random jitter: \<open>baseDelay * 2 ^ (attempt - 1)\<close>.\<close>

definition getRetryDelay :: "nat \<Rightarrow> int \<Rightarrow> int" where
  "getRetryDelay attempt baseDelay = baseDelay * 2 ^ (attempt - 1)"

definition stageErrorContext :: "string \<Rightarrow> string \<Rightarrow> nat \<Rightarrow> ErrorContext" where
  "stageErrorContext sid stg attempt =
     \<lparr>ctxSessionId = Some sid, ctxStage = Some stg, ctxService = None,
      ctxAttempt = Some (int attempt), ctxTimestamp = None\<rparr>"

text \<open>\<open>error instanceof AppError ? error : handleServiceError(error, context)\<close>.\<close>

definition toAppError :: "Thrown \<Rightarrow> ErrorContext \<Rightarrow> AppError" where
  "toAppError t c = (case t of AppErr a \<Rightarrow> a | RawErr e \<Rightarrow> handleServiceError e c)"

function executeWithRetryLoop ::
  "('s, Thrown, 'a) operation \<Rightarrow> string \<Rightarrow> string \<Rightarrow> int \<Rightarrow> nat \<Rightarrow> AppError option \<Rightarrow> nat
     \<Rightarrow> int list \<Rightarrow> 's \<Rightarrow> (AppError, 'a) RetryOutcome \<times> 's"
where
  "executeWithRetryLoop operation stg sid maxRetries attempt lastError n ds s =
    (if int attempt \<le> maxRetries then
       (case operation s of
          (Inr r, s') \<Rightarrow> (\<lparr>outcome = Inr r, invocations = n + 1, delays = ds\<rparr>, s')
        | (Inl err, s') \<Rightarrow>
            (let appError = toAppError err (stageErrorContext sid stg attempt)
             in if \<not> shouldRetry appError (int attempt) maxRetries
                then (\<lparr>outcome = Inl (Some appError), invocations = n + 1, delays = ds\<rparr>, s')
                else executeWithRetryLoop operation stg sid maxRetries (attempt + 1)
                       (Some appError) (n + 1) (ds @ [getRetryDelay attempt 1000]) s'))
     else (\<lparr>outcome = Inl lastError, invocations = n, delays = ds\<rparr>, s))"
  by pat_completeness auto
termination
proof (relation "measure (\<lambda>(operation, stg, sid, maxRetries, attempt, lastError, n, ds, s).
        nat (maxRetries + 1 - int attempt))", goal_cases)
  case 1
  show ?case by simp
next
  case (2 operation stg sid maxRetries attempt lastError n ds s x y e appError)
  then show ?case by simp
qed

declare executeWithRetryLoop.simps [simp del]

definition executeWithRetry ::
  "('s, Thrown, 'a) operation \<Rightarrow> string \<Rightarrow> string \<Rightarrow> int \<Rightarrow> 's \<Rightarrow> (AppError, 'a) RetryOutcome \<times> 's"
where
  "executeWithRetry operation stg sid maxRetries s =
     executeWithRetryLoop operation stg sid maxRetries 1 None 0 [] s"

section \<open>The world around the pipeline\<close>

text \<open>
  Everything the services do besides computing is an interaction with the outside: the
  clock, the uuid generator, the file system, the vendor APIs and the ffmpeg binary.
  Each interaction is appended to a log, and what the outside answers is a function of
  the log so far, so an environment may answer the same request differently each time
  (fail twice, then succeed). Media files are a map from paths to contents; the
  \<open>artifacts.json\<close> documents are a second map. A buffer read from a file is the pair of
  the path it was read from and the content.
\<close>

type_synonym buffer = "string \<times> string"

datatype ReplicateOutput =
  OutputMissing | OutputString string | OutputArray "string list" | OutputUrl string
  | OutputOther

record ReplicateInput =
  inputPrompt :: string
  inputImages :: "buffer list"
  inputFormat :: "string option"

record FetchResponse =
  responseOk :: bool
  responseCode :: int
  responseText :: string
  responseBody :: string

text \<open>
  The \<open>sceneNumber\<close> property of a scene after \<open>JSON.parse\<close>, as \<open>generatePrompts\<close>
  looks at it: a number (\<open>typeof\<close> gives \<open>number\<close>; scene numbers are integers that
  JavaScript represents exactly and prints in decimal, other numbers are not modelled),
  or any other value, kept as the text a
  template literal prints for it: a string prints as itself, \<open>null\<close> as \<open>null\<close>, a
  missing property as \<open>undefined\<close>, \<open>true\<close> as \<open>true\<close>, an object as
  \<open>[object Object]\<close>.
\<close>

datatype JsValue = JsNumber int | JsOther string

fun numberOf :: "JsValue \<Rightarrow> int" where
  "numberOf (JsNumber n) = n"

record ParsedScene =
  parsedSceneNumber :: JsValue
  parsedImagePrompt :: "string option"
  parsedVideoPrompt :: "string option"

record ParsedPrompts =
  parsedScenePrompts :: "ParsedScene list option"
  parsedVoiceoverScript :: "string option"
  parsedMusicPrompt :: "string option"

text \<open>The content of a chat completion after \<open>JSON.parse\<close>: missing, not JSON (with
  the parser's message), or an object. \<open>scenePrompts\<close> is \<open>None\<close> when it is missing
  or not an array; a prompt or script is \<open>None\<close> when it is missing, \<open>null\<close> or another
  falsy value that is not a string, and is otherwise taken to be a string, as declared.\<close>

datatype ChatContent = NoContent | InvalidJson string | ParsedContent ParsedPrompts

datatype Call =
    Now
  | Uuid
  | EnsureDir string
  | WriteFile string string
  | WriteJson string
  | CopyFile string string
  | ChatCompletion int string bool bool
  | ReplicateRun int string ReplicateInput
  | Fetch string
  | KlingSceneVideos "string option list" "string list" string int
  | BackgroundMusic string int string
  | FfmpegConcat "string list" string string
  | FfmpegProbe string
  | FfmpegMix "string list" "string option" string

record AudioPaths =
  voiceoverPaths :: "string list option"
  musicPath :: "string option"

record Artifacts =
  artSessionId :: "string option"
  artTimestamp :: "string option"
  artPrompts :: "GeneratedPrompts option"
  artImagePaths :: "string list option"
  artVideoPaths :: "string list option"
  artAudioPaths :: "AudioPaths option"
  artFinalVideoPath :: "string option"

record World =
  sessions :: sessions
  files :: "string \<rightharpoonup> string"
  jsonFiles :: "string \<rightharpoonup> Artifacts"
  calls :: "Call list"

record Env =
  clockEnv :: "Call list \<Rightarrow> string"
  uuidEnv :: "Call list \<Rightarrow> string"
  fsFailure :: "Call list \<Rightarrow> Call \<Rightarrow> RawError option"
  chatEnv :: "Call list \<Rightarrow> Call \<Rightarrow> RawError + ChatContent"
  replicateEnv :: "Call list \<Rightarrow> Call \<Rightarrow> RawError + ReplicateOutput"
  fetchEnv :: "Call list \<Rightarrow> Call \<Rightarrow> RawError + FetchResponse"
  klingEnv :: "Call list \<Rightarrow> Call \<Rightarrow> RawError + (string \<times> string) list"
  musicEnv :: "Call list \<Rightarrow> Call \<Rightarrow> RawError + string"
  ffmpegEnv :: "Call list \<Rightarrow> Call \<Rightarrow> string + string"
  probeEnv :: "Call list \<Rightarrow> Call \<Rightarrow> RawError + bool"
  pathJoin :: "string list \<Rightarrow> string"
  pathDirname :: "string \<Rightarrow> string"
  imagesDir :: string
  videoDir :: string
  runsDir :: string
  cwd :: string
  sceneDurationSeconds :: int

text \<open>Sequencing of operations that may throw, and \<open>try { m } catch (e) { h e }\<close>.\<close>

definition returnOp :: "'a \<Rightarrow> ('s, 'e, 'a) operation" where
  "returnOp x s = (Inr x, s)"

definition throwOp :: "'e \<Rightarrow> ('s, 'e, 'a) operation" where
  "throwOp e s = (Inl e, s)"

definition bindOp :: "('s, 'e, 'a) operation \<Rightarrow> ('a \<Rightarrow> ('s, 'e, 'b) operation) \<Rightarrow> ('s, 'e, 'b) operation" where
  "bindOp m f s = (case m s of (Inl e, s') \<Rightarrow> (Inl e, s') | (Inr x, s') \<Rightarrow> f x s')"

definition catchOp :: "('s, 'e, 'a) operation \<Rightarrow> ('e \<Rightarrow> ('s, 'e, 'a) operation) \<Rightarrow> ('s, 'e, 'a) operation" where
  "catchOp m h s = (case m s of (Inl e, s') \<Rightarrow> h e s' | (Inr x, s') \<Rightarrow> (Inr x, s'))"

definition modifyOp :: "('s \<Rightarrow> 's) \<Rightarrow> ('s, 'e, unit) operation" where
  "modifyOp f s = (Inr (), f s)"

text \<open>\<open>new Error(msg)\<close>.\<close>

definition newError :: "string \<Rightarrow> Thrown" where
  "newError msg =
     RawErr \<lparr>code = None, rawMessage = Some msg, retry_after = None, path = None,
             responseStatus = None\<rparr>"

definition logCall :: "Call \<Rightarrow> World \<Rightarrow> World" where
  "logCall c w = w\<lparr>calls := calls w @ [c]\<rparr>"

definition nowOp :: "Env \<Rightarrow> (World, 'e, string) operation" where
  "nowOp env w = (Inr (clockEnv env (calls w)), logCall Now w)"

definition uuidv4 :: "Env \<Rightarrow> (World, 'e, string) operation" where
  "uuidv4 env w = (Inr (uuidEnv env (calls w)), logCall Uuid w)"

subsection \<open>File system (fs-extra)\<close>

definition enoent :: "string \<Rightarrow> Thrown" where
  "enoent p =
     RawErr \<lparr>code = Some ''ENOENT'',
             rawMessage = Some (''ENOENT: no such file or directory, open '' @ p),
             retry_after = None, path = Some p, responseStatus = None\<rparr>"

definition existsSync :: "string \<Rightarrow> World \<Rightarrow> bool" where
  "existsSync p w = (files w p \<noteq> None)"

definition readFile :: "string \<Rightarrow> (World, Thrown, buffer) operation" where
  "readFile p w = (case files w p of None \<Rightarrow> (Inl (enoent p), w) | Some c \<Rightarrow> (Inr (p, c), w))"

definition ensureDir :: "Env \<Rightarrow> string \<Rightarrow> (World, Thrown, unit) operation" where
  "ensureDir env p w =
    (case fsFailure env (calls w) (EnsureDir p) of
       Some e \<Rightarrow> (Inl (RawErr e), logCall (EnsureDir p) w)
     | None \<Rightarrow> (Inr (), logCall (EnsureDir p) w))"

definition writeFile :: "Env \<Rightarrow> string \<Rightarrow> string \<Rightarrow> (World, Thrown, unit) operation" where
  "writeFile env p c w =
    (case fsFailure env (calls w) (WriteFile p c) of
       Some e \<Rightarrow> (Inl (RawErr e), logCall (WriteFile p c) w)
     | None \<Rightarrow> (Inr (), logCall (WriteFile p c) (w\<lparr>files := (files w)(p \<mapsto> c)\<rparr>)))"

definition copyFile :: "Env \<Rightarrow> string \<Rightarrow> string \<Rightarrow> (World, Thrown, unit) operation" where
  "copyFile env src dst w =
    (case files w src of
       None \<Rightarrow> (Inl (enoent src), logCall (CopyFile src dst) w)
     | Some c \<Rightarrow>
        (case fsFailure env (calls w) (CopyFile src dst) of
           Some e \<Rightarrow> (Inl (RawErr e), logCall (CopyFile src dst) w)
         | None \<Rightarrow> (Inr (), logCall (CopyFile src dst) (w\<lparr>files := (files w)(dst \<mapsto> c)\<rparr>))))"

definition readJson :: "string \<Rightarrow> (World, Thrown, Artifacts) operation" where
  "readJson p w = (case jsonFiles w p of None \<Rightarrow> (Inl (enoent p), w) | Some a \<Rightarrow> (Inr a, w))"

definition writeJson :: "Env \<Rightarrow> string \<Rightarrow> Artifacts \<Rightarrow> (World, Thrown, unit) operation" where
  "writeJson env p a w =
    (case fsFailure env (calls w) (WriteJson p) of
       Some e \<Rightarrow> (Inl (RawErr e), logCall (WriteJson p) w)
     | None \<Rightarrow> (Inr (), logCall (WriteJson p) (w\<lparr>jsonFiles := (jsonFiles w)(p \<mapsto> a)\<rparr>)))"

subsection \<open>Session manager methods acting on the world\<close>

definition smCreateSession ::
  "Env \<Rightarrow> GenerationRequest \<Rightarrow> string \<Rightarrow> World \<Rightarrow> GenerationSession \<times> World" where
  "smCreateSession env req imagePath w =
    (let sid = uuidEnv env (calls w);
         w1 = logCall Uuid w;
         timestamp = clockEnv env (calls w1);
         w2 = logCall Now w1
     in (fst (createSession sid timestamp req imagePath (sessions w2)),
         w2\<lparr>sessions := snd (createSession sid timestamp req imagePath (sessions w2))\<rparr>))"

definition smUpdateSessionStatus ::
  "Env \<Rightarrow> string \<Rightarrow> SessionStatus \<Rightarrow> string option \<Rightarrow> ErrorSummary option
     \<Rightarrow> (World, 'e, unit) operation" where
  "smUpdateSessionStatus env sid st err details w =
    (if sessions w sid = None then (Inr (), w)
     else bindOp (nowOp env) (\<lambda>timestamp.
            modifyOp (\<lambda>w'. w'\<lparr>sessions := updateSessionStatus timestamp sid st err details (sessions w')\<rparr>))
          w)"

definition smUpdateStageStatus ::
  "Env \<Rightarrow> string \<Rightarrow> ProcessingStage \<Rightarrow> StageState \<Rightarrow> string option \<Rightarrow> int option
     \<Rightarrow> string option \<Rightarrow> (World, 'e, unit) operation" where
  "smUpdateStageStatus env sid stg st msg prog err w =
    (if stageOf (sessions w) sid stg = None then (Inr (), w)
     else bindOp (nowOp env) (\<lambda>timestamp.
            modifyOp (\<lambda>w'. w'\<lparr>sessions :=
              updateStageStatus timestamp sid stg st msg prog err (sessions w')\<rparr>))
          w)"

definition smUpdateSessionFinalVideo :: "Env \<Rightarrow> string \<Rightarrow> string \<Rightarrow> (World, 'e, unit) operation" where
  "smUpdateSessionFinalVideo env sid videoPath w =
    (if sessions w sid = None then (Inr (), w)
     else bindOp (nowOp env) (\<lambda>timestamp.
            modifyOp (\<lambda>w'. w'\<lparr>sessions := updateSessionFinalVideo timestamp sid videoPath (sessions w')\<rparr>))
          w)"

fun ensureAll :: "Env \<Rightarrow> string list \<Rightarrow> (World, Thrown, unit) operation" where
  "ensureAll env [] = returnOp ()"
| "ensureAll env (d # ds) = bindOp (ensureDir env d) (\<lambda>_. ensureAll env ds)"

definition ensureSessionDirectories :: "Env \<Rightarrow> string \<Rightarrow> (World, Thrown, unit) operation" where
  "ensureSessionDirectories env sid =
     ensureAll env [pathJoin env [imagesDir env, sid], pathJoin env [videoDir env, sid],
                    pathJoin env [runsDir env, sid]]"

text \<open>
  \<open>saveSessionArtifacts\<close> writes \<open>{ sessionId, timestamp, ...artifacts }\<close>: the
  properties of \<open>artifacts\<close> come last, so a document read back and saved again keeps
  the session id and timestamp it already has. A failed write is logged and swallowed.
\<close>

definition emptyArtifacts :: Artifacts where
  "emptyArtifacts =
     \<lparr>artSessionId = None, artTimestamp = None, artPrompts = None, artImagePaths = None,
      artVideoPaths = None, artAudioPaths = None, artFinalVideoPath = None\<rparr>"

definition saveSessionArtifacts :: "Env \<Rightarrow> string \<Rightarrow> Artifacts \<Rightarrow> (World, Thrown, unit) operation" where
  "saveSessionArtifacts env sid a =
     bindOp (nowOp env) (\<lambda>timestamp.
       catchOp
         (writeJson env (pathJoin env [runsDir env, sid, ''artifacts.json''])
            (a\<lparr>artSessionId := (case artSessionId a of None \<Rightarrow> Some sid | Some v \<Rightarrow> Some v),
               artTimestamp := (case artTimestamp a of None \<Rightarrow> Some timestamp | Some v \<Rightarrow> Some v)\<rparr>))
         (\<lambda>e. returnOp ()))"

section \<open>Prompt generation (services/openai.ts)\<close>

definition chatCompletion ::
  "Env \<Rightarrow> int \<Rightarrow> string \<Rightarrow> bool \<Rightarrow> bool \<Rightarrow> (World, Thrown, ChatContent) operation" where
  "chatCompletion env n descr voice music w =
    (case chatEnv env (calls w) (ChatCompletion n descr voice music) of
       Inl e \<Rightarrow> (Inl (RawErr e), logCall (ChatCompletion n descr voice music) w)
     | Inr c \<Rightarrow> (Inr c, logCall (ChatCompletion n descr voice music) w))"

text \<open>\<open>!scene.imagePrompt || !scene.videoPrompt || typeof scene.sceneNumber !== 'number'\<close>.\<close>

definition isNumber :: "JsValue \<Rightarrow> bool" where
  "isNumber v = (case v of JsNumber n \<Rightarrow> True | JsOther s \<Rightarrow> False)"

definition invalidScene :: "ParsedScene \<Rightarrow> bool" where
  "invalidScene sc =
     (\<not> truthy (parsedImagePrompt sc) \<or> \<not> truthy (parsedVideoPrompt sc)
      \<or> \<not> isNumber (parsedSceneNumber sc))"

text \<open>\<open>${scene.sceneNumber}\<close>: the value itself, whatever its type.\<close>

definition showSceneNumber :: "ParsedScene \<Rightarrow> string" where
  "showSceneNumber sc =
     (case parsedSceneNumber sc of JsNumber n \<Rightarrow> showInt n | JsOther s \<Rightarrow> s)"

definition typedScene :: "ParsedScene \<Rightarrow> ScenePrompts" where
  "typedScene sc =
     \<lparr>sceneNumber = numberOf (parsedSceneNumber sc), imagePrompt = the (parsedImagePrompt sc),
      videoPrompt = the (parsedVideoPrompt sc)\<rparr>"

text \<open>
  The checks of \<open>generatePrompts\<close> on the parsed response, in the source's order. Every
  failure is a plain \<open>new Error(...)\<close>. On success the same object is returned; here it
  is given its declared type, every field having passed its check.
\<close>

definition validatePrompts :: "int \<Rightarrow> bool \<Rightarrow> bool \<Rightarrow> ParsedPrompts \<Rightarrow> Thrown + GeneratedPrompts" where
  "validatePrompts n voice music p =
    (case parsedScenePrompts p of
       None \<Rightarrow> Inl (newError ''Invalid response structure: missing scenePrompts array'')
     | Some scenes \<Rightarrow>
        if int (length scenes) \<noteq> n then
          Inl (newError (''Expected '' @ showInt n @ '' scenes, got '' @ showNat (length scenes)))
        else (case find invalidScene scenes of
          Some sc \<Rightarrow>
            Inl (newError (''Invalid scene prompt structure for scene '' @ showSceneNumber sc))
        | None \<Rightarrow>
            if voice \<and> \<not> truthy (parsedVoiceoverScript p) then
              Inl (newError ''Voiceover requested but not provided in response'')
            else if music \<and> \<not> truthy (parsedMusicPrompt p) then
              Inl (newError ''Music requested but not provided in response'')
            else Inr \<lparr>scenePrompts = map typedScene scenes,
                      voiceoverScript = parsedVoiceoverScript p,
                      musicPrompt = parsedMusicPrompt p\<rparr>))"

definition openaiGeneratePrompts ::
  "Env \<Rightarrow> int \<Rightarrow> string \<Rightarrow> bool \<Rightarrow> bool \<Rightarrow> string \<Rightarrow> (World, Thrown, GeneratedPrompts) operation" where
  "openaiGeneratePrompts env n descr voice music sid =
     catchOp
       (bindOp (chatCompletion env n descr voice music) (\<lambda>content.
          case content of
            NoContent \<Rightarrow> throwOp (newError ''No content received from OpenAI'')
          | InvalidJson m \<Rightarrow> throwOp (newError (''Invalid JSON in OpenAI response: '' @ m))
          | ParsedContent p \<Rightarrow>
              (case validatePrompts n voice music p of
                 Inl e \<Rightarrow> throwOp e
               | Inr prompts \<Rightarrow> returnOp prompts)))
       (\<lambda>e. throwOp e)"

section \<open>Scene images with a rolling reference (services/image.ts)\<close>

definition sceneOutputPath :: "Env \<Rightarrow> string \<Rightarrow> nat \<Rightarrow> string" where
  "sceneOutputPath env sid n =
     pathJoin env [imagesDir env, sid, ''scene-'' @ showNat n @ ''.png'']"

text \<open>\<open>options.includeOriginalAnchor\<close> as a condition: absent is falsy.\<close>

definition anchorRequested :: "ImageGenerationOptions \<Rightarrow> bool" where
  "anchorRequested opts = (includeOriginalAnchor opts = Some True)"

definition replicateRun :: "Env \<Rightarrow> nat \<Rightarrow> string \<Rightarrow> ReplicateInput \<Rightarrow> (World, Thrown, ReplicateOutput) operation" where
  "replicateRun env n model inp w =
    (case replicateEnv env (calls w) (ReplicateRun (int n) model inp) of
       Inl e \<Rightarrow> (Inl (RawErr e), logCall (ReplicateRun (int n) model inp) w)
     | Inr out \<Rightarrow> (Inr out, logCall (ReplicateRun (int n) model inp) w))"

text \<open>
  The operation that \<open>generateSingleSceneImage\<close> hands to \<open>withRetry\<close>: read the
  reference image (and the original image when the anchor is requested), call the
  model, extract the URL of the result. For \<open>nano-banana\<close> the images sent are the
  reference followed by the anchor; for \<open>ideogram\<close> the reference alone.
\<close>

definition imageModelOperation ::
  "Env \<Rightarrow> ScenePrompts \<Rightarrow> string \<Rightarrow> string \<Rightarrow> nat \<Rightarrow> ImageGenerationOptions
     \<Rightarrow> (World, Thrown, string) operation" where
  "imageModelOperation env scene referenceImagePath originalPath n opts =
     bindOp (readFile referenceImagePath) (\<lambda>referenceImageBuffer.
     bindOp (if anchorRequested opts
             then bindOp (readFile originalPath) (\<lambda>b. returnOp (Some b))
             else returnOp None) (\<lambda>originalAnchorBuffer.
     bindOp (if provider opts = NanoBanana
             then replicateRun env n ''google/nano-banana''
                    \<lparr>inputPrompt = imagePrompt scene,
                     inputImages = (case originalAnchorBuffer of
                                      Some a \<Rightarrow> [referenceImageBuffer, a]
                                    | None \<Rightarrow> [referenceImageBuffer]),
                     inputFormat = Some (orElse (outputFormat opts) ''png'')\<rparr>
             else replicateRun env n ''ideogram-ai/ideogram-character''
                    \<lparr>inputPrompt = imagePrompt scene,
                     inputImages = [referenceImageBuffer],
                     inputFormat = None\<rparr>) (\<lambda>out.
       case out of
         OutputMissing \<Rightarrow>
           throwOp (newError ''Invalid output from image model API - no output received'')
       | OutputString url \<Rightarrow>
           (if url = [] then
              throwOp (newError ''Invalid output from image model API - no output received'')
            else returnOp url)
       | OutputArray urls \<Rightarrow>
           (case urls of
              u # _ \<Rightarrow> returnOp u
            | [] \<Rightarrow> throwOp (newError ''Unable to extract URL from image model API output''))
       | OutputUrl url \<Rightarrow>
           (if url = [] then
              throwOp (newError ''Unable to extract URL from image model API output'')
            else returnOp url)
       | OutputOther \<Rightarrow>
           throwOp (newError ''Unable to extract URL from image model API output''))))"

definition fetchUrl :: "Env \<Rightarrow> string \<Rightarrow> (World, Thrown, FetchResponse) operation" where
  "fetchUrl env url w =
    (case fetchEnv env (calls w) (Fetch url) of
       Inl e \<Rightarrow> (Inl (RawErr e), logCall (Fetch url) w)
     | Inr r \<Rightarrow> (Inr r, logCall (Fetch url) w))"

text \<open>\<open>withRetry\<close> as the services call it: the outcome's value is returned, the last
  error is thrown. A policy with at least one attempt never throws \<open>undefined\<close>; the
  model rethrows it as an error without message.\<close>

definition undefinedThrown :: Thrown where
  "undefinedThrown =
     RawErr \<lparr>code = None, rawMessage = None, retry_after = None, path = None,
             responseStatus = None\<rparr>"

definition withRetryOp ::
  "(World, Thrown, 'a) operation \<Rightarrow> Thrown RetryOptions \<Rightarrow> (World, Thrown, 'a) operation" where
  "withRetryOp operation opts w =
    (case withRetry operation opts w of
       (r, w') \<Rightarrow>
         (case outcome r of
            Inr v \<Rightarrow> (Inr v, w')
          | Inl (Some e) \<Rightarrow> (Inl e, w')
          | Inl None \<Rightarrow> (Inl undefinedThrown, w')))"

definition generateSingleSceneImage ::
  "Env \<Rightarrow> ScenePrompts \<Rightarrow> string \<Rightarrow> string \<Rightarrow> string \<Rightarrow> nat \<Rightarrow> ImageGenerationOptions
     \<Rightarrow> (World, Thrown, string) operation" where
  "generateSingleSceneImage env scene referenceImagePath originalPath sid n opts =
     bindOp (ensureDir env (pathDirname env (sceneOutputPath env sid n))) (\<lambda>_.
       catchOp
         (bindOp (withRetryOp
                    (imageModelOperation env scene referenceImagePath originalPath n opts)
                    (mergeOptions DEFAULT_RETRY_OPTIONS REPLICATE_RETRY_OPTIONS)) (\<lambda>imageUrl.
          bindOp (fetchUrl env imageUrl) (\<lambda>response.
            if \<not> responseOk response then
              throwOp (newError (''Failed to download image: '' @ showInt (responseCode response)
                                  @ '' '' @ responseText response))
            else bindOp (writeFile env (sceneOutputPath env sid n) (responseBody response))
                   (\<lambda>_. returnOp (sceneOutputPath env sid n)))))
         (\<lambda>e. throwOp e))"

text \<open>The loop of \<open>generateSceneImages\<close>: \<open>i\<close> is the zero-based index of the next
  scene, \<open>previousImagePath\<close> the rolling reference, \<open>imagePaths\<close> the paths so far.\<close>

fun sceneImagesLoop ::
  "Env \<Rightarrow> string \<Rightarrow> string \<Rightarrow> ImageGenerationOptions \<Rightarrow> ScenePrompts list \<Rightarrow> nat \<Rightarrow> string
     \<Rightarrow> string list \<Rightarrow> (World, Thrown, string list) operation" where
  "sceneImagesLoop env originalPath sid opts [] i previousImagePath imagePaths =
     returnOp imagePaths"
| "sceneImagesLoop env originalPath sid opts (scene # rest) i previousImagePath imagePaths =
     bindOp (generateSingleSceneImage env scene previousImagePath originalPath sid (i + 1) opts)
       (\<lambda>sceneImagePath.
          sceneImagesLoop env originalPath sid opts rest (i + 1) sceneImagePath
            (imagePaths @ [sceneImagePath]))"

definition generateSceneImages ::
  "Env \<Rightarrow> ScenePrompts list \<Rightarrow> string \<Rightarrow> string \<Rightarrow> ImageGenerationOptions
     \<Rightarrow> (World, Thrown, string list) operation" where
  "generateSceneImages env scenes originalPath sid opts =
     sceneImagesLoop env originalPath sid opts scenes 0 originalPath []"

section \<open>Collaborators taken whole: Kling videos and ElevenLabs music\<close>

text \<open>
  \<open>KlingService.generateSceneVideos\<close> and \<open>ElevenLabsService.generateBackgroundMusic\<close>
  are each one interaction: the environment either fails or delivers the files the
  service has written when it returns (one video per scene, with the paths the service
  chose; the music track at \<open>runs/<session>/audio/background_music.mp3\<close>).
\<close>

fun writeAll :: "(string \<times> string) list \<Rightarrow> (string \<rightharpoonup> string) \<Rightarrow> (string \<rightharpoonup> string)" where
  "writeAll [] fs = fs"
| "writeAll ((p, c) # rest) fs = writeAll rest (fs(p \<mapsto> c))"

definition klingGenerateSceneVideos ::
  "Env \<Rightarrow> string option list \<Rightarrow> string list \<Rightarrow> string \<Rightarrow> int \<Rightarrow> (World, Thrown, string list) operation" where
  "klingGenerateSceneVideos env prompts imgs sid duration w =
    (case klingEnv env (calls w) (KlingSceneVideos prompts imgs sid duration) of
       Inl e \<Rightarrow> (Inl (RawErr e), logCall (KlingSceneVideos prompts imgs sid duration) w)
     | Inr vs \<Rightarrow>
         (Inr (map fst vs),
          logCall (KlingSceneVideos prompts imgs sid duration)
            (w\<lparr>files := writeAll vs (files w)\<rparr>)))"

definition generateBackgroundMusic ::
  "Env \<Rightarrow> string \<Rightarrow> int \<Rightarrow> string \<Rightarrow> (World, Thrown, string) operation" where
  "generateBackgroundMusic env prompt duration sid w =
    (case musicEnv env (calls w) (BackgroundMusic prompt duration sid) of
       Inl e \<Rightarrow> (Inl (RawErr e), logCall (BackgroundMusic prompt duration sid) w)
     | Inr c \<Rightarrow>
         (Inr (pathJoin env [pathJoin env [pathJoin env [runsDir env, sid], ''audio''],
                             ''background_music.mp3'']),
          logCall (BackgroundMusic prompt duration sid)
            (w\<lparr>files := (files w)
               (pathJoin env [pathJoin env [pathJoin env [runsDir env, sid], ''audio''],
                              ''background_music.mp3''] \<mapsto> c)\<rparr>)))"

section \<open>Media assembly (services/ffmpeg.ts)\<close>

text \<open>\<open>buildConcatVideoInputs\<close>: the labels \<open>[0:v][1:v]...\<close>.\<close>

definition buildConcatVideoInputs :: "nat \<Rightarrow> string" where
  "buildConcatVideoInputs videoCount =
     concat (map (\<lambda>i. ''['' @ showNat i @ '':v]'') [0..<videoCount])"

text \<open>
  \<open>concatenateVideos\<close> without transitions, the only way \<open>mergeVideoContent\<close> calls
  it (\<open>fadeTransition: false\<close>, no resolution); the crossfade branch is not modelled.
  A missing input rejects the promise at once with the first missing path, but the
  command is still built from the inputs that exist and run; its output file, if any,
  is written all the same.
\<close>

definition concatenateVideos :: "Env \<Rightarrow> string list \<Rightarrow> string \<Rightarrow> (World, Thrown, string) operation" where
  "concatenateVideos env videoPaths outputPath w =
    (let present = filter (\<lambda>p. existsSync p w) videoPaths;
         filterComplex = buildConcatVideoInputs (length videoPaths) @ ''concat=n=''
                           @ showNat (length videoPaths) @ '':v=1:a=0[outv]'';
         c = FfmpegConcat present filterComplex outputPath;
         ran = ffmpegEnv env (calls w) c;
         w' = logCall c (case ran of Inl m \<Rightarrow> w
                         | Inr content \<Rightarrow> w\<lparr>files := (files w)(outputPath \<mapsto> content)\<rparr>)
     in case find (\<lambda>p. \<not> existsSync p w) videoPaths of
          Some missing \<Rightarrow> (Inl (newError (''Video file not found: '' @ missing)), w')
        | None \<Rightarrow>
            (case ran of
               Inl m \<Rightarrow> (Inl (newError (''Video concatenation failed: '' @ m)), w')
             | Inr content \<Rightarrow> (Inr outputPath, w')))"

record AudioMixOptions =
  mixVoiceoverPath :: "string option"
  mixMusicPath :: "string option"
  mixOutputPath :: string
  mixMusicVolume :: "string option"
  mixVoiceVolume :: "string option"

text \<open>
  Volumes are kept as the decimal text that the template literal prints
  (\<open>''0.5''\<close>); \<open>options.voiceVolume || 1.0\<close> falls back when the volume is absent
  or zero.
\<close>

definition volumeOr :: "string option \<Rightarrow> string \<Rightarrow> string" where
  "volumeOr v d = (case v of None \<Rightarrow> d | Some s \<Rightarrow> (if s = ''0'' \<or> s = [] then d else s))"

definition buildAudioMixFilter :: "AudioMixOptions \<Rightarrow> nat \<Rightarrow> bool \<Rightarrow> string" where
  "buildAudioMixFilter opts inputCount hasOriginalAudio =
    (let voiceVolume = volumeOr (mixVoiceVolume opts) ''1'';
         musicVolume = volumeOr (mixMusicVolume opts) ''0.3'';
         f1 = (if hasOriginalAudio then [''[0:a]aresample=async=1,volume=0.5[original]''] else []);
         i1 = (if hasOriginalAudio then [''[original]''] else []);
         f2 = (if truthy (mixVoiceoverPath opts)
               then f1 @ [''[1:a]aresample=async=1,volume='' @ voiceVolume @ ''[voice]''] else f1);
         i2 = (if truthy (mixVoiceoverPath opts) then i1 @ [''[voice]''] else i1);
         inputIndex = (if truthy (mixVoiceoverPath opts) then 2 else 1);
         f3 = (if truthy (mixMusicPath opts)
               then f2 @ [''['' @ showNat inputIndex @ '':a]aresample=async=1,volume=''
                            @ musicVolume @ ''[music]''] else f2);
         i3 = (if truthy (mixMusicPath opts) then i2 @ [''[music]''] else i2);
         f4 = (if length i3 > 1
               then f3 @ [concat i3 @ ''amix=inputs='' @ showNat (length i3) @ '':normalize=0[outa]'']
               else if length i3 = 1 then f3 @ [hd i3 @ ''anull[outa]'']
               else f3)
     in concat (case f4 of [] \<Rightarrow> [] | x # xs \<Rightarrow> x # map (\<lambda>y. '';'' @ y) xs))"

definition checkVideoHasAudio :: "Env \<Rightarrow> string \<Rightarrow> (World, Thrown, bool) operation" where
  "checkVideoHasAudio env videoPath w =
    (case probeEnv env (calls w) (FfmpegProbe videoPath) of
       Inl e \<Rightarrow> (Inr False, logCall (FfmpegProbe videoPath) w)
     | Inr b \<Rightarrow> (Inr b, logCall (FfmpegProbe videoPath) w))"

definition addAudioToVideo :: "Env \<Rightarrow> string \<Rightarrow> AudioMixOptions \<Rightarrow> (World, Thrown, string) operation" where
  "addAudioToVideo env videoPath opts =
     bindOp (checkVideoHasAudio env videoPath) (\<lambda>hasAudio w.
       let voiceIn = (if truthy (mixVoiceoverPath opts) \<and> existsSync (the (mixVoiceoverPath opts)) w
                      then [the (mixVoiceoverPath opts)] else []);
           musicIn = (if truthy (mixMusicPath opts) \<and> existsSync (the (mixMusicPath opts)) w
                      then [the (mixMusicPath opts)] else []);
           audioInputIndex = 1 + length voiceIn + length musicIn;
           mixFilter = (if audioInputIndex > 1
                        then Some (buildAudioMixFilter opts audioInputIndex hasAudio) else None);
           c = FfmpegMix (videoPath # voiceIn @ musicIn) mixFilter (mixOutputPath opts)
       in case ffmpegEnv env (calls w) c of
            Inl m \<Rightarrow> (Inl (newError (''Audio mixing failed: '' @ m)), logCall c w)
          | Inr content \<Rightarrow>
              (Inr (mixOutputPath opts),
               logCall c (w\<lparr>files := (files w)(mixOutputPath opts \<mapsto> content)\<rparr>)))"

section \<open>The pipeline (services/videoGenerator.ts)\<close>

definition artifactsPath :: "Env \<Rightarrow> string \<Rightarrow> string" where
  "artifactsPath env sid = pathJoin env [runsDir env, sid, ''artifacts.json'']"

definition generatePrompts :: "Env \<Rightarrow> GenerationSession \<Rightarrow> (World, Thrown, unit) operation" where
  "generatePrompts env session =
     bindOp (smUpdateStageStatus env (sessionId session) Prompts Processing
               (Some ''Generating scene prompts...'') None None) (\<lambda>_.
       catchOp
         (bindOp (openaiGeneratePrompts env (sceneCount (request session))
                    (description (request session)) False (includeMusic (request session))
                    (sessionId session)) (\<lambda>prompts.
          bindOp (saveSessionArtifacts env (sessionId session)
                    (emptyArtifacts\<lparr>artPrompts := Some prompts\<rparr>)) (\<lambda>_.
          smUpdateStageStatus env (sessionId session) Prompts Completed
            (Some (''Generated prompts for '' @ showNat (length (scenePrompts prompts)) @ '' scenes''))
            None None)))
         (\<lambda>e. bindOp (smUpdateStageStatus env (sessionId session) Prompts Error
                         (Some ''Failed to generate prompts'') None (thrownMessage e))
                  (\<lambda>_. throwOp e)))"

definition defaultImageOptions :: ImageGenerationOptions where
  "defaultImageOptions =
     \<lparr>provider = NanoBanana, outputFormat = Some ''png'', includeOriginalAnchor = Some True\<rparr>"

definition generateImages :: "Env \<Rightarrow> GenerationSession \<Rightarrow> (World, Thrown, unit) operation" where
  "generateImages env session =
     bindOp (smUpdateStageStatus env (sessionId session) Images Processing
               (Some ''Generating scene images...'') None None) (\<lambda>_.
       catchOp
         (bindOp (readJson (pathJoin env [cwd env, ''runs'', sessionId session, ''artifacts.json'']))
            (\<lambda>artifacts.
          case artPrompts artifacts of
            None \<Rightarrow> throwOp (newError ''No scene prompts found in artifacts'')
          | Some prompts \<Rightarrow>
              bindOp (generateSceneImages env (scenePrompts prompts) (characterImagePath session)
                        (sessionId session)
                        (case imageOptions (request session) of
                           Some given \<Rightarrow> given | None \<Rightarrow> defaultImageOptions)) (\<lambda>imagePaths.
              bindOp (saveSessionArtifacts env (sessionId session)
                        (artifacts\<lparr>artImagePaths := Some imagePaths\<rparr>)) (\<lambda>_.
              smUpdateStageStatus env (sessionId session) Images Completed
                (Some (''Generated '' @ showNat (length imagePaths)
                       @ '' scene images with character consistency'')) None None))))
         (\<lambda>e. bindOp (smUpdateStageStatus env (sessionId session) Images Error
                         (Some ''Failed to generate images'') None (thrownMessage e))
                  (\<lambda>_. throwOp e)))"

text \<open>\<open>videoPrompt: scene.videoPrompt || scene.prompt\<close>; a scene has no \<open>prompt\<close>
  property, so an empty video prompt becomes \<open>undefined\<close>.\<close>

definition videoPromptOf :: "ScenePrompts \<Rightarrow> string option" where
  "videoPromptOf sc = (if videoPrompt sc = [] then None else Some (videoPrompt sc))"

definition generateVideos :: "Env \<Rightarrow> GenerationSession \<Rightarrow> (World, Thrown, unit) operation" where
  "generateVideos env session =
     bindOp (smUpdateStageStatus env (sessionId session) Videos Processing
               (Some ''Generating scene videos...'') None None) (\<lambda>_.
       catchOp
         (bindOp (readJson (artifactsPath env (sessionId session))) (\<lambda>artifacts.
          case (artPrompts artifacts, artImagePaths artifacts) of
            (Some prompts, Some imagePaths) \<Rightarrow>
              bindOp (klingGenerateSceneVideos env (map videoPromptOf (scenePrompts prompts))
                        imagePaths (sessionId session) (sceneDurationSeconds env)) (\<lambda>videoPaths.
              bindOp (saveSessionArtifacts env (sessionId session)
                        (artifacts\<lparr>artVideoPaths := Some videoPaths\<rparr>)) (\<lambda>_.
              smUpdateStageStatus env (sessionId session) Videos Completed
                (Some (''Generated '' @ showNat (length videoPaths) @ '' scene videos''))
                None None))
          | _ \<Rightarrow> throwOp (newError ''Missing prompts or image paths in artifacts'')))
         (\<lambda>e. bindOp (smUpdateStageStatus env (sessionId session) Videos Error
                         (Some ''Failed to generate videos'') None (thrownMessage e))
                  (\<lambda>_. throwOp e)))"

definition generateAudio :: "Env \<Rightarrow> GenerationSession \<Rightarrow> (World, Thrown, unit) operation" where
  "generateAudio env session =
     bindOp (smUpdateStageStatus env (sessionId session) Audio Processing
               (Some ''Generating audio content...'') None None) (\<lambda>_.
       catchOp
         (bindOp (readJson (artifactsPath env (sessionId session))) (\<lambda>artifacts.
          case artPrompts artifacts of
            None \<Rightarrow> throwOp (newError ''No prompts found in artifacts'')
          | Some prompts \<Rightarrow>
              bindOp (if includeMusic (request session) \<and> truthy (musicPrompt prompts)
                      then bindOp (generateBackgroundMusic env (the (musicPrompt prompts))
                                     (sceneCount (request session) * sceneDurationSeconds env)
                                     (sessionId session))
                             (\<lambda>p. returnOp \<lparr>voiceoverPaths = None, musicPath = Some p\<rparr>)
                      else returnOp \<lparr>voiceoverPaths = None, musicPath = None\<rparr>) (\<lambda>audioPaths.
              bindOp (saveSessionArtifacts env (sessionId session)
                        (artifacts\<lparr>artAudioPaths := Some audioPaths\<rparr>)) (\<lambda>_.
              smUpdateStageStatus env (sessionId session) Audio Completed
                (Some ''Audio generation completed'') None None))))
         (\<lambda>e. bindOp (smUpdateStageStatus env (sessionId session) Audio Error
                         (Some ''Failed to generate audio'') None (thrownMessage e))
                  (\<lambda>_. throwOp e)))"

definition finalVideoFile :: "Env \<Rightarrow> string \<Rightarrow> string" where
  "finalVideoFile env sid = pathJoin env [pathJoin env [runsDir env, sid], ''final_video.mp4'']"

definition mergedScenesFile :: "Env \<Rightarrow> string \<Rightarrow> string" where
  "mergedScenesFile env sid = pathJoin env [pathJoin env [runsDir env, sid], ''merged_scenes.mp4'']"

text \<open>\<open>audioPaths && (audioPaths.voiceoverPaths || audioPaths.musicPath)\<close>: an array is
  truthy even when empty, a path when it is a non-empty string.\<close>

definition hasAudioSources :: "AudioPaths option \<Rightarrow> bool" where
  "hasAudioSources ap =
     (case ap of None \<Rightarrow> False
      | Some a \<Rightarrow> voiceoverPaths a \<noteq> None \<or> truthy (musicPath a))"

definition mergeVideoContent :: "Env \<Rightarrow> GenerationSession \<Rightarrow> (World, Thrown, unit) operation" where
  "mergeVideoContent env session =
     bindOp (smUpdateStageStatus env (sessionId session) Merge Processing
               (Some ''Merging videos and audio...'') None None) (\<lambda>_.
       catchOp
         (bindOp (readJson (artifactsPath env (sessionId session))) (\<lambda>artifacts.
          if artVideoPaths artifacts = None \<or> artVideoPaths artifacts = Some [] then
            throwOp (newError ''No video paths found for merging'')
          else
            bindOp (concatenateVideos env (the (artVideoPaths artifacts))
                      (mergedScenesFile env (sessionId session))) (\<lambda>_.
            bindOp (if hasAudioSources (artAudioPaths artifacts) then
                      (if truthy (musicPath (the (artAudioPaths artifacts))) then
                         bindOp (addAudioToVideo env (mergedScenesFile env (sessionId session))
                                   \<lparr>mixVoiceoverPath = None,
                                    mixMusicPath = musicPath (the (artAudioPaths artifacts)),
                                    mixOutputPath = finalVideoFile env (sessionId session),
                                    mixMusicVolume = Some ''0.5'', mixVoiceVolume = None\<rparr>)
                           (\<lambda>_. returnOp ())
                       else returnOp ())
                    else copyFile env (mergedScenesFile env (sessionId session))
                           (finalVideoFile env (sessionId session))) (\<lambda>_.
            bindOp (smUpdateSessionFinalVideo env (sessionId session)
                      (finalVideoFile env (sessionId session))) (\<lambda>_.
            bindOp (saveSessionArtifacts env (sessionId session)
                      (artifacts\<lparr>artFinalVideoPath := Some (finalVideoFile env (sessionId session))\<rparr>))
              (\<lambda>_.
            smUpdateStageStatus env (sessionId session) Merge Completed
              (Some ''Video merging completed successfully'') None None))))))
         (\<lambda>e. bindOp (smUpdateStageStatus env (sessionId session) Merge Error
                         (Some ''Failed to merge video content'') None (thrownMessage e))
                  (\<lambda>_. throwOp e)))"

text \<open>
  A stage run under \<open>executeWithRetry\<close> with the default \<open>maxRetries = 3\<close>: the value
  is returned and the classified error thrown (\<open>None\<close> is \<open>throw null\<close>, which three
  attempts never reach).
\<close>

definition runStage ::
  "(World, Thrown, 'a) operation \<Rightarrow> string \<Rightarrow> string \<Rightarrow> (World, Thrown option, 'a) operation" where
  "runStage operation stg sid w =
    (case executeWithRetry operation stg sid 3 w of
       (r, w') \<Rightarrow>
         (case outcome r of
            Inr v \<Rightarrow> (Inr v, w')
          | Inl e \<Rightarrow> (Inl (map_option AppErr e), w')))"

definition executeGenerationPipeline :: "Env \<Rightarrow> GenerationSession \<Rightarrow> (World, Thrown option, unit) operation" where
  "executeGenerationPipeline env session =
     bindOp (runStage (generatePrompts env session) ''prompts'' (sessionId session)) (\<lambda>_.
     bindOp (runStage (generateImages env session) ''images'' (sessionId session)) (\<lambda>_.
     bindOp (runStage (generateVideos env session) ''videos'' (sessionId session)) (\<lambda>_.
     bindOp (if includeVoiceover (request session) \<or> includeMusic (request session)
             then runStage (generateAudio env session) ''audio'' (sessionId session)
             else returnOp ()) (\<lambda>_.
     runStage (mergeVideoContent env session) ''merge'' (sessionId session)))))"

definition liftThrown :: "('s, Thrown, 'a) operation \<Rightarrow> ('s, Thrown option, 'a) operation" where
  "liftThrown m s = (case m s of (Inl e, s') \<Rightarrow> (Inl (Some e), s') | (Inr x, s') \<Rightarrow> (Inr x, s'))"

text \<open>\<open>error.context?.service\<close>.\<close>

definition contextService :: "AppError \<Rightarrow> CtxValue" where
  "contextService err =
    (case errContext err of
       NoContext \<Rightarrow> CUndefined
     | Fields fs \<Rightarrow> (case map_of fs ''service'' of None \<Rightarrow> CUndefined | Some v \<Rightarrow> v)
     | Ctx c \<Rightarrow> optStr (ctxService c))"

text \<open>\<open>attemptRecovery\<close>: the three strategies only log, so recovery succeeds exactly
  when one of them claims the error.\<close>

definition attemptRecovery :: "AppError \<Rightarrow> bool" where
  "attemptRecovery err =
    (if strIncludes (errMessage err) ''disk space'' \<or> strIncludes (errMessage err) ''ENOSPC''
     then True
     else if errClass err = ServiceUnavailableErrorC \<and> contextService err = CStr ''video''
     then True
     else if errClass err = ProcessingTimeoutErrorC then True
     else False)"

definition generationContext :: "string \<Rightarrow> ErrorContext" where
  "generationContext sid =
     \<lparr>ctxSessionId = Some sid, ctxStage = None, ctxService = None, ctxAttempt = None,
      ctxTimestamp = None\<rparr>"

text \<open>The \<open>try\<close> block of \<open>generateVideo\<close>.\<close>

definition generationAttempt :: "Env \<Rightarrow> GenerationSession \<Rightarrow> (World, Thrown option, unit) operation" where
  "generationAttempt env session =
     bindOp (liftThrown (ensureSessionDirectories env (sessionId session))) (\<lambda>_.
     bindOp (smUpdateSessionStatus env (sessionId session) SessionProcessing None None) (\<lambda>_.
     bindOp (executeGenerationPipeline env session) (\<lambda>_.
     smUpdateSessionStatus env (sessionId session) SessionCompleted None None)))"

text \<open>\<open>handleServiceError(null, ...)\<close> reads \<open>error.message\<close> of \<open>null\<close>: the
  \<open>TypeError\<close> leaves the \<open>catch\<close> block before the session is touched.\<close>

definition nullTypeError :: Thrown where
  "nullTypeError = newError ''Cannot read properties of null (reading message)''"

text \<open>
  \<open>generateVideo\<close> calls itself when recovery claims the error, with no bound. The
  first argument bounds the number of sessions started; the result \<open>None\<close> means the
  call had not returned within that bound.
\<close>

fun generateVideo ::
  "nat \<Rightarrow> Env \<Rightarrow> GenerationRequest \<Rightarrow> string \<Rightarrow> World \<Rightarrow> (Thrown + string) option \<times> World" where
  "generateVideo 0 env req imagePath w = (None, w)"
| "generateVideo (Suc fuel) env req imagePath w =
    (case smCreateSession env req imagePath w of
       (session, w1) \<Rightarrow>
        (case generationAttempt env session w1 of
           (Inr u, w2) \<Rightarrow> (Some (Inr (sessionId session)), w2)
         | (Inl None, w2) \<Rightarrow> (Some (Inl nullTypeError), w2)
         | (Inl (Some e), w2) \<Rightarrow>
            (let appError = toAppError e (generationContext (sessionId session));
                 errorSummary = createErrorSummary appError;
                 w3 = snd (smUpdateSessionStatus env (sessionId session) SessionFailed
                             (Some (summaryMessage errorSummary)) (Some errorSummary) w2
                           :: (Thrown + unit) \<times> World)
             in if attemptRecovery appError
                then generateVideo fuel env req imagePath w3
                else (Some (Inl (AppErr appError)), w3))))"

text \<open>Reading a stage's timestamps back from the store.\<close>

definition startTimeOf :: "sessions \<Rightarrow> string \<Rightarrow> ProcessingStage \<Rightarrow> string option" where
  "startTimeOf store sid stg = (case stageOf store sid stg of None \<Rightarrow> None | Some s \<Rightarrow> startTime s)"

definition endTimeOf :: "sessions \<Rightarrow> string \<Rightarrow> ProcessingStage \<Rightarrow> string option" where
  "endTimeOf store sid stg = (case stageOf store sid stg of None \<Rightarrow> None | Some s \<Rightarrow> endTime s)"

section \<open>Concrete sessions used to evaluate the model\<close>

definition exampleRequest :: GenerationRequest where
  "exampleRequest =
     \<lparr>sceneCount = 3, description = ''a calm morning walk'', includeVoiceover = False,
      includeMusic = False, imageOptions = None\<rparr>"

definition exampleStore :: sessions where
  "exampleStore = snd (createSession ''s1'' ''2025-01-01T00:00:00.000Z'' exampleRequest ''uploads/face.png'' Map.empty)"

definition retriedMergeStore :: "nat \<Rightarrow> sessions" where
  "retriedMergeStore n =
     foldl (\<lambda>store (t, st, err). updateStageStatus t ''s1'' Merge st None None err store) exampleStore
       (take n [(''2025-01-01T00:00:01.000Z'', Processing, None),
                (''2025-01-01T00:00:02.000Z'', Error, Some ''Video concatenation failed: ffmpeg exited''),
                (''2025-01-01T00:00:03.000Z'', Processing, None),
                (''2025-01-01T00:00:04.000Z'', Completed, None)])"

definition musicRequest :: GenerationRequest where
  "musicRequest = exampleRequest\<lparr>includeMusic := True\<rparr>"

definition alwaysFails :: "'e \<Rightarrow> (nat, 'e, 'a) operation" where
  "alwaysFails e n = (Inl e, n + 1)"

definition retryEverything :: "Thrown RetryOptions" where
  "retryEverything = DEFAULT_RETRY_OPTIONS\<lparr>retryableErrors := Some (\<lambda>e. True)\<rparr>"

definition predicateUndefined :: "int \<Rightarrow> Thrown RetryOptions" where
  "predicateUndefined n = mergeOptions DEFAULT_RETRY_OPTIONS
      \<lparr>pMaxAttempts = Some n, pBaseDelayMs = None, pMaxDelayMs = None, pBackoffMultiplier = None,
       pRetryableErrors = Some None\<rparr>"

definition failsTwice :: "'e \<Rightarrow> 'e \<Rightarrow> 'a \<Rightarrow> (nat, 'e, 'a) operation" where
  "failsTwice e1 e2 r n = (if n = 0 then Inl e1 else if n = 1 then Inl e2 else Inr r, n + 1)"

definition connectionReset :: Thrown where
  "connectionReset = RawErr \<lparr>code = Some ''ECONNRESET'', rawMessage = Some ''socket hang up'',
      retry_after = None, path = None, responseStatus = None\<rparr>"

definition rateLimited :: RawError where
  "rateLimited = \<lparr>code = Some ''rate_limit_exceeded'', rawMessage = Some ''Too many requests'',
      retry_after = Some 30, path = None, responseStatus = Some 429\<rparr>"

definition diskFull :: RawError where
  "diskFull = \<lparr>code = Some ''ENOSPC'', rawMessage = Some ''no space left on device'',
      retry_after = None, path = Some ''runs/s1/final_video.mp4'', responseStatus = None\<rparr>"

definition unknownFailure :: RawError where
  "unknownFailure = \<lparr>code = None, rawMessage = Some ''Expected 3 scenes, got 2'',
      retry_after = None, path = None, responseStatus = None\<rparr>"

definition noContext :: ErrorContext where
  "noContext = \<lparr>ctxSessionId = None, ctxStage = None, ctxService = None, ctxAttempt = None,
      ctxTimestamp = None\<rparr>"

definition zeroAttempts :: "Thrown RetryOptions" where
  "zeroAttempts = DEFAULT_RETRY_OPTIONS\<lparr>maxAttempts := 0\<rparr>"

definition stageAlwaysFails :: "Thrown \<Rightarrow> (nat, Thrown, unit) operation" where
  "stageAlwaysFails e n = (Inl e, n + 1)"

text \<open>An environment in which every collaborator succeeds, with \<open>path.join\<close> and
  \<open>path.dirname\<close> on plain relative segments.\<close>

definition joinPath :: "string list \<Rightarrow> string" where
  "joinPath parts = foldr (\<lambda>a b. if b = [] then a else a @ ''/'' @ b) parts []"

definition dirnameOf :: "string \<Rightarrow> string" where
  "dirnameOf p = rev (drop 1 (dropWhile (\<lambda>c. c \<noteq> CHR ''/'') (rev p)))"

definition twoScenes :: ParsedPrompts where
  "twoScenes =
     \<lparr>parsedScenePrompts = Some
        [\<lparr>parsedSceneNumber = JsNumber 1, parsedImagePrompt = Some ''a woman at a window, dawn'',
          parsedVideoPrompt = Some ''she turns to the light''\<rparr>,
         \<lparr>parsedSceneNumber = JsNumber 2, parsedImagePrompt = Some ''the same woman on a balcony'',
          parsedVideoPrompt = Some ''she lifts a cup''\<rparr>],
      parsedVoiceoverScript = None, parsedMusicPrompt = Some ''soft piano''\<rparr>"

definition happyEnv :: Env where
  "happyEnv =
     \<lparr>clockEnv = (\<lambda>h. ''2025-01-01T00:00:00.000Z''),
      uuidEnv = (\<lambda>h. ''s1''),
      fsFailure = (\<lambda>h c. None),
      chatEnv = (\<lambda>h c. Inr (ParsedContent twoScenes)),
      replicateEnv = (\<lambda>h c. Inr (OutputArray [''https://replicate.delivery/out.png''])),
      fetchEnv = (\<lambda>h c. Inr \<lparr>responseOk = True, responseCode = 200, responseText = ''OK'',
                               responseBody = ''PNG''\<rparr>),
      klingEnv = (\<lambda>h c. case c of
                    KlingSceneVideos ps imgs sid d \<Rightarrow>
                      Inr (map (\<lambda>i. (''app/runs/'' @ sid @ ''/videos/scene_'' @ showNat (i + 1)
                                       @ ''.mp4'', ''MP4'')) [0..<length imgs])
                  | _ \<Rightarrow> Inr []),
      musicEnv = (\<lambda>h c. Inr ''MP3''),
      ffmpegEnv = (\<lambda>h c. Inr ''MERGED''),
      probeEnv = (\<lambda>h c. Inr False),
      pathJoin = joinPath,
      pathDirname = dirnameOf,
      imagesDir = ''app/images'',
      videoDir = ''app/videos'',
      runsDir = ''app/runs'',
      cwd = ''app'',
      sceneDurationSeconds = 5\<rparr>"

definition uploadedWorld :: World where
  "uploadedWorld =
     \<lparr>sessions = Map.empty, files = [''uploads/face.png'' \<mapsto> ''JPEG''], jsonFiles = Map.empty,
      calls = []\<rparr>"

definition typedTwoScenes :: "ScenePrompts list" where
  "typedTwoScenes = map typedScene (the (parsedScenePrompts twoScenes))"

text \<open>The scene number and image paths of the image-model calls of a log.\<close>

fun imageCalls :: "Call list \<Rightarrow> (int \<times> string list) list" where
  "imageCalls [] = []"
| "imageCalls (ReplicateRun k model inp # cs) = (k, map fst (inputImages inp)) # imageCalls cs"
| "imageCalls (c # cs) = imageCalls cs"

text \<open>A session whose two scene videos exist and whose artifacts name no audio.\<close>

definition exampleSession :: GenerationSession where
  "exampleSession =
     fst (createSession ''s1'' ''2025-01-01T00:00:00.000Z'' exampleRequest ''uploads/face.png''
            Map.empty)"

definition silentArtifacts :: Artifacts where
  "silentArtifacts =
     emptyArtifacts
       \<lparr>artSessionId := Some ''s1'',
        artVideoPaths := Some [''app/runs/s1/videos/scene_1.mp4'', ''app/runs/s1/videos/scene_2.mp4''],
        artAudioPaths := None\<rparr>"

definition mergeReadyWorld :: World where
  "mergeReadyWorld =
     \<lparr>sessions = [''s1'' \<mapsto> exampleSession],
      files = [''app/runs/s1/videos/scene_1.mp4'' \<mapsto> ''MP4-1'',
               ''app/runs/s1/videos/scene_2.mp4'' \<mapsto> ''MP4-2''],
      jsonFiles = [''app/runs/s1/artifacts.json'' \<mapsto> silentArtifacts],
      calls = []\<rparr>"


text \<open>The world right after the example session was created, and a reply with the
  three requested scenes of which one, numbered 503, has an empty image prompt.\<close>

definition startedWorld :: World where
  "startedWorld = snd (smCreateSession happyEnv exampleRequest ''uploads/face.png'' uploadedWorld)"

definition numberedReply :: ParsedPrompts where
  "numberedReply =
     \<lparr>parsedScenePrompts = Some
        [\<lparr>parsedSceneNumber = JsNumber 1, parsedImagePrompt = Some ''a woman at a window, dawn'',
          parsedVideoPrompt = Some ''she turns to the light''\<rparr>,
         \<lparr>parsedSceneNumber = JsNumber 503, parsedImagePrompt = Some '''',
          parsedVideoPrompt = Some ''she lifts a cup''\<rparr>,
         \<lparr>parsedSceneNumber = JsNumber 3, parsedImagePrompt = Some ''the woman in a garden'',
          parsedVideoPrompt = Some ''she walks away''\<rparr>],
      parsedVoiceoverScript = None, parsedMusicPrompt = None\<rparr>"

definition numberedEnv :: Env where
  "numberedEnv = happyEnv\<lparr>chatEnv := (\<lambda>h c. Inr (ParsedContent numberedReply))\<rparr>"

text \<open>A disk-full error raised while writing below a directory named \<open>quota\<close>.\<close>

definition quotaDiskFull :: RawError where
  "quotaDiskFull = \<lparr>code = Some ''ENOSPC'',
      rawMessage = Some ''ENOSPC: no space left on device, open /data/quota/usage.json'',
      retry_after = None, path = Some ''/data/quota/usage.json'', responseStatus = None\<rparr>"

text \<open>The error of \<open>child_process.spawn\<close> when the \<open>ffmpeg\<close> binary is not installed.\<close>

definition ffmpegMissing :: RawError where
  "ffmpegMissing = \<lparr>code = Some ''ENOENT'', rawMessage = Some ''spawn ffmpeg ENOENT'',
      retry_after = None, path = Some ''ffmpeg'', responseStatus = None\<rparr>"

definition missingFile :: RawError where
  "missingFile = \<lparr>code = Some ''ENOENT'',
      rawMessage = Some ''ENOENT: no such file or directory, open runs/s1/artifacts.json'',
      retry_after = None, path = Some ''runs/s1/artifacts.json'', responseStatus = None\<rparr>"

text \<open>A reply with the three requested scenes whose second scene gives its number as the
  string \<open>"two"\<close>.\<close>

definition quotedNumberReply :: ParsedPrompts where
  "quotedNumberReply =
     \<lparr>parsedScenePrompts = Some
        [\<lparr>parsedSceneNumber = JsNumber 1, parsedImagePrompt = Some ''a woman at a window, dawn'',
          parsedVideoPrompt = Some ''she turns to the light''\<rparr>,
         \<lparr>parsedSceneNumber = JsOther ''two'', parsedImagePrompt = Some ''the same woman on a balcony'',
          parsedVideoPrompt = Some ''she lifts a cup''\<rparr>,
         \<lparr>parsedSceneNumber = JsNumber 3, parsedImagePrompt = Some ''the woman in a garden'',
          parsedVideoPrompt = Some ''she walks away''\<rparr>],
      parsedVoiceoverScript = None, parsedMusicPrompt = None\<rparr>"








section \<open>Vocabulary of the statements\<close>

text \<open>
  The reference image that the rolling chain prescribes for scene \<open>k\<close> (counted from 1):
  the original upload for the first scene, the output path of scene \<open>k - 1\<close> after that.
\<close>

definition rollingReference :: "Env \<Rightarrow> string \<Rightarrow> string \<Rightarrow> nat \<Rightarrow> string" where
  "rollingReference env originalPath sid k =
     (if k \<le> 1 then originalPath else sceneOutputPath env sid (k - 1))"

text \<open>The paths of the images sent in a model call for a scene whose reference is
  \<open>ref\<close>, as \<open>generateSingleSceneImage\<close> assembles them.\<close>

definition referenceInputs :: "ImageGenerationOptions \<Rightarrow> string \<Rightarrow> string \<Rightarrow> string list" where
  "referenceInputs opts ref originalPath =
     (if provider opts = NanoBanana \<and> anchorRequested opts then [ref, originalPath] else [ref])"

text \<open>A logged call is on the chain: if it is an image-model call, it is for a scene
  between 1 and \<open>n\<close> and sends that scene's rolling reference (first) and at most the
  original image (second).\<close>

definition onChain :: "Env \<Rightarrow> ImageGenerationOptions \<Rightarrow> string \<Rightarrow> string \<Rightarrow> nat \<Rightarrow> Call \<Rightarrow> bool" where
  "onChain env opts originalPath sid n c =
    (case c of
       ReplicateRun k model inp \<Rightarrow>
         1 \<le> k \<and> k \<le> int n
         \<and> map fst (inputImages inp)
             = referenceInputs opts (rollingReference env originalPath sid (nat k)) originalPath
     | _ \<Rightarrow> True)"

definition isSceneCall :: "nat \<Rightarrow> Call \<Rightarrow> bool" where
  "isSceneCall k c = (case c of ReplicateRun j model inp \<Rightarrow> j = int k | _ \<Rightarrow> False)"

definition isMixCall :: "Call \<Rightarrow> bool" where
  "isMixCall c = (case c of FfmpegMix ins flt out \<Rightarrow> True | _ \<Rightarrow> False)"

definition isChatCall :: "Call \<Rightarrow> bool" where
  "isChatCall c = (case c of ChatCompletion n d v m \<Rightarrow> True | _ \<Rightarrow> False)"

text \<open>
  A two-state specification of an operation: whenever the operation takes \<open>w\<close> to
  \<open>w'\<close> with result \<open>r\<close>, the relation holds of the three.
\<close>

definition satisfies :: "('s, 'e, 'a) operation \<Rightarrow> ('s \<Rightarrow> 'e + 'a \<Rightarrow> 's \<Rightarrow> bool) \<Rightarrow> bool" where
  "satisfies m R = (\<forall>s r s'. m s = (r, s') \<longrightarrow> R s r s')"

text \<open>The log of \<open>w'\<close> extends the log of \<open>w\<close> by calls that all satisfy \<open>Q\<close>.\<close>

definition logged :: "(Call \<Rightarrow> bool) \<Rightarrow> World \<Rightarrow> World \<Rightarrow> bool" where
  "logged Q w w' = (\<exists>new. calls w' = calls w @ new \<and> list_all Q new)"

text \<open>The calls logged between \<open>w\<close> and \<open>w'\<close>.\<close>

definition newCalls :: "World \<Rightarrow> World \<Rightarrow> Call list" where
  "newCalls w w' = drop (length (calls w)) (calls w')"

text \<open>A logged call, if it is an image-model call, is for scene \<open>n\<close> and sends the
  reference \<open>ref\<close> as \<open>generateSingleSceneImage\<close> assembles it.\<close>

definition sceneCallWith :: "ImageGenerationOptions \<Rightarrow> string \<Rightarrow> string \<Rightarrow> nat \<Rightarrow> Call \<Rightarrow> bool" where
  "sceneCallWith opts ref originalPath n c =
    (case c of
       ReplicateRun k model inp \<Rightarrow>
         k = int n \<and> map fst (inputImages inp) = referenceInputs opts ref originalPath
     | _ \<Rightarrow> True)"

definition isWriteJson :: "Call \<Rightarrow> bool" where
  "isWriteJson c = (case c of WriteJson p \<Rightarrow> True | _ \<Rightarrow> False)"

text \<open>Every step of the operation is related by \<open>T\<close>, whatever it returns.\<close>

definition transit :: "('s \<Rightarrow> 's \<Rightarrow> bool) \<Rightarrow> ('s, 'e, 'a) operation \<Rightarrow> bool" where
  "transit T m = (\<forall>s r s'. m s = (r, s') \<longrightarrow> T s s')"

text \<open>From a state satisfying \<open>P\<close> the operation ends in a state satisfying \<open>Q\<close> of
  its result.\<close>

definition triple ::
  "('s \<Rightarrow> bool) \<Rightarrow> ('s, 'e, 'a) operation \<Rightarrow> ('e + 'a \<Rightarrow> 's \<Rightarrow> bool) \<Rightarrow> bool" where
  "triple P m Q = (\<forall>s r s'. P s \<and> m s = (r, s') \<longrightarrow> Q r s')"

text \<open>A step that leaves the session store and the artifacts documents alone and
  removes no file.\<close>

definition quietStep :: "World \<Rightarrow> World \<Rightarrow> bool" where
  "quietStep w w' =
     (sessions w' = sessions w \<and> jsonFiles w' = jsonFiles w \<and> dom (files w) \<subseteq> dom (files w'))"

text \<open>
  An artifacts document without a \<open>voiceoverPaths\<close> property. \<open>generateAudio\<close>, the
  only stage that sets \<open>audioPaths\<close>, never sets \<open>voiceoverPaths\<close> (voiceover
  generation is switched off), and the other stages write back what they read: a run
  started among documents of this kind writes only documents of this kind.
\<close>

definition withoutVoiceover :: "Artifacts \<Rightarrow> bool" where
  "withoutVoiceover a =
     (case artAudioPaths a of None \<Rightarrow> True | Some ap \<Rightarrow> voiceoverPaths ap = None)"

definition noVoiceoverArtifacts :: "World \<Rightarrow> bool" where
  "noVoiceoverArtifacts w = (\<forall>p a. jsonFiles w p = Some a \<longrightarrow> withoutVoiceover a)"

definition mergeStatus :: "World \<Rightarrow> string \<Rightarrow> StageState option" where
  "mergeStatus w sid = map_option status (stageOf (sessions w) sid Merge)"

text \<open>
  The run of session \<open>sid\<close>, started from world \<open>w0\<close>, has not completed its merge:
  the session is in the store with overall status \<open>st\<close> and no final video, its merge
  stage exists and is not completed; the other sessions are as in \<open>w0\<close> and no file of
  \<open>w0\<close> has disappeared.
\<close>

definition runOpen :: "World \<Rightarrow> string \<Rightarrow> SessionStatus \<Rightarrow> World \<Rightarrow> bool" where
  "runOpen w0 sid st w =
     ((\<exists>s. sessions w sid = Some s \<and> sessionStatus s = st \<and> finalVideoPath s = None)
      \<and> (\<exists>ms. mergeStatus w sid = Some ms \<and> ms \<noteq> Completed)
      \<and> (\<forall>k. k \<noteq> sid \<longrightarrow> sessions w k = sessions w0 k)
      \<and> dom (files w0) \<subseteq> dom (files w)
      \<and> noVoiceoverArtifacts w)"

text \<open>The merge of session \<open>sid\<close> has completed: the merge stage is completed, the
  session's final video is \<open>final\<close> and that file exists.\<close>

definition runMerged :: "World \<Rightarrow> string \<Rightarrow> SessionStatus \<Rightarrow> string \<Rightarrow> World \<Rightarrow> bool" where
  "runMerged w0 sid st final w =
     ((\<exists>s. sessions w sid = Some s \<and> sessionStatus s = st \<and> finalVideoPath s = Some final)
      \<and> mergeStatus w sid = Some Completed
      \<and> files w final \<noteq> None
      \<and> (\<forall>k. k \<noteq> sid \<longrightarrow> sessions w k = sessions w0 k)
      \<and> dom (files w0) \<subseteq> dom (files w)
      \<and> noVoiceoverArtifacts w)"

text \<open>A session shown as completed has a completed merge stage and a final video that
  exists.\<close>

definition completedProperly :: "World \<Rightarrow> string \<Rightarrow> bool" where
  "completedProperly w sid =
    (case sessions w sid of
       None \<Rightarrow> True
     | Some s \<Rightarrow>
         sessionStatus s = SessionCompleted \<longrightarrow>
           mergeStatus w sid = Some Completed
           \<and> (\<exists>final. finalVideoPath s = Some final \<and> files w final \<noteq> None))"

text \<open>Between the two: the final video is recorded and exists, the merge stage is not
  yet marked completed.\<close>

definition runFinalised :: "World \<Rightarrow> string \<Rightarrow> SessionStatus \<Rightarrow> string \<Rightarrow> World \<Rightarrow> bool" where
  "runFinalised w0 sid st final w =
     ((\<exists>s. sessions w sid = Some s \<and> sessionStatus s = st \<and> finalVideoPath s = Some final)
      \<and> (\<exists>ms. mergeStatus w sid = Some ms)
      \<and> files w final \<noteq> None
      \<and> (\<forall>k. k \<noteq> sid \<longrightarrow> sessions w k = sessions w0 k)
      \<and> dom (files w0) \<subseteq> dom (files w)
      \<and> noVoiceoverArtifacts w)"

text \<open>A message that none of the substring rules of \<open>handleServiceError\<close> and of the
  recovery strategies matches.\<close>

definition plainMessage :: "string \<Rightarrow> bool" where
  "plainMessage m =
     (m \<noteq> [] \<and>
      list_all (\<lambda>p. \<not> strIncludes m p)
        [''prediction failed'', ''quota'', ''timeout'', ''ffmpeg'', ''ffprobe'', ''502'', ''503'',
         ''504'', ''temporary'', ''disk space'', ''ENOSPC''])"

text \<open>The error a stage executor ended with, if any.\<close>

definition failureOf :: "('e, 'a) RetryOutcome \<Rightarrow> 'e option" where
  "failureOf r = (case outcome r of Inl e \<Rightarrow> e | Inr v \<Rightarrow> None)"

text \<open>
  The rules of \<open>handleServiceError\<close> in three groups, in the order it tries them: the
  service, network, timeout and ffmpeg rules; the file-system codes; the generic
  transient-message rule.
\<close>

definition serviceRuleMatches :: "RawError \<Rightarrow> bool" where
  "serviceRuleMatches e =
     (code e = Some ''insufficient_quota'' \<or> code e = Some ''rate_limit_exceeded''
      \<or> msgIncludes e ''prediction failed'' \<or> msgIncludes e ''quota''
      \<or> code e = Some ''ENOTFOUND'' \<or> code e = Some ''ECONNREFUSED''
      \<or> code e = Some ''ETIMEDOUT'' \<or> msgIncludesOpt e ''timeout''
      \<or> msgIncludes e ''ffmpeg'' \<or> msgIncludesOpt e ''ffprobe'')"

definition fileSystemCode :: "RawError \<Rightarrow> bool" where
  "fileSystemCode e =
     (code e = Some ''ENOENT'' \<or> code e = Some ''EACCES'' \<or> code e = Some ''EPERM''
      \<or> code e = Some ''ENOSPC'')"

definition transientMessage :: "RawError \<Rightarrow> bool" where
  "transientMessage e =
     (msgIncludes e ''502'' \<or> msgIncludes e ''503'' \<or> msgIncludes e ''504''
      \<or> msgIncludes e ''temporary'')"



section \<open>Verified properties\<close>

subsection \<open>Session store\<close>

lemma findIndex_find:
  "findIndex p xs = Some i \<Longrightarrow> i < length xs \<and> p (xs ! i) \<and> find p xs = Some (xs ! i)"
  by (induction xs arbitrary: i) (auto split: if_splits option.splits)

lemma findIndex_None: "findIndex p xs = None \<Longrightarrow> find p xs = None"
  by (induction xs) (auto split: if_splits option.splits)

lemma find_update_same:
  "findIndex p xs = Some i \<Longrightarrow> p y \<Longrightarrow> find p (xs[i := y]) = Some y"
  by (induction xs arbitrary: i) (auto split: if_splits option.splits)

lemma find_update_other:
  "findIndex q xs = Some i \<Longrightarrow> \<not> p (xs ! i) \<Longrightarrow> \<not> p y \<Longrightarrow> find p (xs[i := y]) = find p xs"
  by (induction xs arbitrary: i) (auto split: if_splits option.splits)

text \<open>
  Claim C9. The stage list is fixed when the session is created: it is
  prompts, images, videos, merge when neither voiceover nor music is requested and
  prompts, images, videos, audio, merge when either flag is set; the audio stage is present
  exactly when a flag is set, merge is last, every stage starts pending, and the session
  returned is the one stored under its id.
\<close>

theorem createSession_stage_list:
  "stages (fst (createSession uuid ts req img store)) =
     (if includeVoiceover req \<or> includeMusic req
      then map pendingStage [Prompts, Images, Videos, Audio, Merge]
      else map pendingStage [Prompts, Images, Videos, Merge])
   \<and> snd (createSession uuid ts req img store) uuid = Some (fst (createSession uuid ts req img store))
   \<and> (Audio \<in> stage ` set (stages (fst (createSession uuid ts req img store)))
        \<longleftrightarrow> includeVoiceover req \<or> includeMusic req)
   \<and> stage (last (stages (fst (createSession uuid ts req img store)))) = Merge
   \<and> list_all (\<lambda>s. status s = Pending) (stages (fst (createSession uuid ts req img store)))"
  by (simp add: createSession_def pendingStage_def Let_def)

theorem createSession_stage_list_witness:
  "map stage (stages (fst (createSession ''s1'' ''t0'' exampleRequest ''face.png'' Map.empty)))
     = [Prompts, Images, Videos, Merge]
   \<and> map stage (stages (fst (createSession ''s2'' ''t0'' musicRequest ''face.png'' Map.empty)))
     = [Prompts, Images, Videos, Audio, Merge]"
  using createSession_stage_list [of "''s1''" "''t0''" exampleRequest "''face.png''" Map.empty]
    createSession_stage_list [of "''s2''" "''t0''" musicRequest "''face.png''" Map.empty]
  by (simp add: exampleRequest_def musicRequest_def pendingStage_def)

text \<open>
  Claim C10. For a session id that is not in the store, \<open>updateSessionStatus\<close>,
  \<open>updateStageStatus\<close> and \<open>updateSessionFinalVideo\<close> return the store unchanged
  (the model has no error result for them: the source returns after a warning),
  \<open>getSession\<close> returns nothing and \<open>getSessionProgress\<close> returns progress 0 with
  no current stage.
\<close>

theorem absent_session_noop:
  "store sid = None \<Longrightarrow>
     updateSessionStatus now sid st err details store = store
   \<and> updateStageStatus now sid stg sst msg prog serr store = store
   \<and> updateSessionFinalVideo now sid videoPath store = store
   \<and> getSession sid store = None
   \<and> getSessionProgress sid store = \<lparr>progressPercent = Some 0, progressStage = None\<rparr>"
  by (simp add: updateSessionStatus_def updateStageStatus_def updateSessionFinalVideo_def
      getSession_def getSessionProgress_def)

theorem absent_session_noop_witness:
  "exampleStore ''s404'' = None
   \<and> updateSessionStatus ''t1'' ''s404'' SessionFailed (Some ''boom'') None exampleStore = exampleStore
   \<and> updateStageStatus ''t1'' ''s404'' Merge Completed None None None exampleStore = exampleStore
   \<and> updateSessionFinalVideo ''t1'' ''s404'' ''final.mp4'' exampleStore = exampleStore
   \<and> getSession ''s404'' exampleStore = None
   \<and> getSessionProgress ''s404'' exampleStore = \<lparr>progressPercent = Some 0, progressStage = None\<rparr>"
proof -
  have h: "exampleStore ''s404'' = None"
    by (simp add: exampleStore_def createSession_def Let_def)
  from absent_session_noop [where store = exampleStore and sid = "''s404''", OF h] h
  show ?thesis by simp
qed

lemma stageOf_update_same:
  assumes "store sid = Some session" "findIndex (\<lambda>s. stage s = stg) (stages session) = Some i"
  shows "\<exists>old. stageOf store sid stg = Some old \<and> old = stages session ! i \<and>
     stageOf (updateStageStatus now sid stg st msg prog err store) sid stg =
       Some (if st = Processing \<and> \<not> truthy (startTime old)
             then old\<lparr>status := st, message := msg, progress := prog, error := err, startTime := Some now\<rparr>
             else if st = Completed \<or> st = Error
             then old\<lparr>status := st, message := msg, progress := prog, error := err, endTime := Some now\<rparr>
             else old\<lparr>status := st, message := msg, progress := prog, error := err\<rparr>)"
proof -
  from findIndex_find[OF assms(2)] have i: "i < length (stages session)"
    "stage (stages session ! i) = stg" "find (\<lambda>s. stage s = stg) (stages session) = Some (stages session ! i)"
    by auto
  show ?thesis
    using assms i
    by (auto simp: stageOf_def updateStageStatus_def Let_def find_update_same)
qed

lemma stageOf_update_other:
  assumes "stg' \<noteq> stg"
  shows "stageOf (updateStageStatus now sid stg' st msg prog err store) sid stg = stageOf store sid stg"
proof (cases "store sid")
  case None
  then show ?thesis by (simp add: updateStageStatus_def)
next
  case (Some session)
  show ?thesis
  proof (cases "findIndex (\<lambda>s. stage s = stg') (stages session)")
    case None
    with Some show ?thesis by (simp add: updateStageStatus_def)
  next
    case (Some i)
    from findIndex_find[OF Some] have "stage (stages session ! i) = stg'" by simp
    with assms Some \<open>store sid = Some session\<close> show ?thesis
      by (auto simp: stageOf_def updateStageStatus_def Let_def 
          intro!: find_update_other[where q="\<lambda>s. stage s = stg'"])
  qed
qed

lemma stageOf_update_absent:
  assumes "stageOf store sid stg = None"
  shows "stageOf (updateStageStatus now sid stg st msg prog err store) sid stg = None"
proof (cases "store sid")
  case None
  then show ?thesis using assms by (simp add: updateStageStatus_def)
next
  case (Some session)
  show ?thesis
  proof (cases "findIndex (\<lambda>s. stage s = stg) (stages session)")
    case None
    with Some assms show ?thesis by (simp add: updateStageStatus_def)
  next
    case (Some i)
    from findIndex_find[OF Some] assms \<open>store sid = Some session\<close> show ?thesis
      by (simp add: stageOf_def)
  qed
qed

lemma stageOf_cases:
  "stageOf store sid stg = None \<or>
   (\<exists>session i. store sid = Some session \<and> findIndex (\<lambda>s. stage s = stg) (stages session) = Some i)"
  by (cases "store sid"; cases "findIndex (\<lambda>s. stage s = stg) (stages (the (store sid)))")
     (auto simp: stageOf_def dest: findIndex_None)

lemma startTime_kept:
  assumes "truthy (startTimeOf store sid stg)"
  shows "startTimeOf (updateStageStatus now sid stg' st msg prog err store) sid stg = startTimeOf store sid stg"
proof (cases "stg' = stg")
  case False
  then show ?thesis by (simp add: startTimeOf_def stageOf_update_other)
next
  case True
  from stageOf_cases[of store sid stg] show ?thesis
  proof
    assume "stageOf store sid stg = None"
    with assms show ?thesis by (simp add: startTimeOf_def truthy_def)
  next
    assume "\<exists>session i. store sid = Some session \<and> findIndex (\<lambda>s. stage s = stg) (stages session) = Some i"
    then obtain session i where h: "store sid = Some session"
       "findIndex (\<lambda>s. stage s = stg) (stages session) = Some i" by blast
    from stageOf_update_same[where store=store and sid=sid and stg=stg and now=now and st=st and msg=msg and prog=prog and err=err, OF h] assms True show ?thesis
      by (auto simp: startTimeOf_def)
  qed
qed

lemma startTime_after_processing:
  assumes "now \<noteq> []" "stageOf store sid stg \<noteq> None"
  shows "truthy (startTimeOf (updateStageStatus now sid stg Processing msg prog err store) sid stg)"
proof -
  from stageOf_cases[of store sid stg] assms obtain session i where h: "store sid = Some session"
       "findIndex (\<lambda>s. stage s = stg) (stages session) = Some i" by blast
  from stageOf_update_same[where store=store and sid=sid and stg=stg and now=now and st=Processing and msg=msg and prog=prog and err=err, OF h] assms show ?thesis
    by (auto simp: startTimeOf_def truthy_def)
qed

lemma endTime_written:
  assumes "stageOf store sid stg \<noteq> None" "st = Completed \<or> st = Error"
  shows "endTimeOf (updateStageStatus now sid stg st msg prog err store) sid stg = Some now"
proof -
  from stageOf_cases[of store sid stg] assms obtain session i where h: "store sid = Some session"
       "findIndex (\<lambda>s. stage s = stg) (stages session) = Some i" by blast
  from stageOf_update_same[where store=store and sid=sid and stg=stg and now=now and st=st and msg=msg and prog=prog and err=err, OF h] assms show ?thesis
    by (auto simp: endTimeOf_def)
qed

lemma endTime_kept:
  assumes "st \<noteq> Completed" "st \<noteq> Error"
  shows "endTimeOf (updateStageStatus now sid stg' st msg prog err store) sid stg = endTimeOf store sid stg"
proof (cases "stg' = stg")
  case False
  then show ?thesis by (simp add: endTimeOf_def stageOf_update_other)
next
  case True
  from stageOf_cases[of store sid stg] show ?thesis
  proof
    assume "stageOf store sid stg = None"
    with True show ?thesis by (simp add: endTimeOf_def stageOf_update_absent)
  next
    assume "\<exists>session i. store sid = Some session \<and> findIndex (\<lambda>s. stage s = stg) (stages session) = Some i"
    then obtain session i where h: "store sid = Some session"
       "findIndex (\<lambda>s. stage s = stg) (stages session) = Some i" by blast
    from stageOf_update_same[where store=store and sid=sid and stg=stg and now=now and st=st and msg=msg and prog=prog and err=err, OF h] assms True show ?thesis
      by (auto simp: endTimeOf_def)
  qed
qed

text \<open>
  Claim C5, as stated, asks that \<open>endTime\<close> be set exactly once. The source guards
  only \<open>startTime\<close> (\<open>!stageStatus.startTime\<close>); every \<open>completed\<close> or \<open>error\<close>
  update assigns \<open>endTime\<close>. A merge stage that fails and is retried to completion,
  which is what \<open>executeWithRetry\<close> does with a retryable failure, has its \<open>endTime\<close>
  written at the failure and again at the completion.
\<close>

theorem endTime_written_twice_counterexample:
  "map_option endTime (stageOf (retriedMergeStore 2) ''s1'' Merge) = Some (Some ''2025-01-01T00:00:02.000Z'')
   \<and> map_option endTime (stageOf (retriedMergeStore 4) ''s1'' Merge) = Some (Some ''2025-01-01T00:00:04.000Z'')"
  by (simp add: retriedMergeStore_def exampleStore_def exampleRequest_def createSession_def
      updateStageStatus_def stageOf_def pendingStage_def truthy_def Let_def)

lemma stageOf_other_session:
  "sid' \<noteq> sid \<Longrightarrow>
   stageOf (updateStageStatus now sid' stg' st msg prog err store) sid stg = stageOf store sid stg"
  by (auto simp: stageOf_def updateStageStatus_def Let_def split: option.splits)

lemma stageOf_update_exact:
  "stageOf (updateStageStatus now sid' stg' st msg prog err store) sid stg =
     (if sid' = sid \<and> stg' = stg
      then map_option
             (\<lambda>old. if st = Processing \<and> \<not> truthy (startTime old)
                    then old\<lparr>status := st, message := msg, progress := prog, error := err,
                             startTime := Some now\<rparr>
                    else if st = Completed \<or> st = Error
                    then old\<lparr>status := st, message := msg, progress := prog, error := err,
                             endTime := Some now\<rparr>
                    else old\<lparr>status := st, message := msg, progress := prog, error := err\<rparr>)
             (stageOf store sid stg)
      else stageOf store sid stg)"
proof (cases "sid' = sid \<and> stg' = stg")
  case False
  then show ?thesis
    by (cases "sid' = sid") (auto simp: stageOf_other_session stageOf_update_other)
next
  case True
  from stageOf_cases[of store sid stg] show ?thesis
  proof
    assume "stageOf store sid stg = None"
    with True show ?thesis by (simp add: stageOf_update_absent)
  next
    assume "\<exists>session i. store sid = Some session
       \<and> findIndex (\<lambda>s. stage s = stg) (stages session) = Some i"
    then obtain session i where h: "store sid = Some session"
       "findIndex (\<lambda>s. stage s = stg) (stages session) = Some i" by blast
    from stageOf_update_same[where store=store and sid=sid and stg=stg and now=now and st=st
        and msg=msg and prog=prog and err=err, OF h] True
    show ?thesis by auto
  qed
qed

lemma stageOf_session_updates:
  "stageOf (updateSessionStatus now sid' sst serr details store) sid stg = stageOf store sid stg"
  "stageOf (updateSessionFinalVideo now sid' videoPath store) sid stg = stageOf store sid stg"
  by (auto simp: stageOf_def updateSessionStatus_def updateSessionFinalVideo_def Let_def
      split: option.splits)

text \<open>
  Claim C5, amended. The three updaters of the session store treat the timestamps of
  every stage of every session as follows. \<open>updateStageStatus\<close> writes \<open>startTime\<close>
  in one case only: the update is a \<open>processing\<close> update of that very stage of that
  very session, the stage exists and its \<open>startTime\<close> is absent or empty; it is then the
  call's timestamp. In every other case \<open>startTime\<close> is what it was, so once set it
  never changes, and two \<open>processing\<close> updates in a row leave it as the first one left
  it (timestamps from \<open>toISOString\<close> are non-empty). \<open>endTime\<close> is not written once: it
  is assigned the call's timestamp by every \<open>completed\<close> or \<open>error\<close> update of that
  very stage, when it exists, and is what it was after every other update.
  \<open>updateSessionStatus\<close> and \<open>updateSessionFinalVideo\<close> change no stage.
\<close>

theorem stage_timestamp_discipline:
  "startTimeOf (updateStageStatus now sid' stg' st msg prog err store) sid stg =
     (if sid' = sid \<and> stg' = stg \<and> st = Processing \<and> stageOf store sid stg \<noteq> None
         \<and> \<not> truthy (startTimeOf store sid stg)
      then Some now else startTimeOf store sid stg)
   \<and> endTimeOf (updateStageStatus now sid' stg' st msg prog err store) sid stg =
     (if sid' = sid \<and> stg' = stg \<and> (st = Completed \<or> st = Error) \<and> stageOf store sid stg \<noteq> None
      then Some now else endTimeOf store sid stg)
   \<and> (truthy (startTimeOf store sid stg) \<longrightarrow>
      startTimeOf (updateStageStatus now sid' stg' st msg prog err store) sid stg
        = startTimeOf store sid stg)
   \<and> (now1 \<noteq> [] \<longrightarrow>
      startTimeOf (updateStageStatus now2 sid stg Processing msg2 prog2 err2
                    (updateStageStatus now1 sid stg Processing msg1 prog1 err1 store)) sid stg
        = startTimeOf (updateStageStatus now1 sid stg Processing msg1 prog1 err1 store) sid stg)
   \<and> stageOf (updateSessionStatus now sid' sst serr details store) sid stg = stageOf store sid stg
   \<and> stageOf (updateSessionFinalVideo now sid' videoPath store) sid stg = stageOf store sid stg"
proof (intro conjI impI)
  show "startTimeOf (updateStageStatus now sid' stg' st msg prog err store) sid stg =
     (if sid' = sid \<and> stg' = stg \<and> st = Processing \<and> stageOf store sid stg \<noteq> None
         \<and> \<not> truthy (startTimeOf store sid stg)
      then Some now else startTimeOf store sid stg)"
    by (cases "stageOf store sid stg") (auto simp: startTimeOf_def stageOf_update_exact truthy_def)
next
  show "endTimeOf (updateStageStatus now sid' stg' st msg prog err store) sid stg =
     (if sid' = sid \<and> stg' = stg \<and> (st = Completed \<or> st = Error) \<and> stageOf store sid stg \<noteq> None
      then Some now else endTimeOf store sid stg)"
    by (cases "stageOf store sid stg") (auto simp: endTimeOf_def stageOf_update_exact)
next
  assume "truthy (startTimeOf store sid stg)"
  then show "startTimeOf (updateStageStatus now sid' stg' st msg prog err store) sid stg
        = startTimeOf store sid stg"
    by (cases "stageOf store sid stg") (auto simp: startTimeOf_def stageOf_update_exact)
next
  assume n: "now1 \<noteq> []"
  let ?s1 = "updateStageStatus now1 sid stg Processing msg1 prog1 err1 store"
  show "startTimeOf (updateStageStatus now2 sid stg Processing msg2 prog2 err2 ?s1) sid stg
        = startTimeOf ?s1 sid stg"
  proof (cases "stageOf store sid stg")
    case None
    then show ?thesis by (simp add: startTimeOf_def stageOf_update_absent)
  next
    case (Some a)
    then have "truthy (startTimeOf ?s1 sid stg)" using n by (intro startTime_after_processing) auto
    then show ?thesis by (rule startTime_kept)
  qed
next
  show "stageOf (updateSessionStatus now sid' sst serr details store) sid stg = stageOf store sid stg"
    by (rule stageOf_session_updates)
next
  show "stageOf (updateSessionFinalVideo now sid' videoPath store) sid stg = stageOf store sid stg"
    by (rule stageOf_session_updates)
qed

lemma retried2: "stageOf (retriedMergeStore 2) ''s1'' Merge \<noteq> None
   \<and> truthy (startTimeOf (retriedMergeStore 2) ''s1'' Merge)
   \<and> startTimeOf (retriedMergeStore 2) ''s1'' Merge = Some ''2025-01-01T00:00:01.000Z''
   \<and> endTimeOf (retriedMergeStore 2) ''s1'' Merge = Some ''2025-01-01T00:00:02.000Z''"
  by (simp add: retriedMergeStore_def exampleStore_def exampleRequest_def createSession_def
      updateStageStatus_def stageOf_def startTimeOf_def endTimeOf_def pendingStage_def truthy_def Let_def)

lemma fresh_merge: "stageOf exampleStore ''s1'' Merge \<noteq> None
   \<and> startTimeOf exampleStore ''s1'' Merge = None \<and> endTimeOf exampleStore ''s1'' Merge = None"
  by (simp add: exampleStore_def exampleRequest_def createSession_def stageOf_def startTimeOf_def
      endTimeOf_def pendingStage_def Let_def)

theorem stage_timestamp_discipline_witness:
  "truthy (startTimeOf (retriedMergeStore 2) ''s1'' Merge)
   \<and> startTimeOf (updateStageStatus ''2025-01-01T00:00:03.000Z'' ''s1'' Merge Processing None None None
         (retriedMergeStore 2)) ''s1'' Merge = Some ''2025-01-01T00:00:01.000Z''
   \<and> endTimeOf (updateStageStatus ''2025-01-01T00:00:03.000Z'' ''s1'' Merge Processing None None None
         (retriedMergeStore 2)) ''s1'' Merge = Some ''2025-01-01T00:00:02.000Z''
   \<and> endTimeOf (updateStageStatus ''2025-01-01T00:00:04.000Z'' ''s1'' Merge Completed None None None
         (retriedMergeStore 2)) ''s1'' Merge = Some ''2025-01-01T00:00:04.000Z''
   \<and> startTimeOf (updateStageStatus ''2025-01-01T00:00:05.000Z'' ''s1'' Merge Completed None None None
         exampleStore) ''s1'' Merge = None
   \<and> startTimeOf (updateStageStatus ''2025-01-01T00:00:05.000Z'' ''s1'' Merge Processing None None None
         exampleStore) ''s1'' Merge = Some ''2025-01-01T00:00:05.000Z''
   \<and> endTimeOf (updateStageStatus ''2025-01-01T00:00:05.000Z'' ''s1'' Images Error None None None
         (retriedMergeStore 2)) ''s1'' Merge = Some ''2025-01-01T00:00:02.000Z''"
  using retried2 fresh_merge
    stage_timestamp_discipline [where store = "retriedMergeStore 2" and sid = "''s1''"
      and sid' = "''s1''" and stg = Merge and stg' = Merge and now = "''2025-01-01T00:00:03.000Z''"
      and st = Processing and msg = None and prog = None and err = None and ?now1.0 = "''t''"]
    stage_timestamp_discipline [where store = "retriedMergeStore 2" and sid = "''s1''"
      and sid' = "''s1''" and stg = Merge and stg' = Merge and now = "''2025-01-01T00:00:04.000Z''"
      and st = Completed and msg = None and prog = None and err = None and ?now1.0 = "''t''"]
    stage_timestamp_discipline [where store = exampleStore and sid = "''s1''"
      and sid' = "''s1''" and stg = Merge and stg' = Merge and now = "''2025-01-01T00:00:05.000Z''"
      and st = Completed and msg = None and prog = None and err = None and ?now1.0 = "''t''"]
    stage_timestamp_discipline [where store = exampleStore and sid = "''s1''"
      and sid' = "''s1''" and stg = Merge and stg' = Merge and now = "''2025-01-01T00:00:05.000Z''"
      and st = Processing and msg = None and prog = None and err = None and ?now1.0 = "''t''"]
    stage_timestamp_discipline [where store = "retriedMergeStore 2" and sid = "''s1''"
      and sid' = "''s1''" and stg = Merge and stg' = Images and now = "''2025-01-01T00:00:05.000Z''"
      and st = Error and msg = None and prog = None and err = None and ?now1.0 = "''t''"]
  by (simp add: truthy_def)

subsection \<open>Error classification\<close>

text \<open>
  Claim C7, as stated, has every file-not-found (\<open>ENOENT\<close>) and disk-full (\<open>ENOSPC\<close>)
  error tagged as not retryable. \<open>handleServiceError\<close> tries its rules in order and the
  first that matches decides; the rules of the services and of ffmpeg come before the
  file-system codes. The \<open>ENOENT\<close> error raised when the \<open>ffmpeg\<close> binary cannot be
  spawned is classified by the ffmpeg rule, and an \<open>ENOSPC\<close> error whose message
  contains \<open>quota\<close> (here in the path of the file) by the ElevenLabs rule: both
  outputs are retryable.
\<close>

theorem file_error_retryable_counterexample:
  "code ffmpegMissing = Some ''ENOENT''
   \<and> retryable (handleServiceError ffmpegMissing noContext)
   \<and> errClass (handleServiceError ffmpegMissing noContext) = AppErrorC
   \<and> contextReason (handleServiceError ffmpegMissing noContext) = CStr ''ffmpeg_error''
   \<and> code quotaDiskFull = Some ''ENOSPC''
   \<and> retryable (handleServiceError quotaDiskFull noContext)
   \<and> errClass (handleServiceError quotaDiskFull noContext) = ServiceUnavailableErrorC"
  by (simp add: handleServiceError_def ffmpegMissing_def quotaDiskFull_def msgIncludes_def
      msgIncludesOpt_def ServiceUnavailableError_def newAppError_def contextReason_def)

lemma handleServiceError_retryable:
  "retryable (handleServiceError e c)
     \<longleftrightarrow> serviceRuleMatches e \<or> (\<not> fileSystemCode e \<and> transientMessage e)"
  by (auto simp: handleServiceError_def serviceRuleMatches_def fileSystemCode_def
      transientMessage_def ServiceUnavailableError_def RateLimitError_def
      ResourceNotFoundError_def ProcessingTimeoutError_def newAppError_def)

lemma handleServiceError_class:
  "errClass (handleServiceError e c) =
     (if code e = Some ''insufficient_quota'' then ServiceUnavailableErrorC
      else if code e = Some ''rate_limit_exceeded'' then RateLimitErrorC
      else if msgIncludes e ''prediction failed'' \<or> msgIncludes e ''quota''
              \<or> code e = Some ''ENOTFOUND'' \<or> code e = Some ''ECONNREFUSED''
           then ServiceUnavailableErrorC
      else if code e = Some ''ETIMEDOUT'' \<or> msgIncludesOpt e ''timeout''
           then ProcessingTimeoutErrorC
      else if msgIncludes e ''ffmpeg'' \<or> msgIncludesOpt e ''ffprobe'' then AppErrorC
      else if code e = Some ''ENOENT'' then ResourceNotFoundErrorC
      else AppErrorC)"
  by (simp add: handleServiceError_def ServiceUnavailableError_def RateLimitError_def
      ResourceNotFoundError_def ProcessingTimeoutError_def newAppError_def)

lemma handleServiceError_file_rules:
  assumes "\<not> serviceRuleMatches e"
  shows "code e = Some ''ENOENT'' \<longrightarrow>
           handleServiceError e c = ResourceNotFoundError ''File'' (path e)"
    and "code e = Some ''EACCES'' \<or> code e = Some ''EPERM'' \<longrightarrow>
           handleServiceError e c = newAppError ''File permission denied'' 500 True False
             (Fields [(''reason'', CStr ''permission_error''), (''path'', optStr (path e))])"
    and "code e = Some ''ENOSPC'' \<longrightarrow>
           handleServiceError e c = newAppError ''Insufficient disk space'' 507 True False
             (Fields [(''reason'', CStr ''disk_full'')])"
    and "\<not> fileSystemCode e \<and> \<not> transientMessage e \<longrightarrow>
           handleServiceError e c
             = newAppError (orElse (rawMessage e) ''An unexpected error occurred'') 500 True False
                 (Ctx c)"
  using assms
  by (auto simp: handleServiceError_def serviceRuleMatches_def fileSystemCode_def
      transientMessage_def)

text \<open>
  Claim C7, amended. \<open>handleServiceError\<close> tries its service, network, timeout and
  ffmpeg rules before its file-system rules, and the first rule that matches decides.
  For every raw error and context: an output of class \<open>RateLimitError\<close>,
  \<open>ServiceUnavailableError\<close> or \<open>ProcessingTimeoutError\<close> is retryable, and a
  \<open>RateLimitError\<close> carries the raw error's \<open>retry_after\<close>; an output of class
  \<open>ResourceNotFoundError\<close> is not retryable; the output is never a \<open>ValidationError\<close>
  or an \<open>AuthenticationError\<close> (whose constructors fix \<open>retryable = false\<close>).
  When none of the service, network, timeout and ffmpeg rules matches the error, an
  \<open>ENOENT\<close> error becomes the \<open>ResourceNotFoundError\<close>, an \<open>EACCES\<close> or \<open>EPERM\<close>
  error the permission-denied error, an \<open>ENOSPC\<close> error the disk-full error with
  status 507, and an error with none of these codes and no transient message (502,
  503, 504, \<open>temporary\<close>) the fallback with status 500: none of the four is retryable.
  The first two conjuncts give the flag and the class of the output as functions of
  the raw error.
\<close>

theorem handleServiceError_retryable_tagging:
  "(retryable (handleServiceError e c)
      \<longleftrightarrow> serviceRuleMatches e \<or> (\<not> fileSystemCode e \<and> transientMessage e))
   \<and> errClass (handleServiceError e c) =
       (if code e = Some ''insufficient_quota'' then ServiceUnavailableErrorC
        else if code e = Some ''rate_limit_exceeded'' then RateLimitErrorC
        else if msgIncludes e ''prediction failed'' \<or> msgIncludes e ''quota''
                \<or> code e = Some ''ENOTFOUND'' \<or> code e = Some ''ECONNREFUSED''
             then ServiceUnavailableErrorC
        else if code e = Some ''ETIMEDOUT'' \<or> msgIncludesOpt e ''timeout''
             then ProcessingTimeoutErrorC
        else if msgIncludes e ''ffmpeg'' \<or> msgIncludesOpt e ''ffprobe'' then AppErrorC
        else if code e = Some ''ENOENT'' then ResourceNotFoundErrorC
        else AppErrorC)
   \<and> errClass (handleServiceError e c) \<noteq> ValidationErrorC
   \<and> errClass (handleServiceError e c) \<noteq> AuthenticationErrorC
   \<and> (errClass (handleServiceError e c)
         \<in> {RateLimitErrorC, ServiceUnavailableErrorC, ProcessingTimeoutErrorC}
      \<longrightarrow> retryable (handleServiceError e c))
   \<and> (errClass (handleServiceError e c) = RateLimitErrorC
      \<longrightarrow> errContext (handleServiceError e c) = Fields [(''retryAfter'', optNum (retry_after e))])
   \<and> (errClass (handleServiceError e c) = ResourceNotFoundErrorC
      \<longrightarrow> \<not> retryable (handleServiceError e c))
   \<and> (\<not> serviceRuleMatches e \<and> code e = Some ''ENOENT'' \<longrightarrow>
        handleServiceError e c = ResourceNotFoundError ''File'' (path e))
   \<and> (\<not> serviceRuleMatches e \<and> (code e = Some ''EACCES'' \<or> code e = Some ''EPERM'') \<longrightarrow>
        handleServiceError e c = newAppError ''File permission denied'' 500 True False
          (Fields [(''reason'', CStr ''permission_error''), (''path'', optStr (path e))]))
   \<and> (\<not> serviceRuleMatches e \<and> code e = Some ''ENOSPC'' \<longrightarrow>
        handleServiceError e c = newAppError ''Insufficient disk space'' 507 True False
          (Fields [(''reason'', CStr ''disk_full'')]))
   \<and> (\<not> serviceRuleMatches e \<and> \<not> fileSystemCode e \<and> \<not> transientMessage e \<longrightarrow>
        handleServiceError e c
          = newAppError (orElse (rawMessage e) ''An unexpected error occurred'') 500 True False
              (Ctx c))
   \<and> \<not> retryable (ResourceNotFoundError resource ident)
   \<and> \<not> retryable (ValidationError m vc) \<and> \<not> retryable (AuthenticationError svc)"
proof (intro conjI)
  show "retryable (handleServiceError e c)
      \<longleftrightarrow> serviceRuleMatches e \<or> (\<not> fileSystemCode e \<and> transientMessage e)"
    by (rule handleServiceError_retryable)
  show "errClass (handleServiceError e c) =
       (if code e = Some ''insufficient_quota'' then ServiceUnavailableErrorC
        else if code e = Some ''rate_limit_exceeded'' then RateLimitErrorC
        else if msgIncludes e ''prediction failed'' \<or> msgIncludes e ''quota''
                \<or> code e = Some ''ENOTFOUND'' \<or> code e = Some ''ECONNREFUSED''
             then ServiceUnavailableErrorC
        else if code e = Some ''ETIMEDOUT'' \<or> msgIncludesOpt e ''timeout''
             then ProcessingTimeoutErrorC
        else if msgIncludes e ''ffmpeg'' \<or> msgIncludesOpt e ''ffprobe'' then AppErrorC
        else if code e = Some ''ENOENT'' then ResourceNotFoundErrorC
        else AppErrorC)"
    by (rule handleServiceError_class)
  show "errClass (handleServiceError e c) \<noteq> ValidationErrorC"
    by (simp add: handleServiceError_class)
  show "errClass (handleServiceError e c) \<noteq> AuthenticationErrorC"
    by (simp add: handleServiceError_class)
  show "errClass (handleServiceError e c)
         \<in> {RateLimitErrorC, ServiceUnavailableErrorC, ProcessingTimeoutErrorC}
      \<longrightarrow> retryable (handleServiceError e c)"
    by (auto simp: handleServiceError_class handleServiceError_retryable serviceRuleMatches_def
        split: if_splits)
  show "errClass (handleServiceError e c) = RateLimitErrorC
      \<longrightarrow> errContext (handleServiceError e c) = Fields [(''retryAfter'', optNum (retry_after e))]"
    by (simp add: handleServiceError_def ServiceUnavailableError_def RateLimitError_def
        ResourceNotFoundError_def ProcessingTimeoutError_def newAppError_def)
  show "errClass (handleServiceError e c) = ResourceNotFoundErrorC
      \<longrightarrow> \<not> retryable (handleServiceError e c)"
    by (auto simp: handleServiceError_class handleServiceError_retryable serviceRuleMatches_def
        fileSystemCode_def split: if_splits)
  show "\<not> serviceRuleMatches e \<and> code e = Some ''ENOENT'' \<longrightarrow>
        handleServiceError e c = ResourceNotFoundError ''File'' (path e)"
    using handleServiceError_file_rules(1) by blast
  show "\<not> serviceRuleMatches e \<and> (code e = Some ''EACCES'' \<or> code e = Some ''EPERM'') \<longrightarrow>
        handleServiceError e c = newAppError ''File permission denied'' 500 True False
          (Fields [(''reason'', CStr ''permission_error''), (''path'', optStr (path e))])"
    using handleServiceError_file_rules(2) by blast
  show "\<not> serviceRuleMatches e \<and> code e = Some ''ENOSPC'' \<longrightarrow>
        handleServiceError e c = newAppError ''Insufficient disk space'' 507 True False
          (Fields [(''reason'', CStr ''disk_full'')])"
    using handleServiceError_file_rules(3) by blast
  show "\<not> serviceRuleMatches e \<and> \<not> fileSystemCode e \<and> \<not> transientMessage e \<longrightarrow>
        handleServiceError e c
          = newAppError (orElse (rawMessage e) ''An unexpected error occurred'') 500 True False
              (Ctx c)"
    using handleServiceError_file_rules(4) by blast
  show "\<not> retryable (ResourceNotFoundError resource ident)"
    by (simp add: ResourceNotFoundError_def newAppError_def)
  show "\<not> retryable (ValidationError m vc)" by (simp add: ValidationError_def newAppError_def)
  show "\<not> retryable (AuthenticationError svc)"
    by (simp add: AuthenticationError_def newAppError_def)
qed

lemma example_rules:
  "\<not> serviceRuleMatches diskFull" "\<not> serviceRuleMatches missingFile"
  "\<not> serviceRuleMatches unknownFailure" "\<not> fileSystemCode unknownFailure"
  "\<not> transientMessage unknownFailure" "serviceRuleMatches quotaDiskFull"
  "serviceRuleMatches rateLimited" "serviceRuleMatches ffmpegMissing"
  by (simp_all add: serviceRuleMatches_def fileSystemCode_def transientMessage_def diskFull_def
      missingFile_def unknownFailure_def quotaDiskFull_def rateLimited_def ffmpegMissing_def
      msgIncludes_def msgIncludesOpt_def)

theorem handleServiceError_retryable_tagging_witness:
  "errClass (handleServiceError rateLimited noContext) = RateLimitErrorC
   \<and> retryable (handleServiceError rateLimited noContext)
   \<and> errContext (handleServiceError rateLimited noContext) = Fields [(''retryAfter'', CNum 30)]
   \<and> handleServiceError diskFull noContext
        = newAppError ''Insufficient disk space'' 507 True False
            (Fields [(''reason'', CStr ''disk_full'')])
   \<and> \<not> retryable (handleServiceError diskFull noContext)
   \<and> errClass (handleServiceError missingFile noContext) = ResourceNotFoundErrorC
   \<and> \<not> retryable (handleServiceError missingFile noContext)
   \<and> statusCode (handleServiceError unknownFailure noContext) = 500
   \<and> \<not> retryable (handleServiceError unknownFailure noContext)
   \<and> retryable (handleServiceError ffmpegMissing noContext)"
proof -
  note limited = handleServiceError_retryable_tagging [where e = rateLimited and c = noContext
      and resource = "''File''" and ident = None and m = "''m''" and vc = NoContext
      and svc = "''OpenAI''"]
  note full = handleServiceError_retryable_tagging [where e = diskFull and c = noContext
      and resource = "''File''" and ident = None and m = "''m''" and vc = NoContext
      and svc = "''OpenAI''"]
  note missing = handleServiceError_retryable_tagging [where e = missingFile and c = noContext
      and resource = "''File''" and ident = None and m = "''m''" and vc = NoContext
      and svc = "''OpenAI''"]
  note unknown = handleServiceError_retryable_tagging [where e = unknownFailure and c = noContext
      and resource = "''File''" and ident = None and m = "''m''" and vc = NoContext
      and svc = "''OpenAI''"]
  note spawn = handleServiceError_retryable_tagging [where e = ffmpegMissing and c = noContext
      and resource = "''File''" and ident = None and m = "''m''" and vc = NoContext
      and svc = "''OpenAI''"]
  have codes: "code rateLimited = Some ''rate_limit_exceeded''" "retry_after rateLimited = Some 30"
    "code diskFull = Some ''ENOSPC''" "code missingFile = Some ''ENOENT''"
    by (simp_all add: rateLimited_def diskFull_def missingFile_def)
  have a: "errClass (handleServiceError rateLimited noContext) = RateLimitErrorC"
    using limited codes by simp
  have b: "retryable (handleServiceError rateLimited noContext)"
    using limited example_rules(7) by simp
  have c: "errContext (handleServiceError rateLimited noContext) = Fields [(''retryAfter'', CNum 30)]"
    using limited a codes by (simp add: optNum_def)
  have d: "handleServiceError diskFull noContext
        = newAppError ''Insufficient disk space'' 507 True False
            (Fields [(''reason'', CStr ''disk_full'')])"
    using full example_rules(1) codes by simp
  have e: "\<not> retryable (handleServiceError diskFull noContext)"
    by (simp add: d newAppError_def)
  have f: "handleServiceError missingFile noContext
        = ResourceNotFoundError ''File'' (path missingFile)"
    using missing example_rules(2) codes by simp
  have g: "errClass (handleServiceError missingFile noContext) = ResourceNotFoundErrorC"
    by (simp add: f ResourceNotFoundError_def)
  have h: "\<not> retryable (handleServiceError missingFile noContext)"
    by (simp add: f ResourceNotFoundError_def newAppError_def)
  have i: "handleServiceError unknownFailure noContext
        = newAppError (orElse (rawMessage unknownFailure) ''An unexpected error occurred'') 500
            True False (Ctx noContext)"
    using unknown example_rules(3,4,5) by simp
  have j: "retryable (handleServiceError ffmpegMissing noContext)"
    using spawn example_rules(8) by simp
  from a b c d e g h i j show ?thesis by (simp add: newAppError_def)
qed

subsection \<open>Retry loops\<close>

lemma withRetryLoop_success:
  "int attempt \<le> maxAttempts opts \<Longrightarrow> operation s = (Inr r, s') \<Longrightarrow>
   withRetryLoop operation opts attempt lastError n ds s =
     (\<lparr>outcome = Inr r, invocations = n + 1, delays = ds\<rparr>, s')"
  by (subst withRetryLoop.simps) simp

lemma withRetryLoop_stop:
  "int attempt \<le> maxAttempts opts \<Longrightarrow> operation s = (Inl e, s') \<Longrightarrow>
   \<not> isRetryableBy opts e \<or> int attempt = maxAttempts opts \<Longrightarrow>
   withRetryLoop operation opts attempt lastError n ds s =
     (\<lparr>outcome = Inl (Some e), invocations = n + 1, delays = ds\<rparr>, s')"
  by (subst withRetryLoop.simps) auto

lemma withRetryLoop_again:
  "int attempt < maxAttempts opts \<Longrightarrow> operation s = (Inl e, s') \<Longrightarrow> isRetryableBy opts e \<Longrightarrow>
   withRetryLoop operation opts attempt lastError n ds s =
     withRetryLoop operation opts (attempt + 1) (Some e) (n + 1) (ds @ [backoffDelay opts attempt]) s'"
  by (subst withRetryLoop.simps) auto

lemma withRetryLoop_exhausted:
  "\<not> int attempt \<le> maxAttempts opts \<Longrightarrow>
   withRetryLoop operation opts attempt lastError n ds s =
     (\<lparr>outcome = Inl lastError, invocations = n, delays = ds\<rparr>, s)"
  by (subst withRetryLoop.simps) simp

lemma withRetryLoop_invocations_ge:
  "n \<le> invocations (fst (withRetryLoop operation opts attempt lastError n ds s))"
proof (induction operation opts attempt lastError n ds s rule: withRetryLoop.induct)
  case (1 operation opts attempt lastError n ds s)
  show ?case
  proof (cases "int attempt \<le> maxAttempts opts")
    case False
    then show ?thesis by (simp add: withRetryLoop_exhausted)
  next
    case True
    obtain res s' where op: "operation s = (res, s')" by (cases "operation s")
    show ?thesis
    proof (cases res)
      case (Inr r)
      with True op show ?thesis by (simp add: withRetryLoop_success)
    next
      case (Inl e)
      show ?thesis
      proof (cases "\<not> isRetryableBy opts e \<or> int attempt = maxAttempts opts")
        case True
        with \<open>int attempt \<le> maxAttempts opts\<close> op Inl show ?thesis
          by (simp add: withRetryLoop_stop)
      next
        case False
        with \<open>int attempt \<le> maxAttempts opts\<close> have lt: "int attempt < maxAttempts opts" by simp
        from False have r: "isRetryableBy opts e" by simp
        have eq: "withRetryLoop operation opts attempt lastError n ds s =
            withRetryLoop operation opts (attempt + 1) (Some e) (n + 1)
              (ds @ [backoffDelay opts attempt]) s'"
          using op Inl by (intro withRetryLoop_again[OF lt _ r]) simp
        have "n + 1 \<le> invocations (fst (withRetryLoop operation opts (attempt + 1) (Some e) (n + 1)
                 (ds @ [backoffDelay opts attempt]) s'))"
          using "1.IH"[OF \<open>int attempt \<le> maxAttempts opts\<close> op[symmetric] Inl refl refl] False
          by simp
        then show ?thesis by (simp add: eq)
      qed
    qed
  qed
qed

lemma withRetryLoop_invokes:
  assumes "int attempt \<le> maxAttempts opts"
  shows "n + 1 \<le> invocations (fst (withRetryLoop operation opts attempt lastError n ds s))"
proof -
  obtain res s' where op: "operation s = (res, s')" by (cases "operation s")
  show ?thesis
  proof (cases res)
    case (Inr r)
    with assms op show ?thesis by (simp add: withRetryLoop_success)
  next
    case (Inl e)
    show ?thesis
    proof (cases "\<not> isRetryableBy opts e \<or> int attempt = maxAttempts opts")
      case True
      with assms op Inl show ?thesis by (simp add: withRetryLoop_stop)
    next
      case False
      with assms have lt: "int attempt < maxAttempts opts" and r: "isRetryableBy opts e" by auto
      have eq: "withRetryLoop operation opts attempt lastError n ds s =
          withRetryLoop operation opts (attempt + 1) (Some e) (n + 1)
            (ds @ [backoffDelay opts attempt]) s'"
        using op Inl by (intro withRetryLoop_again[OF lt _ r]) simp
      show ?thesis
        using withRetryLoop_invocations_ge[of "n + 1" operation opts "attempt + 1" "Some e"
            "ds @ [backoffDelay opts attempt]" s']
        by (simp add: eq)
    qed
  qed
qed

lemma executeWithRetryLoop_stop:
  "int attempt \<le> maxRetries \<Longrightarrow> operation s = (Inl t, s') \<Longrightarrow>
   \<not> shouldRetry (toAppError t (stageErrorContext sid stg attempt)) (int attempt) maxRetries \<Longrightarrow>
   executeWithRetryLoop operation stg sid maxRetries attempt lastError n ds s =
     (\<lparr>outcome = Inl (Some (toAppError t (stageErrorContext sid stg attempt))),
       invocations = n + 1, delays = ds\<rparr>, s')"
  by (subst executeWithRetryLoop.simps) (simp add: Let_def)

lemma executeWithRetryLoop_success:
  "int attempt \<le> maxRetries \<Longrightarrow> operation s = (Inr r, s') \<Longrightarrow>
   executeWithRetryLoop operation stg sid maxRetries attempt lastError n ds s =
     (\<lparr>outcome = Inr r, invocations = n + 1, delays = ds\<rparr>, s')"
  by (subst executeWithRetryLoop.simps) simp

lemma executeWithRetryLoop_again:
  "int attempt \<le> maxRetries \<Longrightarrow> operation s = (Inl t, s') \<Longrightarrow>
   shouldRetry (toAppError t (stageErrorContext sid stg attempt)) (int attempt) maxRetries \<Longrightarrow>
   executeWithRetryLoop operation stg sid maxRetries attempt lastError n ds s =
     executeWithRetryLoop operation stg sid maxRetries (attempt + 1)
       (Some (toAppError t (stageErrorContext sid stg attempt))) (n + 1)
       (ds @ [getRetryDelay attempt 1000]) s'"
  by (subst executeWithRetryLoop.simps) (simp add: Let_def)

lemma executeWithRetryLoop_exhausted:
  "\<not> int attempt \<le> maxRetries \<Longrightarrow>
   executeWithRetryLoop operation stg sid maxRetries attempt lastError n ds s =
     (\<lparr>outcome = Inl lastError, invocations = n, delays = ds\<rparr>, s)"
  by (subst executeWithRetryLoop.simps) simp

lemma no_retry_by_class:
  "errClass a = ValidationErrorC \<or> errClass a = AuthenticationErrorC \<Longrightarrow>
   \<not> shouldRetry a attempt maxRetries"
  by (auto simp: shouldRetry_def)

text \<open>
  Claim C3, as stated, has an operation that fails with an authentication error invoked
  exactly once whatever \<open>maxAttempts\<close> is. \<open>withRetry\<close> never looks at the class of an
  error: under a policy whose predicate accepts every error the operation is invoked
  \<open>maxAttempts\<close> times, and with \<open>maxAttempts = 0\<close> neither \<open>withRetry\<close> nor
  \<open>executeWithRetry\<close> invokes it at all (they throw \<open>undefined\<close> and \<open>null\<close>).
\<close>

theorem authentication_invocations_counterexample:
  "withRetry (alwaysFails (AppErr (AuthenticationError ''OpenAI'')))
       (retryEverything\<lparr>maxAttempts := 5\<rparr>) 0
     = (\<lparr>outcome = Inl (Some (AppErr (AuthenticationError ''OpenAI''))), invocations = 5,
         delays = [1000, 2000, 4000, 8000]\<rparr>, 5)
   \<and> withRetry (alwaysFails (AppErr (AuthenticationError ''OpenAI''))) zeroAttempts 0
     = (\<lparr>outcome = Inl None, invocations = 0, delays = []\<rparr>, 0)
   \<and> executeWithRetry (stageAlwaysFails (AppErr (AuthenticationError ''OpenAI''))) ''prompts'' ''s1'' 0 0
     = (\<lparr>outcome = Inl None, invocations = 0, delays = []\<rparr>, 0)"
  by (simp add: withRetry_def executeWithRetry_def withRetryLoop.simps executeWithRetryLoop.simps
      alwaysFails_def stageAlwaysFails_def retryEverything_def zeroAttempts_def
      DEFAULT_RETRY_OPTIONS_def isRetryableBy_def backoffDelay_def)

text \<open>
  Claim C3, amended. Under any policy with \<open>maxAttempts = 3\<close>, an operation that fails
  on its first two calls with errors the policy's predicate accepts (or the policy has no
  predicate) and succeeds on the third is invoked exactly 3 times by \<open>withRetry\<close>, which
  returns the third call's result. An operation whose first failure the policy's predicate
  rejects is invoked exactly once by \<open>withRetry\<close> for every \<open>maxAttempts \<ge> 1\<close>; the
  default, OpenAI, Replicate and ElevenLabs predicates all reject an
  \<open>AuthenticationError\<close>. \<open>executeWithRetry\<close> invokes an operation that throws an
  \<open>AuthenticationError\<close> exactly once for every \<open>maxRetries \<ge> 1\<close>.
\<close>

theorem retry_invocation_counts:
  "(maxAttempts opts = 3 \<and> operation s0 = (Inl e1, s1) \<and> operation s1 = (Inl e2, s2)
      \<and> operation s2 = (Inr r, s3) \<and> isRetryableBy opts e1 \<and> isRetryableBy opts e2
    \<longrightarrow> withRetry operation opts s0 =
          (\<lparr>outcome = Inr r, invocations = 3,
            delays = [backoffDelay opts 1, backoffDelay opts 2]\<rparr>, s3))
   \<and> (1 \<le> maxAttempts opts \<and> operation s0 = (Inl e, s1) \<and> \<not> isRetryableBy opts e
    \<longrightarrow> withRetry operation opts s0 =
          (\<lparr>outcome = Inl (Some e), invocations = 1, delays = []\<rparr>, s1))
   \<and> (errClass a = AuthenticationErrorC
    \<longrightarrow> \<not> defaultRetryable (AppErr a) \<and> \<not> openaiRetryable (AppErr a)
        \<and> \<not> replicateRetryable (AppErr a) \<and> \<not> elevenlabsRetryable (AppErr a))
   \<and> (1 \<le> maxRetries \<and> stageOp t0 = (Inl (AppErr a), t1) \<and> errClass a = AuthenticationErrorC
    \<longrightarrow> executeWithRetry stageOp stg sid maxRetries t0 =
          (\<lparr>outcome = Inl (Some a), invocations = 1, delays = []\<rparr>, t1))"
proof (intro conjI impI)
  assume h: "maxAttempts opts = 3 \<and> operation s0 = (Inl e1, s1) \<and> operation s1 = (Inl e2, s2)
      \<and> operation s2 = (Inr r, s3) \<and> isRetryableBy opts e1 \<and> isRetryableBy opts e2"
  have "withRetry operation opts s0
      = withRetryLoop operation opts 2 (Some e1) 1 [backoffDelay opts 1] s1"
    unfolding withRetry_def using h
    by (subst withRetryLoop_again[where e = e1 and s' = s1]) (simp_all add: numeral_2_eq_2)
  also have "\<dots> = withRetryLoop operation opts 3 (Some e2) 2
      [backoffDelay opts 1, backoffDelay opts 2] s2"
    using h by (subst withRetryLoop_again[where e = e2 and s' = s2]) (simp_all add: numeral_3_eq_3 numeral_2_eq_2)
  also have "\<dots> = (\<lparr>outcome = Inr r, invocations = 3,
      delays = [backoffDelay opts 1, backoffDelay opts 2]\<rparr>, s3)"
    using h by (subst withRetryLoop_success[where r = r and s' = s3]) simp_all
  finally show "withRetry operation opts s0 =
          (\<lparr>outcome = Inr r, invocations = 3,
            delays = [backoffDelay opts 1, backoffDelay opts 2]\<rparr>, s3)" .
next
  assume "1 \<le> maxAttempts opts \<and> operation s0 = (Inl e, s1) \<and> \<not> isRetryableBy opts e"
  then show "withRetry operation opts s0 =
          (\<lparr>outcome = Inl (Some e), invocations = 1, delays = []\<rparr>, s1)"
    unfolding withRetry_def by (subst withRetryLoop_stop[where e = e and s' = s1]) simp_all
next
  show "\<not> defaultRetryable (AppErr a)"
    by (simp add: defaultRetryable_def thrownCode_def thrownResponseStatus_def statusAtLeast_def)
next
  show "\<not> openaiRetryable (AppErr a)"
    by (simp add: openaiRetryable_def thrownCode_def thrownResponseStatus_def statusAtLeast_def)
next
  show "\<not> replicateRetryable (AppErr a)"
    by (simp add: replicateRetryable_def thrownCode_def thrownResponseStatus_def statusAtLeast_def)
next
  show "\<not> elevenlabsRetryable (AppErr a)"
    by (simp add: elevenlabsRetryable_def thrownCode_def thrownResponseStatus_def statusAtLeast_def)
next
  assume h: "1 \<le> maxRetries \<and> stageOp t0 = (Inl (AppErr a), t1) \<and> errClass a = AuthenticationErrorC"
  then have "\<not> shouldRetry a 1 maxRetries" by (simp add: no_retry_by_class)
  with h show "executeWithRetry stageOp stg sid maxRetries t0 =
          (\<lparr>outcome = Inl (Some a), invocations = 1, delays = []\<rparr>, t1)"
    unfolding executeWithRetry_def
    by (subst executeWithRetryLoop_stop[where t = "AppErr a" and s' = t1])
       (simp_all add: toAppError_def)
qed

theorem retry_invocation_counts_witness:
  "withRetry (failsTwice connectionReset connectionReset ''https://img/1.png'') DEFAULT_RETRY_OPTIONS 0
     = (\<lparr>outcome = Inr ''https://img/1.png'', invocations = 3, delays = [1000, 2000]\<rparr>, 3)
   \<and> withRetry (alwaysFails (AppErr (AuthenticationError ''OpenAI''))) (DEFAULT_RETRY_OPTIONS\<lparr>maxAttempts := 7\<rparr>) 0
     = (\<lparr>outcome = Inl (Some (AppErr (AuthenticationError ''OpenAI''))), invocations = 1, delays = []\<rparr>, 1)
   \<and> executeWithRetry (stageAlwaysFails (AppErr (AuthenticationError ''OpenAI''))) ''prompts'' ''s1'' 7 0
     = (\<lparr>outcome = Inl (Some (AuthenticationError ''OpenAI'')), invocations = 1, delays = []\<rparr>, 1)"
proof (intro conjI)
  have r: "isRetryableBy DEFAULT_RETRY_OPTIONS connectionReset"
    by (simp add: isRetryableBy_def DEFAULT_RETRY_OPTIONS_def defaultRetryable_def
        connectionReset_def thrownCode_def)
  have d: "backoffDelay DEFAULT_RETRY_OPTIONS 1 = 1000" "backoffDelay DEFAULT_RETRY_OPTIONS 2 = 2000"
    by (simp_all add: backoffDelay_def DEFAULT_RETRY_OPTIONS_def)
  have m: "maxAttempts DEFAULT_RETRY_OPTIONS = 3" by (simp add: DEFAULT_RETRY_OPTIONS_def)
  show "withRetry (failsTwice connectionReset connectionReset ''https://img/1.png'') DEFAULT_RETRY_OPTIONS 0
     = (\<lparr>outcome = Inr ''https://img/1.png'', invocations = 3, delays = [1000, 2000]\<rparr>, 3)"
    using r d m
      retry_invocation_counts [where opts = DEFAULT_RETRY_OPTIONS
        and operation = "failsTwice connectionReset connectionReset ''https://img/1.png''"
        and ?s0.0 = 0 and ?s1.0 = 1 and ?s2.0 = 2 and ?s3.0 = 3
        and ?e1.0 = connectionReset and ?e2.0 = connectionReset and r = "''https://img/1.png''",
        THEN conjunct1]
    by (simp add: failsTwice_def)
next
  have n: "\<not> isRetryableBy (DEFAULT_RETRY_OPTIONS\<lparr>maxAttempts := 7\<rparr>) (AppErr (AuthenticationError ''OpenAI''))"
    by (simp add: isRetryableBy_def DEFAULT_RETRY_OPTIONS_def defaultRetryable_def
        thrownCode_def thrownResponseStatus_def statusAtLeast_def)
  have m: "maxAttempts (DEFAULT_RETRY_OPTIONS\<lparr>maxAttempts := 7\<rparr>) = 7" by simp
  show "withRetry (alwaysFails (AppErr (AuthenticationError ''OpenAI''))) (DEFAULT_RETRY_OPTIONS\<lparr>maxAttempts := 7\<rparr>) 0
     = (\<lparr>outcome = Inl (Some (AppErr (AuthenticationError ''OpenAI''))), invocations = 1, delays = []\<rparr>, 1)"
    using n m
      retry_invocation_counts [where opts = "DEFAULT_RETRY_OPTIONS\<lparr>maxAttempts := 7\<rparr>"
        and operation = "alwaysFails (AppErr (AuthenticationError ''OpenAI''))"
        and ?s0.0 = 0 and ?s1.0 = 1 and e = "AppErr (AuthenticationError ''OpenAI'')",
        THEN conjunct2, THEN conjunct1]
    by (simp add: alwaysFails_def)
next
  have c: "errClass (AuthenticationError ''OpenAI'') = AuthenticationErrorC"
    by (simp add: AuthenticationError_def)
  show "executeWithRetry (stageAlwaysFails (AppErr (AuthenticationError ''OpenAI''))) ''prompts'' ''s1'' 7 0
     = (\<lparr>outcome = Inl (Some (AuthenticationError ''OpenAI'')), invocations = 1, delays = []\<rparr>, 1)"
    using c
      retry_invocation_counts [where a = "AuthenticationError ''OpenAI''" and maxRetries = 7
        and stageOp = "stageAlwaysFails (AppErr (AuthenticationError ''OpenAI''))"
        and ?t0.0 = 0 and ?t1.0 = 1 and stg = "''prompts''" and sid = "''s1''",
        THEN conjunct2, THEN conjunct2, THEN conjunct2]
    by (simp add: stageAlwaysFails_def)
qed

text \<open>
  Claim C4, as stated, forbids any retry of a validation or authentication error under
  every policy, also one whose predicate accepts the error. \<open>withRetry\<close> has no such
  rule: it retries a \<open>ValidationError\<close> under a predicate that accepts everything, and
  an \<open>AuthenticationError\<close> under a policy whose predicate is undefined.
\<close>

theorem validation_retried_counterexample:
  "withRetry (alwaysFails (AppErr (ValidationError ''sceneCount must be positive'' NoContext)))
       retryEverything 0
     = (\<lparr>outcome = Inl (Some (AppErr (ValidationError ''sceneCount must be positive'' NoContext))),
         invocations = 3, delays = [1000, 2000]\<rparr>, 3)
   \<and> invocations (fst (withRetry (alwaysFails (AppErr (AuthenticationError ''Replicate'')))
       (predicateUndefined 3) 0)) = 3"
  by (simp add: withRetry_def withRetryLoop.simps alwaysFails_def retryEverything_def
      predicateUndefined_def mergeOptions_def DEFAULT_RETRY_OPTIONS_def isRetryableBy_def
      backoffDelay_def)

text \<open>
  Claim C4, amended. The class rule lives in \<open>shouldRetry\<close>: \<open>executeWithRetry\<close>
  invokes an operation that throws a \<open>ValidationError\<close> or an \<open>AuthenticationError\<close>
  exactly once and rethrows that error, whatever the error's \<open>retryable\<close> flag, for
  every \<open>maxRetries \<ge> 1\<close>. \<open>withRetry\<close> decides by its policy alone: for
  \<open>maxAttempts \<ge> 1\<close> it stops after one failed invocation, surfacing the error, exactly
  when the policy's predicate rejects the error or \<open>maxAttempts = 1\<close>.
\<close>

theorem no_retry_rule:
  "(1 \<le> maxRetries \<and> stageOp t0 = (Inl (AppErr a), t1)
      \<and> (errClass a = ValidationErrorC \<or> errClass a = AuthenticationErrorC)
    \<longrightarrow> executeWithRetry stageOp stg sid maxRetries t0 =
          (\<lparr>outcome = Inl (Some a), invocations = 1, delays = []\<rparr>, t1))
   \<and> (1 \<le> maxAttempts opts \<and> operation s0 = (Inl e, s1)
    \<longrightarrow> (withRetry operation opts s0 = (\<lparr>outcome = Inl (Some e), invocations = 1, delays = []\<rparr>, s1)
          \<longleftrightarrow> \<not> isRetryableBy opts e \<or> maxAttempts opts = 1))"
proof (intro conjI impI)
  assume h: "1 \<le> maxRetries \<and> stageOp t0 = (Inl (AppErr a), t1)
      \<and> (errClass a = ValidationErrorC \<or> errClass a = AuthenticationErrorC)"
  then have "\<not> shouldRetry a 1 maxRetries" by (simp add: no_retry_by_class)
  with h show "executeWithRetry stageOp stg sid maxRetries t0 =
          (\<lparr>outcome = Inl (Some a), invocations = 1, delays = []\<rparr>, t1)"
    unfolding executeWithRetry_def
    by (subst executeWithRetryLoop_stop[where t = "AppErr a" and s' = t1])
       (simp_all add: toAppError_def)
next
  assume h: "1 \<le> maxAttempts opts \<and> operation s0 = (Inl e, s1)"
  show "withRetry operation opts s0 = (\<lparr>outcome = Inl (Some e), invocations = 1, delays = []\<rparr>, s1)
          \<longleftrightarrow> \<not> isRetryableBy opts e \<or> maxAttempts opts = 1"
  proof (cases "\<not> isRetryableBy opts e \<or> maxAttempts opts = 1")
    case True
    with h have "withRetry operation opts s0 =
        (\<lparr>outcome = Inl (Some e), invocations = 1, delays = []\<rparr>, s1)"
      unfolding withRetry_def by (subst withRetryLoop_stop[where e = e and s' = s1]) auto
    with True show ?thesis by simp
  next
    case False
    with h have lt: "int 1 < maxAttempts opts" and r: "isRetryableBy opts e" by auto
    have "withRetry operation opts s0 =
        withRetryLoop operation opts 2 (Some e) 1 [backoffDelay opts 1] s1"
      unfolding withRetry_def using h withRetryLoop_again[OF lt _ r, of operation s0 s1 None 0 "[]"]
      by (simp add: numeral_2_eq_2)
    moreover have "1 + 1 \<le> invocations (fst (withRetryLoop operation opts 2 (Some e) 1
        [backoffDelay opts 1] s1))"
      using lt by (intro withRetryLoop_invokes) simp
    ultimately show ?thesis using False by auto
  qed
qed

theorem no_retry_rule_witness:
  "executeWithRetry (stageAlwaysFails (AppErr ((ValidationError ''bad request'' NoContext)\<lparr>retryable := True\<rparr>)))
       ''prompts'' ''s1'' 3 0
     = (\<lparr>outcome = Inl (Some ((ValidationError ''bad request'' NoContext)\<lparr>retryable := True\<rparr>)),
         invocations = 1, delays = []\<rparr>, 1)
   \<and> withRetry (alwaysFails (AppErr (AuthenticationError ''OpenAI''))) DEFAULT_RETRY_OPTIONS 0
     = (\<lparr>outcome = Inl (Some (AppErr (AuthenticationError ''OpenAI''))), invocations = 1, delays = []\<rparr>, 1)
   \<and> withRetry (alwaysFails (AppErr (AuthenticationError ''OpenAI''))) retryEverything 0
     \<noteq> (\<lparr>outcome = Inl (Some (AppErr (AuthenticationError ''OpenAI''))), invocations = 1, delays = []\<rparr>, 1)"
proof (intro conjI)
  have c: "errClass ((ValidationError ''bad request'' NoContext)\<lparr>retryable := True\<rparr>) = ValidationErrorC"
    by (simp add: ValidationError_def)
  show "executeWithRetry (stageAlwaysFails (AppErr ((ValidationError ''bad request'' NoContext)\<lparr>retryable := True\<rparr>)))
       ''prompts'' ''s1'' 3 0
     = (\<lparr>outcome = Inl (Some ((ValidationError ''bad request'' NoContext)\<lparr>retryable := True\<rparr>)),
         invocations = 1, delays = []\<rparr>, 1)"
    using no_retry_rule [where maxRetries = 3
        and stageOp = "stageAlwaysFails (AppErr ((ValidationError ''bad request'' NoContext)\<lparr>retryable := True\<rparr>))"
        and ?t0.0 = 0 and ?t1.0 = 1 and stg = "''prompts''" and sid = "''s1''"
        and a = "(ValidationError ''bad request'' NoContext)\<lparr>retryable := True\<rparr>",
        THEN conjunct1] c
    by (simp add: stageAlwaysFails_def)
next
  have n: "\<not> isRetryableBy DEFAULT_RETRY_OPTIONS (AppErr (AuthenticationError ''OpenAI''))"
    by (simp add: isRetryableBy_def DEFAULT_RETRY_OPTIONS_def defaultRetryable_def
        thrownCode_def thrownResponseStatus_def statusAtLeast_def)
  have m: "maxAttempts DEFAULT_RETRY_OPTIONS = 3" by (simp add: DEFAULT_RETRY_OPTIONS_def)
  show "withRetry (alwaysFails (AppErr (AuthenticationError ''OpenAI''))) DEFAULT_RETRY_OPTIONS 0
     = (\<lparr>outcome = Inl (Some (AppErr (AuthenticationError ''OpenAI''))), invocations = 1, delays = []\<rparr>, 1)"
    using n m no_retry_rule [where opts = DEFAULT_RETRY_OPTIONS
        and operation = "alwaysFails (AppErr (AuthenticationError ''OpenAI''))"
        and ?s0.0 = 0 and ?s1.0 = 1 and e = "AppErr (AuthenticationError ''OpenAI'')",
        THEN conjunct2]
    by (simp add: alwaysFails_def)
next
  have y: "isRetryableBy retryEverything (AppErr (AuthenticationError ''OpenAI''))"
    "maxAttempts retryEverything = 3"
    by (simp_all add: isRetryableBy_def retryEverything_def DEFAULT_RETRY_OPTIONS_def)
  show "withRetry (alwaysFails (AppErr (AuthenticationError ''OpenAI''))) retryEverything 0
     \<noteq> (\<lparr>outcome = Inl (Some (AppErr (AuthenticationError ''OpenAI''))), invocations = 1, delays = []\<rparr>, 1)"
    using y no_retry_rule [where opts = retryEverything
        and operation = "alwaysFails (AppErr (AuthenticationError ''OpenAI''))"
        and ?s0.0 = 0 and ?s1.0 = 1 and e = "AppErr (AuthenticationError ''OpenAI'')",
        THEN conjunct2]
    by (simp add: alwaysFails_def)
qed


subsection \<open>Sequencing and logs\<close>

lemma satisfiesI: "(\<And>s r s'. m s = (r, s') \<Longrightarrow> R s r s') \<Longrightarrow> satisfies m R"
  by (simp add: satisfies_def)

lemma satisfiesD: "satisfies m R \<Longrightarrow> m s = (r, s') \<Longrightarrow> R s r s'"
  by (simp add: satisfies_def)

lemma satisfies_weaken:
  "satisfies m R \<Longrightarrow> (\<And>s r s'. R s r s' \<Longrightarrow> R' s r s') \<Longrightarrow> satisfies m R'"
  by (simp add: satisfies_def)

lemma satisfies_bind:
  assumes m: "satisfies m R1"
    and f: "\<And>x. satisfies (f x) (R2 x)"
    and err: "\<And>s e s'. R1 s (Inl e) s' \<Longrightarrow> R s (Inl e) s'"
    and seq: "\<And>s x s1 r s2. R1 s (Inr x) s1 \<Longrightarrow> R2 x s1 r s2 \<Longrightarrow> R s r s2"
  shows "satisfies (bindOp m f) R"
proof (rule satisfiesI)
  fix s r s'
  assume run: "bindOp m f s = (r, s')"
  obtain r1 s1 where m1: "m s = (r1, s1)" by (cases "m s")
  show "R s r s'"
  proof (cases r1)
    case (Inl e)
    with run m1 have "r = Inl e" "s' = s1" by (simp_all add: bindOp_def)
    with satisfiesD[OF m m1] Inl show ?thesis by (simp add: err)
  next
    case (Inr x)
    with run m1 have "f x s1 = (r, s')" by (simp add: bindOp_def)
    from satisfiesD[OF f this] satisfiesD[OF m m1] Inr show ?thesis by (auto intro: seq)
  qed
qed

lemma satisfies_catch:
  assumes m: "satisfies m R1"
    and h: "\<And>e. satisfies (h e) (R2 e)"
    and ok: "\<And>s x s'. R1 s (Inr x) s' \<Longrightarrow> R s (Inr x) s'"
    and seq: "\<And>s e s1 r s2. R1 s (Inl e) s1 \<Longrightarrow> R2 e s1 r s2 \<Longrightarrow> R s r s2"
  shows "satisfies (catchOp m h) R"
proof (rule satisfiesI)
  fix s r s'
  assume run: "catchOp m h s = (r, s')"
  obtain r1 s1 where m1: "m s = (r1, s1)" by (cases "m s")
  show "R s r s'"
  proof (cases r1)
    case (Inr x)
    with run m1 have "r = Inr x" "s' = s1" by (simp_all add: catchOp_def)
    with satisfiesD[OF m m1] Inr show ?thesis by (simp add: ok)
  next
    case (Inl e)
    with run m1 have "h e s1 = (r, s')" by (simp add: catchOp_def)
    from satisfiesD[OF h this] satisfiesD[OF m m1] Inl show ?thesis by (auto intro: seq)
  qed
qed

lemma catch_rethrow: "catchOp m throwOp = m"
  by (rule ext) (auto simp: catchOp_def throwOp_def split: prod.splits sum.splits)

lemma catch_rethrow': "catchOp m (\<lambda>e. throwOp e) = m"
  by (rule ext) (auto simp: catchOp_def throwOp_def split: prod.splits sum.splits)

lemma logged_refl: "logged Q w w"
  by (simp add: logged_def)

lemma logged_trans: "logged Q a b \<Longrightarrow> logged Q b c \<Longrightarrow> logged Q a c"
  by (auto simp: logged_def)

lemma logged_mono: "logged Q a b \<Longrightarrow> (\<And>c. Q c \<Longrightarrow> Q' c) \<Longrightarrow> logged Q' a b"
  by (auto simp: logged_def list_all_iff)

lemma logged_newCalls:
  "logged Q w w' \<Longrightarrow> calls w' = calls w @ newCalls w w' \<and> list_all Q (newCalls w w')"
  by (auto simp: logged_def newCalls_def)

lemma newCalls_trans:
  "logged Q a b \<Longrightarrow> logged Q' b c \<Longrightarrow> newCalls a c = newCalls a b @ newCalls b c"
  by (auto simp: logged_def newCalls_def)

lemma logged_logCall: "Q c \<Longrightarrow> logged Q w (logCall c w)"
  by (simp add: logged_def logCall_def)

lemma newCalls_logCall: "newCalls w (logCall c w) = [c]"
  by (simp add: newCalls_def logCall_def)

text \<open>
  A retry loop keeps every relation \<open>T\<close> that each invocation keeps and that is
  reflexive and transitive; a fact \<open>G\<close> established by a successful invocation holds
  of the whole loop when it survives being extended on the left by \<open>T\<close>.
\<close>

lemma withRetryLoop_rel:
  assumes step: "\<And>s r s'. operation s = (r, s') \<Longrightarrow> T s s' \<and> (\<forall>x. r = Inr x \<longrightarrow> G x s s')"
    and trans: "\<And>a b c. T a b \<Longrightarrow> T b c \<Longrightarrow> T a c"
    and refl: "\<And>a. T a a"
    and lift: "\<And>a b c x. T a b \<Longrightarrow> G x b c \<Longrightarrow> G x a c"
  shows "withRetryLoop operation opts attempt lastError n ds s = (out, s')
     \<Longrightarrow> T s s' \<and> (\<forall>x. outcome out = Inr x \<longrightarrow> G x s s')"
  using assms
proof (induction operation opts attempt lastError n ds s arbitrary: out s' rule: withRetryLoop.induct)
  case (1 operation opts attempt lastError n ds s)
  note run = "1.prems"(1) and step = "1.prems"(2) and trans = "1.prems"(3)
    and refl = "1.prems"(4) and lift = "1.prems"(5)
  show ?case
  proof (cases "int attempt \<le> maxAttempts opts")
    case False
    with run show ?thesis by (subst (asm) withRetryLoop.simps) (auto simp: refl)
  next
    case True
    obtain r1 s1 where op: "operation s = (r1, s1)" by (cases "operation s")
    from step[OF op] have T1: "T s s1" and G1: "\<forall>x. r1 = Inr x \<longrightarrow> G x s s1" by auto
    show ?thesis
    proof (cases r1)
      case (Inr x)
      with run True op have "out = \<lparr>outcome = Inr x, invocations = n + 1, delays = ds\<rparr>" "s' = s1"
        by (subst (asm) withRetryLoop.simps, simp)+
      with T1 G1 Inr show ?thesis by simp
    next
      case (Inl e)
      show ?thesis
      proof (cases "\<not> isRetryableBy opts e \<or> int attempt = maxAttempts opts")
        case stop: True
        with run True op Inl have "outcome out = Inl (Some e)" "s' = s1"
          by (subst (asm) withRetryLoop.simps, auto)+
        with T1 show ?thesis by simp
      next
        case again: False
        with run True op Inl have rec: "withRetryLoop operation opts (attempt + 1) (Some e) (n + 1)
            (ds @ [backoffDelay opts attempt]) s1 = (out, s')"
          by (subst (asm) withRetryLoop.simps) (simp add: Let_def)
        have "T s1 s' \<and> (\<forall>x. outcome out = Inr x \<longrightarrow> G x s1 s')"
          using "1.IH"[OF True op[symmetric] Inl HOL.refl HOL.refl _ rec step trans refl lift] again
          by simp
        with T1 show ?thesis by (auto intro: trans lift)
      qed
    qed
  qed
qed


subsection \<open>Rolling reference\<close>

lemma imageModelOperation_calls:
  assumes "imageModelOperation env scene ref orig n opts w = (r, w')"
  shows "logged (sceneCallWith opts ref orig n) w w'
     \<and> (\<forall>u. r = Inr u \<longrightarrow> list_ex (isSceneCall n) (newCalls w w'))"
  using assms
  by (auto simp: imageModelOperation_def bindOp_def readFile_def replicateRun_def returnOp_def
      throwOp_def logged_def newCalls_def logCall_def sceneCallWith_def referenceInputs_def
      isSceneCall_def
      split: option.splits sum.splits if_splits prod.splits ReplicateOutput.splits list.splits)

lemma withRetryOp_calls:
  assumes step: "\<And>s r s'. operation s = (r, s') \<Longrightarrow>
      logged Q s s' \<and> (\<forall>x. r = Inr x \<longrightarrow> list_ex S (newCalls s s'))"
    and run: "withRetryOp operation opts w = (r, w')"
  shows "logged Q w w' \<and> (\<forall>x. r = Inr x \<longrightarrow> list_ex S (newCalls w w'))"
proof -
  obtain out where loop: "withRetryLoop operation opts 1 None 0 [] w = (out, w')"
    and res: "r = (case outcome out of Inr v \<Rightarrow> Inr v | Inl (Some e) \<Rightarrow> Inl e
                   | Inl None \<Rightarrow> Inl undefinedThrown)"
    using run by (auto simp: withRetryOp_def withRetry_def split: prod.splits sum.splits option.splits)
  have "logged Q w w' \<and> (\<forall>x. outcome out = Inr x \<longrightarrow>
      logged Q w w' \<and> list_ex S (newCalls w w'))"
  proof (rule withRetryLoop_rel[where T = "logged Q"
        and G = "\<lambda>x a b. logged Q a b \<and> list_ex S (newCalls a b)", OF _ _ _ _ loop])
    fix s r s' assume "operation s = (r, s')"
    from step[OF this]
    show "logged Q s s' \<and> (\<forall>x. r = Inr x \<longrightarrow> logged Q s s' \<and> list_ex S (newCalls s s'))"
      by simp
  next
    fix a b c assume "logged Q a b" "logged Q b c" then show "logged Q a c" by (rule logged_trans)
  next
    fix a show "logged Q a a" by (rule logged_refl)
  next
    fix a b c x assume ab: "logged Q a b" and bc: "logged Q b c \<and> list_ex S (newCalls b c)"
    then show "logged Q a c \<and> list_ex S (newCalls a c)"
      using newCalls_trans[OF ab, of Q c] by (auto intro: logged_trans)
  qed
  with res show ?thesis by (auto split: sum.splits option.splits)
qed

lemma generateSingleSceneImage_calls:
  assumes "generateSingleSceneImage env scene ref orig sid n opts w = (r, w')"
  shows "logged (sceneCallWith opts ref orig n) w w'
     \<and> (\<forall>p. r = Inr p \<longrightarrow> p = sceneOutputPath env sid n
            \<and> list_ex (isSceneCall n) (newCalls w w'))"
proof -
  let ?Q = "sceneCallWith opts ref orig n"
  let ?retry = "withRetryOp (imageModelOperation env scene ref orig n opts)
                  (mergeOptions DEFAULT_RETRY_OPTIONS REPLICATE_RETRY_OPTIONS)"
  obtain r0 w0 where e: "ensureDir env (pathDirname env (sceneOutputPath env sid n)) w = (r0, w0)"
    by (cases "ensureDir env (pathDirname env (sceneOutputPath env sid n)) w")
  then have l0: "logged ?Q w w0"
    by (auto simp: ensureDir_def logged_def logCall_def sceneCallWith_def split: option.splits)
  show ?thesis
  proof (cases r0)
    case (Inl e0)
    with assms e have "r = Inl e0" "w' = w0"
      by (simp_all add: generateSingleSceneImage_def bindOp_def)
    with l0 show ?thesis by simp
  next
    case (Inr u0)
    obtain r1 w1 where retry: "?retry w0 = (r1, w1)" by (cases "?retry w0")
    from withRetryOp_calls[where Q = ?Q and S = "isSceneCall n", OF _ retry]
      imageModelOperation_calls
    have l1: "logged ?Q w0 w1" and s1: "\<forall>x. r1 = Inr x \<longrightarrow> list_ex (isSceneCall n) (newCalls w0 w1)"
      by blast+
    show ?thesis
    proof (cases r1)
      case (Inl e1)
      with assms e Inr retry have "r = Inl e1" "w' = w1"
        by (simp_all add: generateSingleSceneImage_def bindOp_def catchOp_def throwOp_def)
      with l0 l1 show ?thesis by (auto intro: logged_trans)
    next
      case url: (Inr imageUrl)
      obtain r2 w2 where f: "fetchUrl env imageUrl w1 = (r2, w2)" by (cases "fetchUrl env imageUrl w1")
      then have l2: "logged ?Q w1 w2"
        by (auto simp: fetchUrl_def logged_def logCall_def sceneCallWith_def split: sum.splits)
      have l02: "logged ?Q w w2" using l0 l1 l2 by (blast intro: logged_trans)
      have n02: "list_ex (isSceneCall n) (newCalls w w2)"
        using s1 url newCalls_trans[OF l0 l1] newCalls_trans[OF logged_trans[OF l0 l1] l2]
        by auto
      show ?thesis
      proof (cases r2)
        case (Inl e2)
        with assms e Inr retry url f have "r = Inl e2" "w' = w2"
          by (simp_all add: generateSingleSceneImage_def bindOp_def catchOp_def throwOp_def)
        with l02 show ?thesis by simp
      next
        case resp: (Inr response)
        show ?thesis
        proof (cases "responseOk response")
          case False
          with assms e Inr retry url f resp have "\<exists>x. r = Inl x" "w' = w2"
            by (auto simp: generateSingleSceneImage_def bindOp_def catchOp_def throwOp_def)
          with l02 show ?thesis by auto
        next
          case True
          obtain r3 w3 where wr: "writeFile env (sceneOutputPath env sid n) (responseBody response) w2
              = (r3, w3)"
            by (cases "writeFile env (sceneOutputPath env sid n) (responseBody response) w2")
          then have l3: "logged ?Q w2 w3"
            by (auto simp: writeFile_def logged_def logCall_def sceneCallWith_def split: option.splits)
          from assms e Inr retry url f resp True wr
          have fin: "w' = w3" "r = (case r3 of Inl x \<Rightarrow> Inl x | Inr _ \<Rightarrow> Inr (sceneOutputPath env sid n))"
            by (auto simp: generateSingleSceneImage_def bindOp_def catchOp_def throwOp_def returnOp_def
                split: sum.splits)
          have "list_ex (isSceneCall n) (newCalls w w3)"
            using n02 newCalls_trans[OF l02 l3] by auto
          with fin l02 l3 show ?thesis by (auto intro: logged_trans split: sum.splits)
        qed
      qed
    qed
  qed
qed


lemma sceneCallWith_onChain:
  "sceneCallWith opts (rollingReference env orig sid n) orig n c \<Longrightarrow> 1 \<le> n \<Longrightarrow> n \<le> N \<Longrightarrow>
   onChain env opts orig sid N c"
  by (auto simp: sceneCallWith_def onChain_def split: Call.splits)

lemma sceneImagesLoop_chain:
  assumes "sceneImagesLoop env orig sid opts rest i prev acc w = (r, w')"
    and "prev = rollingReference env orig sid (i + 1)"
    and "i + length rest = N"
  shows "logged (onChain env opts orig sid N) w w'
     \<and> (\<forall>paths. r = Inr paths \<longrightarrow>
           paths = acc @ map (sceneOutputPath env sid) [i + 1..<N + 1]
           \<and> (\<forall>k. i + 1 \<le> k \<and> k \<le> N \<longrightarrow> list_ex (isSceneCall k) (newCalls w w')))"
  using assms
proof (induction rest arbitrary: i prev acc w)
  case Nil
  then show ?case by (auto simp: returnOp_def logged_refl)
next
  case (Cons scene rest)
  let ?Q = "onChain env opts orig sid N"
  obtain r1 w1 where one: "generateSingleSceneImage env scene prev orig sid (i + 1) opts w = (r1, w1)"
    by (cases "generateSingleSceneImage env scene prev orig sid (i + 1) opts w")
  from generateSingleSceneImage_calls[OF one] Cons.prems(2,3)
  have l1: "logged ?Q w w1"
    and p1: "\<forall>p. r1 = Inr p \<longrightarrow> p = sceneOutputPath env sid (i + 1)
               \<and> list_ex (isSceneCall (i + 1)) (newCalls w w1)"
    by (auto elim!: logged_mono intro!: sceneCallWith_onChain)
  show ?case
  proof (cases r1)
    case (Inl e)
    with Cons.prems(1) one have "r = Inl e" "w' = w1" by (simp_all add: bindOp_def)
    with l1 show ?thesis by simp
  next
    case (Inr p)
    with p1 have p: "p = sceneOutputPath env sid (i + 1)"
      and c1: "list_ex (isSceneCall (i + 1)) (newCalls w w1)" by auto
    from Cons.prems(1) one Inr
    have rest: "sceneImagesLoop env orig sid opts rest (i + 1) p (acc @ [p]) w1 = (r, w')"
      by (simp add: bindOp_def)
    have ref: "p = rollingReference env orig sid (i + 1 + 1)"
      by (simp add: p rollingReference_def)
    have len: "i + 1 + length rest = N" using Cons.prems(3) by simp
    from Cons.IH[OF rest ref len]
    have l2: "logged ?Q w1 w'"
      and p2: "\<forall>paths. r = Inr paths \<longrightarrow>
           paths = (acc @ [p]) @ map (sceneOutputPath env sid) [i + 1 + 1..<N + 1]
           \<and> (\<forall>k. i + 1 + 1 \<le> k \<and> k \<le> N \<longrightarrow> list_ex (isSceneCall k) (newCalls w1 w'))"
      by auto
    have nc: "newCalls w w' = newCalls w w1 @ newCalls w1 w'" by (rule newCalls_trans[OF l1 l2])
    have up: "[i + 1..<N + 1] = (i + 1) # [i + 1 + 1..<N + 1]"
      using len by (simp add: upt_conv_Cons)
    show ?thesis
    proof (intro conjI allI impI)
      show "logged ?Q w w'" by (rule logged_trans[OF l1 l2])
    next
      fix paths assume "r = Inr paths"
      with p2 have "paths = (acc @ [p]) @ map (sceneOutputPath env sid) [i + 1 + 1..<N + 1]"
        by blast
      also have "\<dots> = acc @ map (sceneOutputPath env sid) ((i + 1) # [i + 1 + 1..<N + 1])"
        by (simp only: p append_assoc list.map append_Cons append_Nil)
      finally show "paths = acc @ map (sceneOutputPath env sid) [i + 1..<N + 1]"
        by (simp only: up)
    next
      fix paths k assume r: "r = Inr paths" and k: "i + 1 \<le> k \<and> k \<le> N"
      show "list_ex (isSceneCall k) (newCalls w w')"
      proof (cases "k = i + 1")
        case True
        with c1 nc show ?thesis by simp
      next
        case False
        with k have "i + 1 + 1 \<le> k \<and> k \<le> N" by simp
        with p2 r nc show ?thesis by simp
      qed
    qed
  qed
qed

text \<open>
  Claim C1. For every list of scene prompts, of length N, every image-model call that
  \<open>generateSceneImages\<close> issues (retries included) is for a scene k between 1 and N and
  sends as its first image the original uploaded image when k = 1 and the output path of
  scene k - 1 when k > 1, followed by the original image as a second anchor exactly when
  the provider is nano-banana and \<open>includeOriginalAnchor\<close> is set. When
  \<open>generateSceneImages\<close> returns, it returns the N output paths in scene order and a
  call has been issued for every scene from 1 to N.
\<close>

theorem rolling_reference_chain:
  "generateSceneImages env scenes originalPath sid opts w = (r, w') \<Longrightarrow>
     calls w' = calls w @ newCalls w w'
   \<and> list_all (onChain env opts originalPath sid (length scenes)) (newCalls w w')
   \<and> (\<forall>paths. r = Inr paths \<longrightarrow>
         paths = map (sceneOutputPath env sid) [1..<Suc (length scenes)]
         \<and> (\<forall>k. 1 \<le> k \<and> k \<le> length scenes \<longrightarrow> list_ex (isSceneCall k) (newCalls w w')))"
proof -
  assume run: "generateSceneImages env scenes originalPath sid opts w = (r, w')"
  then have loop: "sceneImagesLoop env originalPath sid opts scenes 0 originalPath [] w = (r, w')"
    by (simp add: generateSceneImages_def)
  have ref: "originalPath = rollingReference env originalPath sid (0 + 1)"
    by (simp add: rollingReference_def)
  from sceneImagesLoop_chain[OF loop ref, of "length scenes"] logged_newCalls
  show ?thesis by fastforce
qed

lemma twoScenes_paths: "fst (generateSceneImages happyEnv typedTwoScenes ''uploads/face.png'' ''s1''
          defaultImageOptions uploadedWorld)
     = Inr [''app/images/s1/scene-1.png'', ''app/images/s1/scene-2.png'']"
  by code_simp

lemma twoScenes_calls: "imageCalls (calls (snd (generateSceneImages happyEnv typedTwoScenes ''uploads/face.png'' ''s1''
          defaultImageOptions uploadedWorld)))
     = [(1, [''uploads/face.png'', ''uploads/face.png'']),
        (2, [''app/images/s1/scene-1.png'', ''uploads/face.png''])]"
  by code_simp


theorem rolling_reference_chain_witness:
  "fst (generateSceneImages happyEnv typedTwoScenes ''uploads/face.png'' ''s1''
          defaultImageOptions uploadedWorld)
     = Inr [''app/images/s1/scene-1.png'', ''app/images/s1/scene-2.png'']
   \<and> imageCalls (calls (snd (generateSceneImages happyEnv typedTwoScenes ''uploads/face.png'' ''s1''
          defaultImageOptions uploadedWorld)))
     = [(1, [''uploads/face.png'', ''uploads/face.png'']),
        (2, [''app/images/s1/scene-1.png'', ''uploads/face.png''])]
   \<and> list_all (onChain happyEnv defaultImageOptions ''uploads/face.png'' ''s1'' 2)
        (newCalls uploadedWorld (snd (generateSceneImages happyEnv typedTwoScenes
           ''uploads/face.png'' ''s1'' defaultImageOptions uploadedWorld)))
   \<and> list_ex (isSceneCall 2)
        (newCalls uploadedWorld (snd (generateSceneImages happyEnv typedTwoScenes
           ''uploads/face.png'' ''s1'' defaultImageOptions uploadedWorld)))"
proof -
  let ?run = "generateSceneImages happyEnv typedTwoScenes ''uploads/face.png'' ''s1''
          defaultImageOptions uploadedWorld"
  have e: "?run = (fst ?run, snd ?run)" by simp
  have len: "length typedTwoScenes = 2" by (simp add: typedTwoScenes_def twoScenes_def)
  from rolling_reference_chain[OF e] twoScenes_paths twoScenes_calls len show ?thesis by simp
qed


subsection \<open>What each primitive changes\<close>

lemma bindOp_Inr: "m w = (Inr x, w1) \<Longrightarrow> bindOp m f w = f x w1"
  by (simp add: bindOp_def)

lemma bindOp_Inl: "m w = (Inl e, w1) \<Longrightarrow> bindOp m f w = (Inl e, w1)"
  by (simp add: bindOp_def)

lemma catchOp_Inr: "m w = (Inr x, w1) \<Longrightarrow> catchOp m h w = (Inr x, w1)"
  by (simp add: catchOp_def)

lemma catchOp_Inl: "m w = (Inl e, w1) \<Longrightarrow> catchOp m h w = h e w1"
  by (simp add: catchOp_def)

lemma bindOp_result_Inr:
  "bindOp m f w = (Inr y, w') \<Longrightarrow> \<exists>x w1. m w = (Inr x, w1) \<and> f x w1 = (Inr y, w')"
  by (auto simp: bindOp_def split: prod.splits sum.splits)

text \<open>A handler that always rethrows lets only the body's value through.\<close>

lemma catchOp_rethrows_Inr:
  assumes "catchOp m h w = (Inr y, w')" and "\<And>e s r s'. h e s = (r, s') \<Longrightarrow> \<exists>x. r = Inl x"
  shows "m w = (Inr y, w')"
  using assms by (fastforce simp: catchOp_def split: prod.splits sum.splits)

lemma smUpdateStageStatus_frame:
  assumes "smUpdateStageStatus env sid stg st msg prog err w = (r, w')"
  shows "r = Inr () \<and> files w' = files w \<and> jsonFiles w' = jsonFiles w
     \<and> logged (\<lambda>c. c = Now) w w'
     \<and> sessions w' = updateStageStatus (clockEnv env (calls w)) sid stg st msg prog err (sessions w)"
proof (cases "stageOf (sessions w) sid stg = None")
  case True
  then have "updateStageStatus (clockEnv env (calls w)) sid stg st msg prog err (sessions w) = sessions w"
    by (auto simp: updateStageStatus_def stageOf_def split: option.splits dest: findIndex_find)
  with True assms show ?thesis by (auto simp: smUpdateStageStatus_def logged_refl)
next
  case False
  with assms show ?thesis
    by (auto simp: smUpdateStageStatus_def bindOp_def nowOp_def modifyOp_def logged_def logCall_def)
qed

lemma smUpdateSessionFinalVideo_frame:
  assumes "smUpdateSessionFinalVideo env sid p w = (r, w')"
  shows "r = Inr () \<and> files w' = files w \<and> jsonFiles w' = jsonFiles w
     \<and> logged (\<lambda>c. c = Now) w w'
     \<and> sessions w' = updateSessionFinalVideo (clockEnv env (calls w)) sid p (sessions w)"
  using assms
  by (auto simp: smUpdateSessionFinalVideo_def updateSessionFinalVideo_def bindOp_def nowOp_def
      modifyOp_def logged_def logCall_def split: if_splits)

lemma smUpdateSessionStatus_frame:
  assumes "smUpdateSessionStatus env sid st err details w = (r, w')"
  shows "r = Inr () \<and> files w' = files w \<and> jsonFiles w' = jsonFiles w
     \<and> logged (\<lambda>c. c = Now) w w'
     \<and> sessions w' = updateSessionStatus (clockEnv env (calls w)) sid st err details (sessions w)"
  using assms
  by (auto simp: smUpdateSessionStatus_def updateSessionStatus_def bindOp_def nowOp_def
      modifyOp_def logged_def logCall_def split: if_splits)

lemma saveSessionArtifacts_frame:
  assumes "saveSessionArtifacts env sid a w = (r, w')"
  shows "r = Inr () \<and> files w' = files w \<and> sessions w' = sessions w
     \<and> logged (\<lambda>c. c = Now \<or> isWriteJson c) w w'"
  using assms
  by (auto simp: saveSessionArtifacts_def bindOp_def catchOp_def nowOp_def writeJson_def returnOp_def
      logged_def logCall_def isWriteJson_def split: option.splits)

lemma readJson_result:
  "readJson p w = (r, w') \<Longrightarrow> w' = w \<and> r = (case jsonFiles w p of None \<Rightarrow> Inl (enoent p) | Some a \<Rightarrow> Inr a)"
  by (auto simp: readJson_def split: option.splits)

lemma concatenateVideos_ok:
  assumes "concatenateVideos env vs out w = (Inr p, w')"
  shows "\<exists>content flt. p = out \<and> files w' = (files w)(out \<mapsto> content)
     \<and> jsonFiles w' = jsonFiles w \<and> sessions w' = sessions w
     \<and> calls w' = calls w @ [FfmpegConcat vs flt out]
     \<and> ffmpegEnv env (calls w) (FfmpegConcat vs flt out) = Inr content
     \<and> list_all (\<lambda>v. existsSync v w) vs"
proof -
  from assms have none: "find (\<lambda>p. \<not> existsSync p w) vs = None"
    by (auto simp: concatenateVideos_def Let_def split: option.splits)
  then have all: "list_all (\<lambda>v. existsSync v w) vs"
    by (auto simp: find_None_iff list_all_iff)
  then have pres: "filter (\<lambda>p. existsSync p w) vs = vs"
    by (auto simp: list_all_iff intro: filter_True)
  from assms none pres all show ?thesis
    by (auto simp: concatenateVideos_def Let_def logCall_def split: sum.splits)
qed

lemma copyFile_ok:
  assumes "copyFile env src dst w = (Inr u, w')"
  shows "\<exists>c. files w src = Some c \<and> files w' = (files w)(dst \<mapsto> c)
     \<and> jsonFiles w' = jsonFiles w \<and> sessions w' = sessions w
     \<and> calls w' = calls w @ [CopyFile src dst]"
  using assms by (auto simp: copyFile_def logCall_def split: option.splits)


subsection \<open>Merge without audio\<close>

text \<open>
  When the branch test of \<open>mergeVideoContent\<close> finds no audio source (no \<open>audioPaths\<close>,
  or neither a \<open>voiceoverPaths\<close> property nor a non-empty music path) and the artifacts
  name at least one video path, a merge stage that returns has run the video-only
  concatenation into \<open>merged_scenes.mp4\<close> and copied that file to \<open>final_video.mp4\<close>:
  the two files have the same content, the copy is in the log and no audio-mixing
  command was run.
\<close>

lemma merge_copies_without_audio_sources:
  assumes art: "jsonFiles w (artifactsPath env (sessionId session)) = Some a"
    and vids: "artVideoPaths a = Some vs" "vs \<noteq> []"
    and noAudio: "\<not> hasAudioSources (artAudioPaths a)"
    and run: "mergeVideoContent env session w = (Inr u, w')"
  shows "files w' (finalVideoFile env (sessionId session))
           = files w' (mergedScenesFile env (sessionId session))
     \<and> files w' (finalVideoFile env (sessionId session)) \<noteq> None
     \<and> list_all (\<lambda>c. \<not> isMixCall c) (newCalls w w')
     \<and> CopyFile (mergedScenesFile env (sessionId session)) (finalVideoFile env (sessionId session))
          \<in> set (newCalls w w')
     \<and> (\<exists>flt content.
           FfmpegConcat vs flt (mergedScenesFile env (sessionId session)) \<in> set (newCalls w w')
           \<and> files w' (finalVideoFile env (sessionId session)) = Some content)"
proof -
  let ?sid = "sessionId session"
  let ?final = "finalVideoFile env ?sid"
  let ?merged = "mergedScenesFile env ?sid"
  let ?Q = "\<lambda>c. \<not> isMixCall c"
  have nowQ: "\<And>a b. logged (\<lambda>c. c = Now) a b \<Longrightarrow> logged ?Q a b"
    by (erule logged_mono) (simp add: isMixCall_def)
  have saveQ: "\<And>a b. logged (\<lambda>c. c = Now \<or> isWriteJson c) a b \<Longrightarrow> logged ?Q a b"
    by (erule logged_mono) (auto simp: isMixCall_def isWriteJson_def split: Call.splits)
  \<comment> \<open>the stage is marked as processing\<close>
  obtain r0 w0 where s0: "smUpdateStageStatus env ?sid Merge Processing
      (Some ''Merging videos and audio...'') None None w = ((r0 :: Thrown + unit), w0)"
    by (cases "smUpdateStageStatus env ?sid Merge Processing
      (Some ''Merging videos and audio...'') None None w :: (Thrown + unit) \<times> World")
  from smUpdateStageStatus_frame[OF s0]
  have r0: "r0 = Inr ()" and f0: "files w0 = files w" and j0: "jsonFiles w0 = jsonFiles w"
    and l0: "logged ?Q w w0" by (auto intro: nowQ)
  \<comment> \<open>the handler rethrows, so the body returned\<close>
  from run s0 r0 have body: "catchOp
     (bindOp (readJson (artifactsPath env ?sid)) (\<lambda>artifacts.
          if artVideoPaths artifacts = None \<or> artVideoPaths artifacts = Some [] then
            throwOp (newError ''No video paths found for merging'')
          else
            bindOp (concatenateVideos env (the (artVideoPaths artifacts)) ?merged) (\<lambda>_.
            bindOp (if hasAudioSources (artAudioPaths artifacts) then
                      (if truthy (musicPath (the (artAudioPaths artifacts))) then
                         bindOp (addAudioToVideo env ?merged
                                   \<lparr>mixVoiceoverPath = None,
                                    mixMusicPath = musicPath (the (artAudioPaths artifacts)),
                                    mixOutputPath = ?final,
                                    mixMusicVolume = Some ''0.5'', mixVoiceVolume = None\<rparr>)
                           (\<lambda>_. returnOp ())
                       else returnOp ())
                    else copyFile env ?merged ?final) (\<lambda>_.
            bindOp (smUpdateSessionFinalVideo env ?sid ?final) (\<lambda>_.
            bindOp (saveSessionArtifacts env ?sid (artifacts\<lparr>artFinalVideoPath := Some ?final\<rparr>))
              (\<lambda>_.
            smUpdateStageStatus env ?sid Merge Completed
              (Some ''Video merging completed successfully'') None None))))))
     (\<lambda>e. bindOp (smUpdateStageStatus env ?sid Merge Error
                         (Some ''Failed to merge video content'') None (thrownMessage e))
                  (\<lambda>_. throwOp e)) w0 = (Inr u, w')"
    by (simp add: mergeVideoContent_def bindOp_def)
  have rethrow: "\<And>e s r s'. bindOp (smUpdateStageStatus env ?sid Merge Error
                         (Some ''Failed to merge video content'') None (thrownMessage e))
                  (\<lambda>_. throwOp e) s = ((r :: Thrown + unit), s') \<Longrightarrow> \<exists>x. r = Inl x"
    by (auto simp: bindOp_def throwOp_def split: prod.splits sum.splits)
  note inner = catchOp_rethrows_Inr[OF body rethrow]
  have rj: "readJson (artifactsPath env ?sid) w0 = (Inr a, w0)"
    using art j0 by (simp add: readJson_def)
  from inner have seq: "bindOp (concatenateVideos env vs ?merged) (\<lambda>_.
            bindOp (copyFile env ?merged ?final) (\<lambda>_.
            bindOp (smUpdateSessionFinalVideo env ?sid ?final) (\<lambda>_.
            bindOp (saveSessionArtifacts env ?sid (a\<lparr>artFinalVideoPath := Some ?final\<rparr>))
              (\<lambda>_.
            smUpdateStageStatus env ?sid Merge Completed
              (Some ''Video merging completed successfully'') None None)))) w0 = (Inr u, w')"
    using vids noAudio rj by (simp add: bindOp_def)
  from bindOp_result_Inr[OF seq] obtain p1 w1 where
    c1: "concatenateVideos env vs ?merged w0 = (Inr p1, w1)"
    and seq1: "bindOp (copyFile env ?merged ?final) (\<lambda>_.
            bindOp (smUpdateSessionFinalVideo env ?sid ?final) (\<lambda>_.
            bindOp (saveSessionArtifacts env ?sid (a\<lparr>artFinalVideoPath := Some ?final\<rparr>))
              (\<lambda>_.
            smUpdateStageStatus env ?sid Merge Completed
              (Some ''Video merging completed successfully'') None None))) w1 = (Inr u, w')"
    by blast
  from concatenateVideos_ok[OF c1] obtain content flt where
    f1: "files w1 = (files w0)(?merged \<mapsto> content)"
    and k1: "calls w1 = calls w0 @ [FfmpegConcat vs flt ?merged]" by blast
  from bindOp_result_Inr[OF seq1] obtain u2 w2 where
    c2: "copyFile env ?merged ?final w1 = (Inr u2, w2)"
    and seq2: "bindOp (smUpdateSessionFinalVideo env ?sid ?final) (\<lambda>_.
            bindOp (saveSessionArtifacts env ?sid (a\<lparr>artFinalVideoPath := Some ?final\<rparr>))
              (\<lambda>_.
            smUpdateStageStatus env ?sid Merge Completed
              (Some ''Video merging completed successfully'') None None)) w2 = (Inr u, w')"
    by blast
  from copyFile_ok[OF c2] f1 have
    f2: "files w2 = (files w1)(?final \<mapsto> content)"
    and k2: "calls w2 = calls w1 @ [CopyFile ?merged ?final]" by auto
  from bindOp_result_Inr[OF seq2] obtain u3 w3 where
    c3: "smUpdateSessionFinalVideo env ?sid ?final w2 = (Inr u3 :: Thrown + unit, w3)"
    and seq3: "bindOp (saveSessionArtifacts env ?sid (a\<lparr>artFinalVideoPath := Some ?final\<rparr>))
              (\<lambda>_.
            smUpdateStageStatus env ?sid Merge Completed
              (Some ''Video merging completed successfully'') None None) w3 = (Inr u, w')"
    by blast
  from smUpdateSessionFinalVideo_frame[OF c3]
  have f3: "files w3 = files w2" and l3: "logged ?Q w2 w3" by (auto intro: nowQ)
  from bindOp_result_Inr[OF seq3] obtain u4 w4 where
    c4: "saveSessionArtifacts env ?sid (a\<lparr>artFinalVideoPath := Some ?final\<rparr>) w3 = (Inr u4, w4)"
    and c5: "smUpdateStageStatus env ?sid Merge Completed
              (Some ''Video merging completed successfully'') None None w4
            = (Inr u :: Thrown + unit, w')"
    by blast
  from saveSessionArtifacts_frame[OF c4]
  have f4: "files w4 = files w3" and l4: "logged ?Q w3 w4" by (auto intro: saveQ)
  from smUpdateStageStatus_frame[OF c5]
  have f5: "files w' = files w4" and l5: "logged ?Q w4 w'" by (auto intro: nowQ)
  have l1: "logged ?Q w0 w1" using k1 by (simp add: logged_def isMixCall_def)
  have l2: "logged ?Q w1 w2" using k2 by (simp add: logged_def isMixCall_def)
  have l25: "logged ?Q w2 w'" using l3 l4 l5 by (blast intro: logged_trans)
  have l02: "logged ?Q w w2" using l0 l1 l2 by (blast intro: logged_trans)
  have all: "logged ?Q w w'" using l02 l25 by (rule logged_trans)
  have n01: "newCalls w w1 = newCalls w w0 @ [FfmpegConcat vs flt ?merged]"
    using newCalls_trans[OF l0 l1] k1 by (simp add: newCalls_def)
  have n02: "newCalls w w2 = newCalls w w1 @ [CopyFile ?merged ?final]"
    using newCalls_trans[OF logged_trans[OF l0 l1] l2] k2 by (simp add: newCalls_def)
  have n: "newCalls w w' = newCalls w w2 @ newCalls w2 w'"
    by (rule newCalls_trans[OF l02 l25])
  have files': "files w' = ((files w0)(?merged \<mapsto> content))(?final \<mapsto> content)"
    using f1 f2 f3 f4 f5 by simp
  show ?thesis
  proof (intro conjI)
    show "files w' ?final = files w' ?merged" by (simp add: files')
    show "files w' ?final \<noteq> None" by (simp add: files')
    show "list_all ?Q (newCalls w w')" using logged_newCalls[OF all] by simp
    show "CopyFile ?merged ?final \<in> set (newCalls w w')" by (simp add: n n02)
    show "\<exists>flt content. FfmpegConcat vs flt ?merged \<in> set (newCalls w w')
           \<and> files w' ?final = Some content"
      by (rule exI[of _ flt], rule exI[of _ content]) (simp add: n n02 n01 files')
  qed
qed

lemma silent_merge_run:
  "fst (mergeVideoContent happyEnv exampleSession mergeReadyWorld) = Inr ()"
  by code_simp

lemma silent_merge_files:
  "files (snd (mergeVideoContent happyEnv exampleSession mergeReadyWorld))
     ''app/runs/s1/merged_scenes.mp4'' = Some ''MERGED''"
  by code_simp

lemma silent_merge_example:
  "fst (mergeVideoContent happyEnv exampleSession mergeReadyWorld) = Inr ()
   \<and> artAudioPaths silentArtifacts = None
   \<and> files (snd (mergeVideoContent happyEnv exampleSession mergeReadyWorld))
        ''app/runs/s1/final_video.mp4'' = Some ''MERGED''
   \<and> list_all (\<lambda>c. \<not> isMixCall c)
        (newCalls mergeReadyWorld (snd (mergeVideoContent happyEnv exampleSession mergeReadyWorld)))"
proof -
  let ?run = "mergeVideoContent happyEnv exampleSession mergeReadyWorld"
  have sid: "sessionId exampleSession = ''s1''"
    by (simp add: exampleSession_def createSession_def Let_def)
  have art: "jsonFiles mergeReadyWorld (artifactsPath happyEnv (sessionId exampleSession))
      = Some silentArtifacts"
    by (simp add: sid mergeReadyWorld_def artifactsPath_def happyEnv_def joinPath_def)
  have vids: "artVideoPaths silentArtifacts
      = Some [''app/runs/s1/videos/scene_1.mp4'', ''app/runs/s1/videos/scene_2.mp4'']"
    by (simp add: silentArtifacts_def)
  have ne: "[''app/runs/s1/videos/scene_1.mp4'', ''app/runs/s1/videos/scene_2.mp4''] \<noteq> []"
    by simp
  have quiet: "\<not> hasAudioSources (artAudioPaths silentArtifacts)"
    by (simp add: silentArtifacts_def hasAudioSources_def)
  have e: "?run = (Inr (), snd ?run)" using silent_merge_run by (simp add: prod_eq_iff)
  have paths: "finalVideoFile happyEnv ''s1'' = ''app/runs/s1/final_video.mp4''"
    "mergedScenesFile happyEnv ''s1'' = ''app/runs/s1/merged_scenes.mp4''"
    by (simp_all add: finalVideoFile_def mergedScenesFile_def happyEnv_def joinPath_def)
  from merge_copies_without_audio_sources[OF art vids ne quiet e] silent_merge_run silent_merge_files
  show ?thesis by (simp add: sid paths silentArtifacts_def)
qed



subsection \<open>Operations that leave sessions and artifacts alone\<close>

lemma transitI: "(\<And>s r s'. m s = (r, s') \<Longrightarrow> T s s') \<Longrightarrow> transit T m"
  by (simp add: transit_def)

lemma transitD: "transit T m \<Longrightarrow> m s = (r, s') \<Longrightarrow> T s s'"
  by (simp add: transit_def)

lemma transit_return: "(\<And>s. T s s) \<Longrightarrow> transit T (returnOp x)"
  by (simp add: transit_def returnOp_def)

lemma transit_throw: "(\<And>s. T s s) \<Longrightarrow> transit T (throwOp e)"
  by (simp add: transit_def throwOp_def)

lemma transit_bind:
  assumes "transit T m" and "\<And>x. transit T (f x)"
    and "\<And>a b c. T a b \<Longrightarrow> T b c \<Longrightarrow> T a c"
  shows "transit T (bindOp m f)"
  using assms unfolding transit_def bindOp_def
  by (fastforce split: prod.splits sum.splits)

lemma transit_catch:
  assumes "transit T m" and "\<And>e. transit T (h e)"
    and "\<And>a b c. T a b \<Longrightarrow> T b c \<Longrightarrow> T a c"
  shows "transit T (catchOp m h)"
  using assms unfolding transit_def catchOp_def
  by (fastforce split: prod.splits sum.splits)

lemma quietStep_refl: "quietStep w w"
  by (simp add: quietStep_def)

lemma quietStep_trans: "quietStep a b \<Longrightarrow> quietStep b c \<Longrightarrow> quietStep a c"
  by (auto simp: quietStep_def)

lemma quietStep_logCall: "quietStep w (logCall c w)"
  by (simp add: quietStep_def logCall_def)

lemma quiet_bind:
  "transit quietStep m \<Longrightarrow> (\<And>x. transit quietStep (f x)) \<Longrightarrow> transit quietStep (bindOp m f)"
  by (rule transit_bind) (auto intro: quietStep_trans)

lemma quiet_catch:
  "transit quietStep m \<Longrightarrow> (\<And>e. transit quietStep (h e)) \<Longrightarrow> transit quietStep (catchOp m h)"
  by (rule transit_catch) (auto intro: quietStep_trans)

lemma quiet_return: "transit quietStep (returnOp x)"
  by (rule transit_return) (rule quietStep_refl)

lemma quiet_throw: "transit quietStep (throwOp e)"
  by (rule transit_throw) (rule quietStep_refl)

lemma quiet_readFile: "transit quietStep (readFile p)"
  by (auto simp: transit_def readFile_def quietStep_def split: option.splits)

lemma quiet_readJson: "transit quietStep (readJson p)"
  by (auto simp: transit_def readJson_def quietStep_def split: option.splits)

lemma quiet_ensureDir: "transit quietStep (ensureDir env p)"
  by (auto simp: transit_def ensureDir_def quietStep_def logCall_def split: option.splits)

lemma quiet_writeFile: "transit quietStep (writeFile env p c)"
  by (auto simp: transit_def writeFile_def quietStep_def logCall_def split: option.splits)

lemma quiet_copyFile: "transit quietStep (copyFile env src dst)"
  by (auto simp: transit_def copyFile_def quietStep_def logCall_def split: option.splits)

lemma quiet_chatCompletion: "transit quietStep (chatCompletion env n d v m)"
  by (auto simp: transit_def chatCompletion_def quietStep_def logCall_def split: sum.splits)

lemma quiet_replicateRun: "transit quietStep (replicateRun env n model inp)"
  by (auto simp: transit_def replicateRun_def quietStep_def logCall_def split: sum.splits)

lemma quiet_fetchUrl: "transit quietStep (fetchUrl env url)"
  by (auto simp: transit_def fetchUrl_def quietStep_def logCall_def split: sum.splits)

lemma dom_writeAll: "dom fs \<subseteq> dom (writeAll vs fs)"
proof (induction vs arbitrary: fs)
  case Nil
  show ?case by simp
next
  case (Cons v vs)
  obtain p c where v: "v = (p, c)" by (cases v)
  have "dom fs \<subseteq> dom (fs(p \<mapsto> c))" by auto
  also have "\<dots> \<subseteq> dom (writeAll vs (fs(p \<mapsto> c)))" by (rule Cons.IH)
  finally show ?case by (simp add: v)
qed

lemma quiet_kling: "transit quietStep (klingGenerateSceneVideos env ps imgs sid d)"
  using dom_writeAll
  by (auto simp: transit_def klingGenerateSceneVideos_def quietStep_def logCall_def
      split: sum.splits)

lemma quiet_music: "transit quietStep (generateBackgroundMusic env prompt d sid)"
  by (auto simp: transit_def generateBackgroundMusic_def quietStep_def logCall_def
      split: sum.splits)

lemma quiet_concatenateVideos: "transit quietStep (concatenateVideos env vs out)"
  by (auto simp: transit_def concatenateVideos_def quietStep_def logCall_def Let_def
      split: sum.splits option.splits)

lemma quiet_checkVideoHasAudio: "transit quietStep (checkVideoHasAudio env p)"
  by (auto simp: transit_def checkVideoHasAudio_def quietStep_def logCall_def split: sum.splits)

lemma quiet_addAudioToVideo: "transit quietStep (addAudioToVideo env p opts)"
  unfolding addAudioToVideo_def
  by (rule quiet_bind[OF quiet_checkVideoHasAudio])
     (auto simp: transit_def quietStep_def logCall_def Let_def split: sum.splits)

lemma quiet_openaiGeneratePrompts: "transit quietStep (openaiGeneratePrompts env n d v m sid)"
  unfolding openaiGeneratePrompts_def
  by (intro quiet_catch quiet_bind quiet_chatCompletion quiet_throw)
     (auto intro: quiet_throw quiet_return split: ChatContent.splits sum.splits)

lemma quiet_imageModelOperation: "transit quietStep (imageModelOperation env scene ref orig n opts)"
  unfolding imageModelOperation_def
  by (intro quiet_bind quiet_readFile)
     (auto intro!: quiet_bind quiet_readFile quiet_return quiet_throw quiet_replicateRun
       split: ReplicateOutput.splits list.splits)

lemma quiet_withRetryOp:
  assumes "transit quietStep operation"
  shows "transit quietStep (withRetryOp operation opts)"
proof (rule transitI)
  fix s r s'
  assume run: "withRetryOp operation opts s = (r, s')"
  then obtain out where loop: "withRetryLoop operation opts 1 None 0 [] s = (out, s')"
    by (auto simp: withRetryOp_def withRetry_def split: prod.splits sum.splits option.splits)
  from withRetryLoop_rel[where T = quietStep and G = "\<lambda>x a b. True", OF _ _ _ _ loop]
    assms
  show "quietStep s s'" by (auto simp: transit_def intro: quietStep_refl quietStep_trans)
qed

lemma quiet_generateSingleSceneImage:
  "transit quietStep (generateSingleSceneImage env scene ref orig sid n opts)"
  unfolding generateSingleSceneImage_def
  by (intro quiet_bind quiet_catch quiet_ensureDir quiet_withRetryOp quiet_imageModelOperation
        quiet_fetchUrl quiet_throw)
     (auto intro!: quiet_bind quiet_throw quiet_return quiet_writeFile)

lemma quiet_sceneImagesLoop:
  "transit quietStep (sceneImagesLoop env orig sid opts scenes i prev acc)"
  by (induction scenes arbitrary: i prev acc)
     (auto intro!: quiet_return quiet_bind quiet_generateSingleSceneImage)

lemma quiet_generateSceneImages:
  "transit quietStep (generateSceneImages env scenes orig sid opts)"
  by (simp add: generateSceneImages_def quiet_sceneImagesLoop)


subsection \<open>Pre- and postconditions of operations\<close>

lemma tripleI: "(\<And>s r s'. P s \<Longrightarrow> m s = (r, s') \<Longrightarrow> Q r s') \<Longrightarrow> triple P m Q"
  unfolding triple_def by blast

lemma tripleD: "triple P m Q \<Longrightarrow> P s \<Longrightarrow> m s = (r, s') \<Longrightarrow> Q r s'"
  by (auto simp: triple_def)

lemma triple_weaken:
  "triple P m Q \<Longrightarrow> (\<And>s. P' s \<Longrightarrow> P s) \<Longrightarrow> (\<And>r s. Q r s \<Longrightarrow> Q' r s) \<Longrightarrow> triple P' m Q'"
  unfolding triple_def by blast

lemma triple_pure: "(\<phi> \<Longrightarrow> triple P m Q) \<Longrightarrow> triple (\<lambda>s. P s \<and> \<phi>) m Q"
  by (auto simp: triple_def)

lemma triple_return: "(\<And>s. P s \<Longrightarrow> Q (Inr x) s) \<Longrightarrow> triple P (returnOp x) Q"
  by (simp add: triple_def returnOp_def)

lemma triple_throw: "(\<And>s. P s \<Longrightarrow> Q (Inl e) s) \<Longrightarrow> triple P (throwOp e) Q"
  by (simp add: triple_def throwOp_def)

lemma triple_bind:
  assumes m: "triple P m Q1"
    and f: "\<And>x. triple (Q1 (Inr x)) (f x) Q"
    and err: "\<And>e s. Q1 (Inl e) s \<Longrightarrow> Q (Inl e) s"
  shows "triple P (bindOp m f) Q"
proof (rule tripleI)
  fix s r s'
  assume P: "P s" and run: "bindOp m f s = (r, s')"
  obtain r1 s1 where m1: "m s = (r1, s1)" by (cases "m s")
  from tripleD[OF m P m1] have q1: "Q1 r1 s1" .
  show "Q r s'"
  proof (cases r1)
    case (Inl e)
    with run m1 have "r = Inl e" "s' = s1" by (simp_all add: bindOp_def)
    with q1 Inl show ?thesis by (simp add: err)
  next
    case (Inr x)
    with run m1 have "f x s1 = (r, s')" by (simp add: bindOp_def)
    from tripleD[OF f _ this] q1 Inr show ?thesis by simp
  qed
qed

lemma triple_catch:
  assumes m: "triple P m Q1"
    and h: "\<And>e. triple (Q1 (Inl e)) (h e) Q"
    and ok: "\<And>x s. Q1 (Inr x) s \<Longrightarrow> Q (Inr x) s"
  shows "triple P (catchOp m h) Q"
proof (rule tripleI)
  fix s r s'
  assume P: "P s" and run: "catchOp m h s = (r, s')"
  obtain r1 s1 where m1: "m s = (r1, s1)" by (cases "m s")
  from tripleD[OF m P m1] have q1: "Q1 r1 s1" .
  show "Q r s'"
  proof (cases r1)
    case (Inr x)
    with run m1 have "r = Inr x" "s' = s1" by (simp_all add: catchOp_def)
    with q1 Inr show ?thesis by (simp add: ok)
  next
    case (Inl e)
    with run m1 have "h e s1 = (r, s')" by (simp add: catchOp_def)
    from tripleD[OF h _ this] q1 Inl show ?thesis by simp
  qed
qed

text \<open>An invariant kept whatever the result.\<close>

lemma keep_bind:
  "triple I m (\<lambda>r. I) \<Longrightarrow> (\<And>x. triple I (f x) (\<lambda>r. I)) \<Longrightarrow> triple I (bindOp m f) (\<lambda>r. I)"
  by (rule triple_bind[where ?Q1.0 = "\<lambda>r. I"]) auto

lemma keep_catch:
  "triple I m (\<lambda>r. I) \<Longrightarrow> (\<And>e. triple I (h e) (\<lambda>r. I)) \<Longrightarrow> triple I (catchOp m h) (\<lambda>r. I)"
  by (rule triple_catch[where ?Q1.0 = "\<lambda>r. I"]) auto

lemma keep_return: "triple I (returnOp x) (\<lambda>r. I)"
  by (rule triple_return)

lemma keep_throw: "triple I (throwOp e) (\<lambda>r. I)"
  by (rule triple_throw)

lemma keep_quiet:
  "transit quietStep m \<Longrightarrow> (\<And>a b. quietStep a b \<Longrightarrow> I a \<Longrightarrow> I b) \<Longrightarrow> triple I m (\<lambda>r. I)"
  unfolding triple_def transit_def by blast

lemma mergeStatus_quiet: "quietStep a b \<Longrightarrow> mergeStatus b sid = mergeStatus a sid"
  by (simp add: quietStep_def mergeStatus_def)

lemma noVoiceover_quiet: "quietStep a b \<Longrightarrow> noVoiceoverArtifacts a \<Longrightarrow> noVoiceoverArtifacts b"
  by (simp add: quietStep_def noVoiceoverArtifacts_def)

lemma runOpen_quiet:
  assumes q: "quietStep a b" and I: "runOpen w0 sid st a"
  shows "runOpen w0 sid st b"
proof -
  from q have s: "sessions b = sessions a" and d: "dom (files a) \<subseteq> dom (files b)"
    by (simp_all add: quietStep_def)
  from I have "dom (files w0) \<subseteq> dom (files a)" by (simp add: runOpen_def)
  with d have d0: "dom (files w0) \<subseteq> dom (files b)" by (rule order_trans[rotated])
  from I s d0 mergeStatus_quiet[OF q, of sid] noVoiceover_quiet[OF q] show ?thesis
    by (simp add: runOpen_def)
qed

lemma runFinalised_quiet:
  assumes q: "quietStep a b" and I: "runFinalised w0 sid st final a"
  shows "runFinalised w0 sid st final b"
proof -
  from q have s: "sessions b = sessions a" and d: "dom (files a) \<subseteq> dom (files b)"
    by (simp_all add: quietStep_def)
  from I have "dom (files w0) \<subseteq> dom (files a)" and fa: "final \<in> dom (files a)"
    by (auto simp: runFinalised_def)
  with d have d0: "dom (files w0) \<subseteq> dom (files b)" and fb: "files b final \<noteq> None"
    by auto
  from I s d0 fb mergeStatus_quiet[OF q, of sid] noVoiceover_quiet[OF q] show ?thesis
    by (simp add: runFinalised_def)
qed

lemma updateStageStatus_others:
  "k \<noteq> sid \<Longrightarrow> updateStageStatus t sid stg st msg prog err store k = store k"
  by (auto simp: updateStageStatus_def Let_def split: option.splits)

lemma updateStageStatus_session:
  "store sid = Some s \<Longrightarrow>
   \<exists>s'. updateStageStatus t sid stg st msg prog err store sid = Some s'
      \<and> sessionStatus s' = sessionStatus s \<and> finalVideoPath s' = finalVideoPath s"
  by (auto simp: updateStageStatus_def Let_def split: option.splits)

lemma mergeStatus_updateStage_other:
  "stg \<noteq> Merge \<Longrightarrow> sessions w' = updateStageStatus t sid stg st msg prog err (sessions w) \<Longrightarrow>
   mergeStatus w' sid = mergeStatus w sid"
  by (simp add: mergeStatus_def stageOf_update_other)

lemma mergeStatus_updateStage_merge:
  assumes "sessions w' = updateStageStatus t sid Merge st msg prog err (sessions w)"
    and "mergeStatus w sid = Some ms"
  shows "mergeStatus w' sid = Some st"
proof -
  from assms(2) have "stageOf (sessions w) sid Merge \<noteq> None" by (auto simp: mergeStatus_def)
  with stageOf_cases[of "sessions w" sid Merge] obtain session i where
    h: "sessions w sid = Some session" "findIndex (\<lambda>s. stage s = Merge) (stages session) = Some i"
    by blast
  from stageOf_update_same[where store = "sessions w" and sid = sid and stg = Merge and now = t
      and st = st and msg = msg and prog = prog and err = err, OF h]
  show ?thesis by (auto simp: mergeStatus_def assms(1))
qed

lemma keep_stage_other:
  assumes "stg \<noteq> Merge"
  shows "triple (runOpen w0 sid st) (smUpdateStageStatus env sid stg sst msg prog err)
           (\<lambda>r. runOpen w0 sid st)"
proof (rule tripleI)
  fix w r w'
  assume I: "runOpen w0 sid st w"
    and run: "smUpdateStageStatus env sid stg sst msg prog err w = (r, w')"
  from smUpdateStageStatus_frame[OF run]
  have f: "files w' = files w" and j: "jsonFiles w' = jsonFiles w"
    and s: "sessions w' = updateStageStatus (clockEnv env (calls w)) sid stg sst msg prog err (sessions w)"
    by auto
  from I obtain x where x: "sessions w sid = Some x" "sessionStatus x = st" "finalVideoPath x = None"
    by (auto simp: runOpen_def)
  from updateStageStatus_session[where store = "sessions w" and sid = sid, OF x(1)] s x
  have "\<exists>s'. sessions w' sid = Some s' \<and> sessionStatus s' = st \<and> finalVideoPath s' = None"
    by fastforce
  with I f j s assms show "runOpen w0 sid st w'"
    unfolding runOpen_def
    by (auto simp: mergeStatus_updateStage_other[OF assms s] updateStageStatus_others
        noVoiceoverArtifacts_def)
qed

lemma keep_stage_merge:
  assumes "sst \<noteq> Completed"
  shows "triple (runOpen w0 sid st) (smUpdateStageStatus env sid Merge sst msg prog err)
           (\<lambda>r. runOpen w0 sid st)"
proof (rule tripleI)
  fix w r w'
  assume I: "runOpen w0 sid st w"
    and run: "smUpdateStageStatus env sid Merge sst msg prog err w = (r, w')"
  from smUpdateStageStatus_frame[OF run]
  have f: "files w' = files w" and j: "jsonFiles w' = jsonFiles w"
    and s: "sessions w' = updateStageStatus (clockEnv env (calls w)) sid Merge sst msg prog err (sessions w)"
    by auto
  from I obtain x ms where x: "sessions w sid = Some x" "sessionStatus x = st" "finalVideoPath x = None"
    and ms: "mergeStatus w sid = Some ms"
    by (auto simp: runOpen_def)
  from updateStageStatus_session[where store = "sessions w" and sid = sid, OF x(1)] s x
  have "\<exists>s'. sessions w' sid = Some s' \<and> sessionStatus s' = st \<and> finalVideoPath s' = None"
    by fastforce
  with I f j s assms mergeStatus_updateStage_merge[OF s ms] show "runOpen w0 sid st w'"
    unfolding runOpen_def
    by (auto simp: updateStageStatus_others noVoiceoverArtifacts_def)
qed

lemma stage_merge_completed:
  "triple (runFinalised w0 sid st final)
     (smUpdateStageStatus env sid Merge Completed msg prog err)
     (\<lambda>r w. r = Inr () \<and> runMerged w0 sid st final w)"
proof (rule tripleI)
  fix w r w'
  assume I: "runFinalised w0 sid st final w"
    and run: "smUpdateStageStatus env sid Merge Completed msg prog err w = (r, w')"
  from smUpdateStageStatus_frame[OF run]
  have r: "r = Inr ()" and f: "files w' = files w" and j: "jsonFiles w' = jsonFiles w"
    and s: "sessions w' = updateStageStatus (clockEnv env (calls w)) sid Merge Completed msg prog err (sessions w)"
    by auto
  from I obtain x ms where x: "sessions w sid = Some x" "sessionStatus x = st"
      "finalVideoPath x = Some final"
    and ms: "mergeStatus w sid = Some ms"
    by (auto simp: runFinalised_def)
  from updateStageStatus_session[where store = "sessions w" and sid = sid, OF x(1)] s x
  have "\<exists>s'. sessions w' sid = Some s' \<and> sessionStatus s' = st \<and> finalVideoPath s' = Some final"
    by fastforce
  with I f j s r mergeStatus_updateStage_merge[OF s ms]
  show "r = Inr () \<and> runMerged w0 sid st final w'"
    unfolding runMerged_def runFinalised_def
    by (auto simp: updateStageStatus_others noVoiceoverArtifacts_def)
qed

lemma mergeStatus_same_stages:
  "sessions w sid = Some s \<Longrightarrow> sessions w' sid = Some s' \<Longrightarrow> stages s' = stages s \<Longrightarrow>
   mergeStatus w' sid = mergeStatus w sid"
  by (simp add: mergeStatus_def stageOf_def)

lemma finalVideo_finalises:
  "triple (\<lambda>w. runOpen w0 sid st w \<and> files w final \<noteq> None)
     (smUpdateSessionFinalVideo env sid final)
     (\<lambda>r w. r = Inr () \<and> runFinalised w0 sid st final w)"
proof (rule tripleI)
  fix w r w'
  assume I: "runOpen w0 sid st w \<and> files w final \<noteq> None"
    and run: "smUpdateSessionFinalVideo env sid final w = (r, w')"
  from smUpdateSessionFinalVideo_frame[OF run]
  have r: "r = Inr ()" and f: "files w' = files w" and j: "jsonFiles w' = jsonFiles w"
    and s: "sessions w' = updateSessionFinalVideo (clockEnv env (calls w)) sid final (sessions w)"
    by auto
  from I obtain x ms where x: "sessions w sid = Some x" "sessionStatus x = st"
    and ms: "mergeStatus w sid = Some ms"
    by (auto simp: runOpen_def)
  let ?x' = "x\<lparr>finalVideoPath := Some final, updatedAt := clockEnv env (calls w)\<rparr>"
  have x': "sessions w' sid = Some ?x'" using s x by (simp add: updateSessionFinalVideo_def)
  have oth: "\<And>k. k \<noteq> sid \<Longrightarrow> sessions w' k = sessions w k"
    using s by (auto simp: updateSessionFinalVideo_def split: option.splits)
  have "mergeStatus w' sid = mergeStatus w sid"
    by (rule mergeStatus_same_stages[OF x(1) x']) simp
  with I f j r x x' oth ms show "r = Inr () \<and> runFinalised w0 sid st final w'"
    unfolding runFinalised_def runOpen_def
    by (auto simp: noVoiceoverArtifacts_def)
qed

lemma sessionStatus_runOpen:
  "triple (runOpen w0 sid st) (smUpdateSessionStatus env sid st' err details)
     (\<lambda>r w. r = Inr () \<and> runOpen w0 sid st' w)"
proof (rule tripleI)
  fix w r w'
  assume I: "runOpen w0 sid st w"
    and run: "smUpdateSessionStatus env sid st' err details w = (r, w')"
  from smUpdateSessionStatus_frame[OF run]
  have r: "r = Inr ()" and f: "files w' = files w" and j: "jsonFiles w' = jsonFiles w"
    and s: "sessions w' = updateSessionStatus (clockEnv env (calls w)) sid st' err details (sessions w)"
    by auto
  from I obtain x ms where x: "sessions w sid = Some x" "finalVideoPath x = None"
    and ms: "mergeStatus w sid = Some ms" "ms \<noteq> Completed"
    by (auto simp: runOpen_def)
  from s x obtain x' where x': "sessions w' sid = Some x'" "sessionStatus x' = st'"
      "finalVideoPath x' = None" "stages x' = stages x"
    by (auto simp: updateSessionStatus_def Let_def)
  have oth: "\<And>k. k \<noteq> sid \<Longrightarrow> sessions w' k = sessions w k"
    using s by (auto simp: updateSessionStatus_def Let_def split: option.splits)
  have "mergeStatus w' sid = mergeStatus w sid"
    by (rule mergeStatus_same_stages[OF x(1) x'(1) x'(4)])
  with I f j r x' oth ms show "r = Inr () \<and> runOpen w0 sid st' w'"
    unfolding runOpen_def by (auto simp: noVoiceoverArtifacts_def)
qed

lemma sessionStatus_runMerged:
  "triple (runMerged w0 sid st final) (smUpdateSessionStatus env sid st' err details)
     (\<lambda>r w. r = Inr () \<and> runMerged w0 sid st' final w)"
proof (rule tripleI)
  fix w r w'
  assume I: "runMerged w0 sid st final w"
    and run: "smUpdateSessionStatus env sid st' err details w = (r, w')"
  from smUpdateSessionStatus_frame[OF run]
  have r: "r = Inr ()" and f: "files w' = files w" and j: "jsonFiles w' = jsonFiles w"
    and s: "sessions w' = updateSessionStatus (clockEnv env (calls w)) sid st' err details (sessions w)"
    by auto
  from I obtain x where x: "sessions w sid = Some x" "finalVideoPath x = Some final"
    by (auto simp: runMerged_def)
  from s x obtain x' where x': "sessions w' sid = Some x'" "sessionStatus x' = st'"
      "finalVideoPath x' = Some final" "stages x' = stages x"
    by (auto simp: updateSessionStatus_def Let_def)
  have oth: "\<And>k. k \<noteq> sid \<Longrightarrow> sessions w' k = sessions w k"
    using s by (auto simp: updateSessionStatus_def Let_def split: option.splits)
  have "mergeStatus w' sid = mergeStatus w sid"
    by (rule mergeStatus_same_stages[OF x(1) x'(1) x'(4)])
  with I f j r x' oth show "r = Inr () \<and> runMerged w0 sid st' final w'"
    unfolding runMerged_def by (auto simp: noVoiceoverArtifacts_def)
qed


subsection \<open>The stages before the merge\<close>

lemma noVoiceover_write:
  "noVoiceoverArtifacts w \<Longrightarrow> withoutVoiceover a \<Longrightarrow>
   noVoiceoverArtifacts (w\<lparr>jsonFiles := (jsonFiles w)(p \<mapsto> a)\<rparr>)"
  by (auto simp: noVoiceoverArtifacts_def)

text \<open>Saving a document without voiceover paths changes nothing the run states read.\<close>

lemma saveSessionArtifacts_effect:
  assumes "saveSessionArtifacts env sid a w = (r, w')" and "withoutVoiceover a"
  shows "r = Inr () \<and> files w' = files w \<and> sessions w' = sessions w
     \<and> (noVoiceoverArtifacts w \<longrightarrow> noVoiceoverArtifacts w')"
  using assms
  by (auto simp: saveSessionArtifacts_def bindOp_def catchOp_def nowOp_def writeJson_def returnOp_def
      logCall_def noVoiceoverArtifacts_def withoutVoiceover_def split: option.splits if_splits)

lemma keep_save_open:
  assumes "withoutVoiceover a"
  shows "triple (runOpen w0 sid st) (saveSessionArtifacts env sid' a) (\<lambda>r. runOpen w0 sid st)"
proof (rule tripleI)
  fix w r w'
  assume I: "runOpen w0 sid st w" and run: "saveSessionArtifacts env sid' a w = (r, w')"
  from saveSessionArtifacts_effect[OF run assms] I show "runOpen w0 sid st w'"
    by (simp add: runOpen_def mergeStatus_def)
qed

lemma keep_save_finalised:
  assumes "withoutVoiceover a"
  shows "triple (runFinalised w0 sid st final) (saveSessionArtifacts env sid' a)
           (\<lambda>r. runFinalised w0 sid st final)"
proof (rule tripleI)
  fix w r w'
  assume I: "runFinalised w0 sid st final w" and run: "saveSessionArtifacts env sid' a w = (r, w')"
  from saveSessionArtifacts_effect[OF run assms] I show "runFinalised w0 sid st final w'"
    by (simp add: runFinalised_def mergeStatus_def)
qed

lemma readJson_open:
  "triple (runOpen w0 sid st) (readJson p)
     (\<lambda>r w. runOpen w0 sid st w \<and> (\<forall>a. r = Inr a \<longrightarrow> withoutVoiceover a))"
  by (rule tripleI)
     (auto simp: readJson_def runOpen_def noVoiceoverArtifacts_def split: option.splits)

lemma keep_open_quiet: "transit quietStep m \<Longrightarrow> triple (runOpen w0 sid st) m (\<lambda>r. runOpen w0 sid st)"
  by (erule keep_quiet) (rule runOpen_quiet)

lemma withoutVoiceover_fields [simp]:
  "withoutVoiceover (a\<lparr>artImagePaths := x\<rparr>) = withoutVoiceover a"
  "withoutVoiceover (a\<lparr>artVideoPaths := y\<rparr>) = withoutVoiceover a"
  "withoutVoiceover (a\<lparr>artFinalVideoPath := z\<rparr>) = withoutVoiceover a"
  "withoutVoiceover (a\<lparr>artPrompts := q\<rparr>) = withoutVoiceover a"
  "withoutVoiceover (a\<lparr>artAudioPaths := Some \<lparr>voiceoverPaths = None, musicPath = mp\<rparr>\<rparr>)"
  "withoutVoiceover emptyArtifacts"
  by (simp_all add: withoutVoiceover_def emptyArtifacts_def)

lemma keep_generatePrompts:
  "triple (runOpen w0 (sessionId session) st) (generatePrompts env session)
     (\<lambda>r. runOpen w0 (sessionId session) st)"
  unfolding generatePrompts_def
  by (intro keep_bind keep_catch keep_throw keep_stage_other keep_save_open
        keep_open_quiet[OF quiet_openaiGeneratePrompts]) simp_all

lemma keep_readJson_then:
  assumes "\<And>a. withoutVoiceover a \<Longrightarrow> triple (runOpen w0 sid st) (f a) (\<lambda>r. runOpen w0 sid st)"
  shows "triple (runOpen w0 sid st) (bindOp (readJson p) f) (\<lambda>r. runOpen w0 sid st)"
proof (rule triple_bind[OF readJson_open])
  fix a
  show "triple (\<lambda>w. runOpen w0 sid st w \<and> (\<forall>a'. Inr a = (Inr a' :: Thrown + Artifacts) \<longrightarrow> withoutVoiceover a'))
          (f a) (\<lambda>r. runOpen w0 sid st)"
    by (rule tripleI) (auto dest: tripleD[OF assms])
qed simp

lemma keep_generateImages:
  "triple (runOpen w0 (sessionId session) st) (generateImages env session)
     (\<lambda>r. runOpen w0 (sessionId session) st)"
  unfolding generateImages_def
  by (intro keep_bind keep_catch keep_throw keep_stage_other keep_readJson_then)
     (auto intro!: keep_bind keep_throw keep_stage_other keep_save_open
        keep_open_quiet[OF quiet_generateSceneImages] split: option.splits)

lemma keep_generateVideos:
  "triple (runOpen w0 (sessionId session) st) (generateVideos env session)
     (\<lambda>r. runOpen w0 (sessionId session) st)"
  unfolding generateVideos_def
  by (intro keep_bind keep_catch keep_throw keep_stage_other keep_readJson_then)
     (auto intro!: keep_bind keep_throw keep_stage_other keep_save_open
        keep_open_quiet[OF quiet_kling] split: option.splits)

lemma audioPaths_open:
  "triple (runOpen w0 sid st)
     (if c then bindOp (generateBackgroundMusic env prompt d sid')
                 (\<lambda>p. returnOp \<lparr>voiceoverPaths = None, musicPath = Some p\<rparr>)
      else returnOp \<lparr>voiceoverPaths = None, musicPath = None\<rparr>)
     (\<lambda>r w. runOpen w0 sid st w \<and> (\<forall>x. r = Inr x \<longrightarrow> voiceoverPaths x = None))"
proof (cases c)
  case True
  have "triple (runOpen w0 sid st)
     (bindOp (generateBackgroundMusic env prompt d sid')
                 (\<lambda>p. returnOp \<lparr>voiceoverPaths = None, musicPath = Some p\<rparr>))
     (\<lambda>r w. runOpen w0 sid st w \<and> (\<forall>x. r = Inr x \<longrightarrow> voiceoverPaths x = None))"
    by (rule triple_bind[OF keep_open_quiet[OF quiet_music]]) (auto intro: triple_return)
  with True show ?thesis by simp
next
  case False
  then show ?thesis by (auto intro: triple_return)
qed

lemma keep_generateAudio:
  "triple (runOpen w0 (sessionId session) st) (generateAudio env session)
     (\<lambda>r. runOpen w0 (sessionId session) st)"
  unfolding generateAudio_def
proof (intro keep_bind[OF keep_stage_other] keep_catch keep_readJson_then)
  fix a assume a: "withoutVoiceover a"
  let ?I = "runOpen w0 (sessionId session) st"
  show "triple ?I
     (case artPrompts a of
            None \<Rightarrow> throwOp (newError ''No prompts found in artifacts'')
          | Some prompts \<Rightarrow>
              bindOp (if includeMusic (request session) \<and> truthy (musicPrompt prompts)
                      then bindOp (generateBackgroundMusic env (the (musicPrompt prompts))
                                     (sceneCount (request session) * sceneDurationSeconds env)
                                     (sessionId session))
                             (\<lambda>p. returnOp \<lparr>voiceoverPaths = None, musicPath = Some p\<rparr>)
                      else returnOp \<lparr>voiceoverPaths = None, musicPath = None\<rparr>) (\<lambda>audioPaths.
              bindOp (saveSessionArtifacts env (sessionId session)
                        (a\<lparr>artAudioPaths := Some audioPaths\<rparr>)) (\<lambda>_.
              smUpdateStageStatus env (sessionId session) Audio Completed
                (Some ''Audio generation completed'') None None)))
     (\<lambda>r. ?I)"
  proof (cases "artPrompts a")
    case None
    then show ?thesis by (simp add: keep_throw)
  next
    case (Some prompts)
    have "triple ?I
      (bindOp (if includeMusic (request session) \<and> truthy (musicPrompt prompts)
                      then bindOp (generateBackgroundMusic env (the (musicPrompt prompts))
                                     (sceneCount (request session) * sceneDurationSeconds env)
                                     (sessionId session))
                             (\<lambda>p. returnOp \<lparr>voiceoverPaths = None, musicPath = Some p\<rparr>)
                      else returnOp \<lparr>voiceoverPaths = None, musicPath = None\<rparr>) (\<lambda>audioPaths.
              bindOp (saveSessionArtifacts env (sessionId session)
                        (a\<lparr>artAudioPaths := Some audioPaths\<rparr>)) (\<lambda>_.
              smUpdateStageStatus env (sessionId session) Audio Completed
                (Some ''Audio generation completed'') None None)))
      (\<lambda>r. ?I)"
    proof (rule triple_bind[OF audioPaths_open])
      fix x :: AudioPaths
      show "triple (\<lambda>w. ?I w \<and> (\<forall>x'. Inr x = (Inr x' :: Thrown + AudioPaths) \<longrightarrow> voiceoverPaths x' = None))
         (bindOp (saveSessionArtifacts env (sessionId session) (a\<lparr>artAudioPaths := Some x\<rparr>)) (\<lambda>_.
              smUpdateStageStatus env (sessionId session) Audio Completed
                (Some ''Audio generation completed'') None None))
         (\<lambda>r. ?I)"
      proof (simp, rule triple_pure)
        assume "voiceoverPaths x = None"
        then have "withoutVoiceover (a\<lparr>artAudioPaths := Some x\<rparr>)"
          by (simp add: withoutVoiceover_def)
        then show "triple ?I
         (bindOp (saveSessionArtifacts env (sessionId session) (a\<lparr>artAudioPaths := Some x\<rparr>)) (\<lambda>_.
              smUpdateStageStatus env (sessionId session) Audio Completed
                (Some ''Audio generation completed'') None None))
         (\<lambda>r. ?I)"
          by (intro keep_bind keep_save_open keep_stage_other) simp_all
      qed
    qed simp
    with Some show ?thesis by simp
  qed
qed (simp_all add: keep_throw keep_bind keep_stage_other)


subsection \<open>The merge stage\<close>

lemma copy_open:
  "triple (runOpen w0 sid st) (copyFile env src dst)
     (\<lambda>r w. runOpen w0 sid st w \<and> (\<forall>u. r = Inr u \<longrightarrow> files w dst \<noteq> None))"
proof (rule tripleI)
  fix w r w'
  assume I: "runOpen w0 sid st w" and run: "copyFile env src dst w = (r, w')"
  from transitD[OF quiet_copyFile run] I have "runOpen w0 sid st w'" by (rule runOpen_quiet)
  moreover have "\<forall>u. r = Inr u \<longrightarrow> files w' dst \<noteq> None"
    using run by (auto simp: copyFile_def logCall_def split: option.splits)
  ultimately show "runOpen w0 sid st w' \<and> (\<forall>u. r = Inr u \<longrightarrow> files w' dst \<noteq> None)" by simp
qed

lemma addAudio_open:
  "triple (runOpen w0 sid st) (addAudioToVideo env p opts)
     (\<lambda>r w. runOpen w0 sid st w \<and> (\<forall>x. r = Inr x \<longrightarrow> files w (mixOutputPath opts) \<noteq> None))"
proof (rule tripleI)
  fix w r w'
  assume I: "runOpen w0 sid st w" and run: "addAudioToVideo env p opts w = (r, w')"
  from transitD[OF quiet_addAudioToVideo run] I have "runOpen w0 sid st w'" by (rule runOpen_quiet)
  moreover have "\<forall>x. r = Inr x \<longrightarrow> files w' (mixOutputPath opts) \<noteq> None"
    using run
    by (auto simp: addAudioToVideo_def bindOp_def checkVideoHasAudio_def logCall_def Let_def
        split: sum.splits prod.splits)
  ultimately show "runOpen w0 sid st w' \<and> (\<forall>x. r = Inr x \<longrightarrow> files w' (mixOutputPath opts) \<noteq> None)"
    by simp
qed

lemma audio_sources_have_music:
  "withoutVoiceover a \<Longrightarrow> hasAudioSources (artAudioPaths a) \<Longrightarrow>
   truthy (musicPath (the (artAudioPaths a)))"
  by (auto simp: withoutVoiceover_def hasAudioSources_def split: option.splits)

text \<open>Once the final file exists, the rest of the merge cannot fail.\<close>

lemma merge_tail:
  assumes "withoutVoiceover a"
  shows "triple (\<lambda>w. runOpen w0 sid st w \<and> files w final \<noteq> None)
     (bindOp (smUpdateSessionFinalVideo env sid final) (\<lambda>_.
      bindOp (saveSessionArtifacts env sid (a\<lparr>artFinalVideoPath := Some final\<rparr>)) (\<lambda>_.
      smUpdateStageStatus env sid Merge Completed msg None None)))
     (\<lambda>r w. case r of Inr u \<Rightarrow> runMerged w0 sid st final w | Inl (e :: Thrown) \<Rightarrow> runOpen w0 sid st w)"
proof (rule triple_bind[OF finalVideo_finalises])
  fix u :: unit
  show "triple (\<lambda>w. Inr u = (Inr () :: Thrown + unit) \<and> runFinalised w0 sid st final w)
     (bindOp (saveSessionArtifacts env sid (a\<lparr>artFinalVideoPath := Some final\<rparr>)) (\<lambda>_.
      smUpdateStageStatus env sid Merge Completed msg None None))
     (\<lambda>r w. case r of Inr u \<Rightarrow> runMerged w0 sid st final w | Inl e \<Rightarrow> runOpen w0 sid st w)"
  proof (rule triple_bind[where ?Q1.0 = "\<lambda>r w. r = Inr () \<and> runFinalised w0 sid st final w"])
    show "triple (\<lambda>w. Inr u = (Inr () :: Thrown + unit) \<and> runFinalised w0 sid st final w)
       (saveSessionArtifacts env sid (a\<lparr>artFinalVideoPath := Some final\<rparr>))
       (\<lambda>r w. r = Inr () \<and> runFinalised w0 sid st final w)"
    proof (rule tripleI)
      fix w r w'
      assume I: "Inr u = (Inr () :: Thrown + unit) \<and> runFinalised w0 sid st final w"
        and run: "saveSessionArtifacts env sid (a\<lparr>artFinalVideoPath := Some final\<rparr>) w = (r, w')"
      from saveSessionArtifacts_frame[OF run] have "r = Inr ()" by simp
      moreover from tripleD[OF keep_save_finalised _ run] I assms
      have "runFinalised w0 sid st final w'" by simp
      ultimately show "r = Inr () \<and> runFinalised w0 sid st final w'" by simp
    qed
  next
    fix x :: unit
    show "triple (\<lambda>w. Inr x = (Inr () :: Thrown + unit) \<and> runFinalised w0 sid st final w)
       (smUpdateStageStatus env sid Merge Completed msg None None)
       (\<lambda>r w. case r of Inr u \<Rightarrow> runMerged w0 sid st final w | Inl e \<Rightarrow> runOpen w0 sid st w)"
      by (rule triple_weaken[OF stage_merge_completed]) auto
  qed simp
qed simp

lemma merge_outcome:
  "triple (runOpen w0 (sessionId session) st) (mergeVideoContent env session)
     (\<lambda>r w. case r of
        Inr u \<Rightarrow> runMerged w0 (sessionId session) st (finalVideoFile env (sessionId session)) w
      | Inl e \<Rightarrow> runOpen w0 (sessionId session) st w)"
proof -
  let ?sid = "sessionId session"
  let ?final = "finalVideoFile env ?sid"
  let ?merged = "mergedScenesFile env ?sid"
  let ?I = "runOpen w0 ?sid st"
  let ?Q = "\<lambda>(r :: Thrown + unit) w. case r of Inr u \<Rightarrow> runMerged w0 ?sid st ?final w | Inl e \<Rightarrow> ?I w"
  have afterFiles: "\<And>a. withoutVoiceover a \<Longrightarrow> triple ?I
     (bindOp (if hasAudioSources (artAudioPaths a) then
                      (if truthy (musicPath (the (artAudioPaths a))) then
                         bindOp (addAudioToVideo env ?merged
                                   \<lparr>mixVoiceoverPath = None,
                                    mixMusicPath = musicPath (the (artAudioPaths a)),
                                    mixOutputPath = ?final,
                                    mixMusicVolume = Some ''0.5'', mixVoiceVolume = None\<rparr>)
                           (\<lambda>_. returnOp ())
                       else returnOp ())
                    else copyFile env ?merged ?final) (\<lambda>_.
            bindOp (smUpdateSessionFinalVideo env ?sid ?final) (\<lambda>_.
            bindOp (saveSessionArtifacts env ?sid (a\<lparr>artFinalVideoPath := Some ?final\<rparr>))
              (\<lambda>_.
            smUpdateStageStatus env ?sid Merge Completed
              (Some ''Video merging completed successfully'') None None)))) ?Q"
  proof -
    fix a assume a: "withoutVoiceover a"
    let ?step = "if hasAudioSources (artAudioPaths a) then
                      (if truthy (musicPath (the (artAudioPaths a))) then
                         bindOp (addAudioToVideo env ?merged
                                   \<lparr>mixVoiceoverPath = None,
                                    mixMusicPath = musicPath (the (artAudioPaths a)),
                                    mixOutputPath = ?final,
                                    mixMusicVolume = Some ''0.5'', mixVoiceVolume = None\<rparr>)
                           (\<lambda>_. returnOp ())
                       else returnOp ())
                    else copyFile env ?merged ?final"
    have step: "triple ?I ?step (\<lambda>r w. ?I w \<and> (\<forall>u. r = Inr u \<longrightarrow> files w ?final \<noteq> None))"
    proof (cases "hasAudioSources (artAudioPaths a)")
      case False
      with copy_open[of w0 ?sid st env ?merged ?final] show ?thesis by simp
    next
      case True
      with audio_sources_have_music[OF a] have m: "truthy (musicPath (the (artAudioPaths a)))"
        by simp
      have "triple ?I
          (bindOp (addAudioToVideo env ?merged
                                   \<lparr>mixVoiceoverPath = None,
                                    mixMusicPath = musicPath (the (artAudioPaths a)),
                                    mixOutputPath = ?final,
                                    mixMusicVolume = Some ''0.5'', mixVoiceVolume = None\<rparr>)
                           (\<lambda>_. returnOp ()))
          (\<lambda>r w. ?I w \<and> (\<forall>u. r = Inr u \<longrightarrow> files w ?final \<noteq> None))"
        by (rule triple_bind[OF addAudio_open]) (auto intro: triple_return)
      with True m show ?thesis by simp
    qed
    show "triple ?I (bindOp ?step (\<lambda>_.
            bindOp (smUpdateSessionFinalVideo env ?sid ?final) (\<lambda>_.
            bindOp (saveSessionArtifacts env ?sid (a\<lparr>artFinalVideoPath := Some ?final\<rparr>))
              (\<lambda>_.
            smUpdateStageStatus env ?sid Merge Completed
              (Some ''Video merging completed successfully'') None None)))) ?Q"
    proof (rule triple_bind[OF step])
      fix u :: unit
      show "triple (\<lambda>w. ?I w \<and> (\<forall>u'. Inr u = (Inr u' :: Thrown + unit) \<longrightarrow> files w ?final \<noteq> None))
         (bindOp (smUpdateSessionFinalVideo env ?sid ?final) (\<lambda>_.
            bindOp (saveSessionArtifacts env ?sid (a\<lparr>artFinalVideoPath := Some ?final\<rparr>))
              (\<lambda>_.
            smUpdateStageStatus env ?sid Merge Completed
              (Some ''Video merging completed successfully'') None None))) ?Q"
        by (rule triple_weaken[OF merge_tail[OF a]]) auto
    qed simp
  qed
  have body: "triple ?I
     (bindOp (readJson (artifactsPath env ?sid)) (\<lambda>artifacts.
          if artVideoPaths artifacts = None \<or> artVideoPaths artifacts = Some [] then
            throwOp (newError ''No video paths found for merging'')
          else
            bindOp (concatenateVideos env (the (artVideoPaths artifacts)) ?merged) (\<lambda>_.
            bindOp (if hasAudioSources (artAudioPaths artifacts) then
                      (if truthy (musicPath (the (artAudioPaths artifacts))) then
                         bindOp (addAudioToVideo env ?merged
                                   \<lparr>mixVoiceoverPath = None,
                                    mixMusicPath = musicPath (the (artAudioPaths artifacts)),
                                    mixOutputPath = ?final,
                                    mixMusicVolume = Some ''0.5'', mixVoiceVolume = None\<rparr>)
                           (\<lambda>_. returnOp ())
                       else returnOp ())
                    else copyFile env ?merged ?final) (\<lambda>_.
            bindOp (smUpdateSessionFinalVideo env ?sid ?final) (\<lambda>_.
            bindOp (saveSessionArtifacts env ?sid (artifacts\<lparr>artFinalVideoPath := Some ?final\<rparr>))
              (\<lambda>_.
            smUpdateStageStatus env ?sid Merge Completed
              (Some ''Video merging completed successfully'') None None)))))) ?Q"
  proof (rule triple_bind[OF readJson_open])
    fix a
    show "triple (\<lambda>w. ?I w \<and> (\<forall>a'. Inr a = (Inr a' :: Thrown + Artifacts) \<longrightarrow> withoutVoiceover a'))
       (if artVideoPaths a = None \<or> artVideoPaths a = Some [] then
            throwOp (newError ''No video paths found for merging'')
          else
            bindOp (concatenateVideos env (the (artVideoPaths a)) ?merged) (\<lambda>_.
            bindOp (if hasAudioSources (artAudioPaths a) then
                      (if truthy (musicPath (the (artAudioPaths a))) then
                         bindOp (addAudioToVideo env ?merged
                                   \<lparr>mixVoiceoverPath = None,
                                    mixMusicPath = musicPath (the (artAudioPaths a)),
                                    mixOutputPath = ?final,
                                    mixMusicVolume = Some ''0.5'', mixVoiceVolume = None\<rparr>)
                           (\<lambda>_. returnOp ())
                       else returnOp ())
                    else copyFile env ?merged ?final) (\<lambda>_.
            bindOp (smUpdateSessionFinalVideo env ?sid ?final) (\<lambda>_.
            bindOp (saveSessionArtifacts env ?sid (a\<lparr>artFinalVideoPath := Some ?final\<rparr>))
              (\<lambda>_.
            smUpdateStageStatus env ?sid Merge Completed
              (Some ''Video merging completed successfully'') None None))))) ?Q"
    proof (simp only: sum.inject simp_thms, rule triple_pure)
      assume a: "withoutVoiceover a"
      show "triple ?I
       (if artVideoPaths a = None \<or> artVideoPaths a = Some [] then
            throwOp (newError ''No video paths found for merging'')
          else
            bindOp (concatenateVideos env (the (artVideoPaths a)) ?merged) (\<lambda>_.
            bindOp (if hasAudioSources (artAudioPaths a) then
                      (if truthy (musicPath (the (artAudioPaths a))) then
                         bindOp (addAudioToVideo env ?merged
                                   \<lparr>mixVoiceoverPath = None,
                                    mixMusicPath = musicPath (the (artAudioPaths a)),
                                    mixOutputPath = ?final,
                                    mixMusicVolume = Some ''0.5'', mixVoiceVolume = None\<rparr>)
                           (\<lambda>_. returnOp ())
                       else returnOp ())
                    else copyFile env ?merged ?final) (\<lambda>_.
            bindOp (smUpdateSessionFinalVideo env ?sid ?final) (\<lambda>_.
            bindOp (saveSessionArtifacts env ?sid (a\<lparr>artFinalVideoPath := Some ?final\<rparr>))
              (\<lambda>_.
            smUpdateStageStatus env ?sid Merge Completed
              (Some ''Video merging completed successfully'') None None))))) ?Q"
      proof (cases "artVideoPaths a = None \<or> artVideoPaths a = Some []")
        case True
        then show ?thesis by (auto intro: triple_throw)
      next
        case False
        have "triple ?I
          (bindOp (concatenateVideos env (the (artVideoPaths a)) ?merged) (\<lambda>_.
            bindOp (if hasAudioSources (artAudioPaths a) then
                      (if truthy (musicPath (the (artAudioPaths a))) then
                         bindOp (addAudioToVideo env ?merged
                                   \<lparr>mixVoiceoverPath = None,
                                    mixMusicPath = musicPath (the (artAudioPaths a)),
                                    mixOutputPath = ?final,
                                    mixMusicVolume = Some ''0.5'', mixVoiceVolume = None\<rparr>)
                           (\<lambda>_. returnOp ())
                       else returnOp ())
                    else copyFile env ?merged ?final) (\<lambda>_.
            bindOp (smUpdateSessionFinalVideo env ?sid ?final) (\<lambda>_.
            bindOp (saveSessionArtifacts env ?sid (a\<lparr>artFinalVideoPath := Some ?final\<rparr>))
              (\<lambda>_.
            smUpdateStageStatus env ?sid Merge Completed
              (Some ''Video merging completed successfully'') None None))))) ?Q"
          by (rule triple_bind[OF keep_open_quiet[OF quiet_concatenateVideos]],
              rule afterFiles[OF a], simp)
        then show ?thesis by (simp only: False if_False)
      qed
    qed
  qed simp
  show ?thesis
    unfolding mergeVideoContent_def
  proof (rule triple_bind[OF keep_stage_merge])
    show "Processing \<noteq> Completed" by simp
  next
    fix u :: unit
    show "triple ?I
       (catchOp
         (bindOp (readJson (artifactsPath env ?sid)) (\<lambda>artifacts.
          if artVideoPaths artifacts = None \<or> artVideoPaths artifacts = Some [] then
            throwOp (newError ''No video paths found for merging'')
          else
            bindOp (concatenateVideos env (the (artVideoPaths artifacts)) ?merged) (\<lambda>_.
            bindOp (if hasAudioSources (artAudioPaths artifacts) then
                      (if truthy (musicPath (the (artAudioPaths artifacts))) then
                         bindOp (addAudioToVideo env ?merged
                                   \<lparr>mixVoiceoverPath = None,
                                    mixMusicPath = musicPath (the (artAudioPaths artifacts)),
                                    mixOutputPath = ?final,
                                    mixMusicVolume = Some ''0.5'', mixVoiceVolume = None\<rparr>)
                           (\<lambda>_. returnOp ())
                       else returnOp ())
                    else copyFile env ?merged ?final) (\<lambda>_.
            bindOp (smUpdateSessionFinalVideo env ?sid ?final) (\<lambda>_.
            bindOp (saveSessionArtifacts env ?sid (artifacts\<lparr>artFinalVideoPath := Some ?final\<rparr>))
              (\<lambda>_.
            smUpdateStageStatus env ?sid Merge Completed
              (Some ''Video merging completed successfully'') None None))))))
         (\<lambda>e. bindOp (smUpdateStageStatus env ?sid Merge Error
                         (Some ''Failed to merge video content'') None (thrownMessage e))
                  (\<lambda>_. throwOp e))) ?Q"
    proof (rule triple_catch[OF body])
      fix e :: Thrown
      have "triple ?I (bindOp (smUpdateStageStatus env ?sid Merge Error
                         (Some ''Failed to merge video content'') None (thrownMessage e))
                  (\<lambda>_. throwOp e)) ?Q"
        by (rule triple_bind[OF keep_stage_merge]) (auto intro: triple_throw)
      then show "triple (?Q (Inl e)) (bindOp (smUpdateStageStatus env ?sid Merge Error
                         (Some ''Failed to merge video content'') None (thrownMessage e))
                  (\<lambda>_. throwOp e)) ?Q" by simp
    qed simp
  qed simp
qed


subsection \<open>The pipeline under the stage executor\<close>

text \<open>A stage under the stage executor: an invariant that every failed attempt keeps
  holds when the executor gives up, and what a successful attempt establishes holds
  when it returns.\<close>

lemma executeWithRetryLoop_triple:
  assumes step: "triple I operation (\<lambda>r s. case r of Inr x \<Rightarrow> C x s | Inl e \<Rightarrow> I s)"
  shows "executeWithRetryLoop operation stg sid maxRetries attempt lastError n ds s = (out, s')
     \<Longrightarrow> I s \<Longrightarrow> (case outcome out of Inr x \<Rightarrow> C x s' | Inl e \<Rightarrow> I s')"
  using assms
proof (induction operation stg sid maxRetries attempt lastError n ds s arbitrary: out s'
    rule: executeWithRetryLoop.induct)
  case (1 operation stg sid maxRetries attempt lastError n ds s)
  note run = "1.prems"(1) and I = "1.prems"(2) and step = "1.prems"(3)
  show ?case
  proof (cases "int attempt \<le> maxRetries")
    case False
    with run I show ?thesis by (auto simp: executeWithRetryLoop_exhausted)
  next
    case True
    obtain r1 s1 where op: "operation s = (r1, s1)" by (cases "operation s")
    from tripleD[OF step I op] have post: "case r1 of Inr x \<Rightarrow> C x s1 | Inl e \<Rightarrow> I s1" .
    show ?thesis
    proof (cases r1)
      case (Inr x)
      with run True op post show ?thesis by (auto simp: executeWithRetryLoop_success)
    next
      case (Inl e)
      let ?a = "toAppError e (stageErrorContext sid stg attempt)"
      show ?thesis
      proof (cases "shouldRetry ?a (int attempt) maxRetries")
        case False
        with run True op Inl post show ?thesis by (auto simp: executeWithRetryLoop_stop)
      next
        case again: True
        with run True op Inl have rec: "executeWithRetryLoop operation stg sid maxRetries (attempt + 1)
            (Some ?a) (n + 1) (ds @ [getRetryDelay attempt 1000]) s1 = (out, s')"
          by (simp add: executeWithRetryLoop_again)
        from post Inl have I1: "I s1" by simp
        show ?thesis
          using "1.IH"[OF True op[symmetric] Inl refl _ rec I1 step] again by simp
      qed
    qed
  qed
qed

lemma runStage_triple:
  assumes "triple I operation (\<lambda>r s. case r of Inr x \<Rightarrow> C x s | Inl e \<Rightarrow> I s)"
  shows "triple I (runStage operation stg sid)
           (\<lambda>r s. case r of Inr x \<Rightarrow> C x s | Inl e \<Rightarrow> I s)"
proof (rule tripleI)
  fix s r s'
  assume I: "I s" and run: "runStage operation stg sid s = (r, s')"
  obtain out where loop: "executeWithRetryLoop operation stg sid 3 1 None 0 [] s = (out, s')"
    and r: "r = (case outcome out of Inr v \<Rightarrow> Inr v | Inl e \<Rightarrow> Inl (map_option AppErr e))"
    using run by (auto simp: runStage_def executeWithRetry_def split: prod.splits sum.splits)
  from executeWithRetryLoop_triple[OF assms loop I] r
  show "case r of Inr x \<Rightarrow> C x s' | Inl e \<Rightarrow> I s'" by (auto split: sum.splits)
qed

lemma runStage_keeps:
  assumes "triple I operation (\<lambda>r. I)"
  shows "triple I (runStage operation stg sid) (\<lambda>r. I)"
proof -
  have "triple I operation (\<lambda>r s. case r of Inr x \<Rightarrow> I s | Inl e \<Rightarrow> I s)"
    by (rule triple_weaken[OF assms]) (auto split: sum.splits)
  from runStage_triple[where C = "\<lambda>x. I", OF this] show ?thesis
    by (rule triple_weaken) (auto split: sum.splits)
qed

lemma pipeline_outcome:
  "triple (runOpen w0 (sessionId session) st) (executeGenerationPipeline env session)
     (\<lambda>r w. case r of
        Inr u \<Rightarrow> runMerged w0 (sessionId session) st (finalVideoFile env (sessionId session)) w
      | Inl e \<Rightarrow> runOpen w0 (sessionId session) st w)"
proof -
  let ?I = "runOpen w0 (sessionId session) st"
  let ?Q = "\<lambda>(r :: Thrown option + unit) w. case r of
        Inr u \<Rightarrow> runMerged w0 (sessionId session) st (finalVideoFile env (sessionId session)) w
      | Inl e \<Rightarrow> ?I w"
  have audio: "triple ?I (if includeVoiceover (request session) \<or> includeMusic (request session)
             then runStage (generateAudio env session) ''audio'' (sessionId session)
             else returnOp ()) (\<lambda>r. ?I)"
    by (auto intro: runStage_keeps keep_generateAudio keep_return)
  have merge: "triple ?I (runStage (mergeVideoContent env session) ''merge'' (sessionId session)) ?Q"
    by (rule runStage_triple[OF merge_outcome])
  show ?thesis
    unfolding executeGenerationPipeline_def
    by (rule triple_bind[OF runStage_keeps[OF keep_generatePrompts]],
        rule triple_bind[OF runStage_keeps[OF keep_generateImages]],
        rule triple_bind[OF runStage_keeps[OF keep_generateVideos]],
        rule triple_bind[OF audio], rule merge) simp_all
qed

lemma quiet_ensureAll: "transit quietStep (ensureAll env ds)"
  by (induction ds) (auto intro!: quiet_return quiet_bind quiet_ensureDir)

lemma quiet_ensureSessionDirectories: "transit quietStep (ensureSessionDirectories env sid)"
  unfolding ensureSessionDirectories_def by (rule quiet_ensureAll)

lemma keep_liftThrown:
  "triple I m (\<lambda>r. I) \<Longrightarrow> triple I (liftThrown m) (\<lambda>r. I)"
  unfolding triple_def liftThrown_def by (fastforce split: prod.splits sum.splits)

text \<open>The \<open>try\<close> block of \<open>generateVideo\<close> on a pending session: it returns with
  the merge completed and the session completed, or throws with the merge not completed
  and the session pending or processing.\<close>

lemma generationAttempt_outcome:
  "triple (runOpen w0 (sessionId session) SessionPending) (generationAttempt env session)
     (\<lambda>r w. case r of
        Inr u \<Rightarrow> runMerged w0 (sessionId session) SessionCompleted
                   (finalVideoFile env (sessionId session)) w
      | Inl e \<Rightarrow> runOpen w0 (sessionId session) SessionPending w
                 \<or> runOpen w0 (sessionId session) SessionProcessing w)"
proof -
  let ?sid = "sessionId session"
  let ?final = "finalVideoFile env ?sid"
  let ?Q = "\<lambda>(r :: Thrown option + unit) w. case r of
        Inr u \<Rightarrow> runMerged w0 ?sid SessionCompleted ?final w
      | Inl e \<Rightarrow> runOpen w0 ?sid SessionPending w \<or> runOpen w0 ?sid SessionProcessing w"
  have dirs: "triple (runOpen w0 ?sid SessionPending)
      (liftThrown (ensureSessionDirectories env ?sid)) (\<lambda>r. runOpen w0 ?sid SessionPending)"
    by (intro keep_liftThrown keep_open_quiet quiet_ensureSessionDirectories)
  have last: "triple (runMerged w0 ?sid SessionProcessing ?final)
      (smUpdateSessionStatus env ?sid SessionCompleted None None) ?Q"
    by (rule triple_weaken[OF sessionStatus_runMerged]) auto
  have pipe: "triple (runOpen w0 ?sid SessionProcessing)
      (bindOp (executeGenerationPipeline env session) (\<lambda>_.
         smUpdateSessionStatus env ?sid SessionCompleted None None)) ?Q"
    by (rule triple_bind[OF pipeline_outcome]) (auto intro: last)
  have proc: "triple (runOpen w0 ?sid SessionPending)
      (bindOp (smUpdateSessionStatus env ?sid SessionProcessing None None) (\<lambda>_.
       bindOp (executeGenerationPipeline env session) (\<lambda>_.
         smUpdateSessionStatus env ?sid SessionCompleted None None))) ?Q"
    by (rule triple_bind[OF sessionStatus_runOpen])
       (auto intro: triple_weaken[OF pipe])
  show ?thesis
    unfolding generationAttempt_def
    by (rule triple_bind[OF dirs]) (auto intro: proc)
qed


subsection \<open>Creating the session, failing it, and the store invariant\<close>

lemma smCreateSession_facts:
  assumes "smCreateSession env req imagePath w = (session, w1)"
  shows "sessionId session = uuidEnv env (calls w)"
    and "sessions w1 = (sessions w)(sessionId session \<mapsto> session)"
    and "files w1 = files w" and "jsonFiles w1 = jsonFiles w"
    and "sessionStatus session = SessionPending" and "finalVideoPath session = None"
    and "mergeStatus w1 (sessionId session) = Some Pending"
  using assms
  by (auto simp: smCreateSession_def createSession_def Let_def logCall_def mergeStatus_def
      stageOf_def pendingStage_def)

lemma smCreateSession_open:
  assumes "smCreateSession env req imagePath w = (session, w1)" and "noVoiceoverArtifacts w"
  shows "runOpen w1 (sessionId session) SessionPending w1"
  using smCreateSession_facts[OF assms(1)] assms(2)
  by (auto simp: runOpen_def noVoiceoverArtifacts_def)

text \<open>Three attempts never end in \<open>throw null\<close>.\<close>

lemma executeWithRetryLoop_not_null:
  "executeWithRetryLoop operation stg sid maxRetries attempt lastError n ds s = (out, s') \<Longrightarrow>
   int attempt \<le> maxRetries \<or> lastError \<noteq> None \<Longrightarrow> outcome out \<noteq> Inl None"
proof (induction operation stg sid maxRetries attempt lastError n ds s arbitrary: out s'
    rule: executeWithRetryLoop.induct)
  case (1 operation stg sid maxRetries attempt lastError n ds s)
  note run = "1.prems"(1) and h = "1.prems"(2)
  show ?case
  proof (cases "int attempt \<le> maxRetries")
    case False
    with run h show ?thesis by (auto simp: executeWithRetryLoop_exhausted)
  next
    case True
    obtain r1 s1 where op: "operation s = (r1, s1)" by (cases "operation s")
    show ?thesis
    proof (cases r1)
      case (Inr x)
      with run True op show ?thesis by (auto simp: executeWithRetryLoop_success)
    next
      case (Inl e)
      let ?a = "toAppError e (stageErrorContext sid stg attempt)"
      show ?thesis
      proof (cases "shouldRetry ?a (int attempt) maxRetries")
        case False
        with run True op Inl show ?thesis by (auto simp: executeWithRetryLoop_stop)
      next
        case again: True
        with run True op Inl have rec: "executeWithRetryLoop operation stg sid maxRetries (attempt + 1)
            (Some ?a) (n + 1) (ds @ [getRetryDelay attempt 1000]) s1 = (out, s')"
          by (simp add: executeWithRetryLoop_again)
        show ?thesis
          using "1.IH"[OF True op[symmetric] Inl refl _ rec] again by simp
      qed
    qed
  qed
qed

lemma runStage_not_null: "runStage operation stg sid s = (r, s') \<Longrightarrow> r \<noteq> Inl None"
proof -
  assume run: "runStage operation stg sid s = (r, s')"
  then obtain out where loop: "executeWithRetryLoop operation stg sid 3 1 None 0 [] s = (out, s')"
    and r: "r = (case outcome out of Inr v \<Rightarrow> Inr v | Inl e \<Rightarrow> Inl (map_option AppErr e))"
    by (auto simp: runStage_def executeWithRetry_def split: prod.splits sum.splits)
  from executeWithRetryLoop_not_null[OF loop] have "outcome out \<noteq> Inl None" by simp
  with r show ?thesis by (auto split: sum.splits)
qed

lemma generationAttempt_not_null:
  assumes "generationAttempt env session w = (r, w')"
  shows "r \<noteq> Inl None"
proof -
  let ?N = "\<lambda>(r :: Thrown option + unit) (w :: World). r \<noteq> Inl None"
  have stage: "\<And>operation stg sid. triple (\<lambda>w. True) (runStage operation stg sid :: (World, Thrown option, unit) operation) ?N"
    by (rule tripleI) (auto dest: runStage_not_null)
  have upd: "\<And>sid st. triple (\<lambda>w. True) (smUpdateSessionStatus env sid st None None) ?N"
    by (rule tripleI) (auto dest: smUpdateSessionStatus_frame)
  have pipe: "triple (\<lambda>w. True) (executeGenerationPipeline env session) ?N"
    unfolding executeGenerationPipeline_def
    by (intro triple_bind[where ?Q1.0 = ?N] stage)
       (auto intro: stage triple_return triple_weaken[OF stage])
  have dirs: "triple (\<lambda>w. True) (liftThrown (ensureSessionDirectories env (sessionId session))) ?N"
    by (rule tripleI) (auto simp: liftThrown_def split: prod.splits sum.splits)
  have "triple (\<lambda>w. True) (generationAttempt env session) ?N"
    unfolding generationAttempt_def
    by (intro triple_bind[where ?Q1.0 = ?N] dirs)
       (auto intro: triple_weaken[OF upd] triple_weaken[OF pipe]
          intro!: triple_bind[where ?Q1.0 = ?N])
  from tripleD[OF this _ assms] show ?thesis by simp
qed

lemma completedProperly_other:
  assumes "completedProperly w k" and "sessions w' k = sessions w k"
    and "dom (files w) \<subseteq> dom (files w')"
  shows "completedProperly w' k"
  using assms
  by (auto simp: completedProperly_def mergeStatus_def stageOf_def split: option.splits)

lemma completedProperly_fresh:
  assumes "sessions w k = None \<or> (\<exists>s. sessions w k = Some s \<and> sessionStatus s \<noteq> SessionCompleted)"
  shows "completedProperly w k"
  using assms by (auto simp: completedProperly_def)

lemma completedProperly_open:
  assumes all: "\<forall>k. completedProperly w k"
    and oth: "\<forall>k. k \<noteq> sid \<longrightarrow> sessions w1 k = sessions w k"
    and dom: "dom (files w) \<subseteq> dom (files w1)"
    and op: "runOpen w1 sid st w2" and st: "st \<noteq> SessionCompleted"
  shows "\<forall>k. completedProperly w2 k"
proof
  fix k
  show "completedProperly w2 k"
  proof (cases "k = sid")
    case True
    with op st show ?thesis by (auto simp: runOpen_def completedProperly_def)
  next
    case False
    with op oth have s: "sessions w2 k = sessions w k" by (simp add: runOpen_def)
    from op have "dom (files w1) \<subseteq> dom (files w2)" by (simp add: runOpen_def)
    with dom have "dom (files w) \<subseteq> dom (files w2)" by (rule subset_trans)
    with all s show ?thesis by (auto intro: completedProperly_other)
  qed
qed

lemma completedProperly_merged:
  assumes all: "\<forall>k. completedProperly w k"
    and oth: "\<forall>k. k \<noteq> sid \<longrightarrow> sessions w1 k = sessions w k"
    and dom: "dom (files w) \<subseteq> dom (files w1)"
    and m: "runMerged w1 sid st final w2"
  shows "\<forall>k. completedProperly w2 k"
proof
  fix k
  show "completedProperly w2 k"
  proof (cases "k = sid")
    case True
    with m show ?thesis by (auto simp: runMerged_def completedProperly_def)
  next
    case False
    with m oth have s: "sessions w2 k = sessions w k" by (simp add: runMerged_def)
    from m have "dom (files w1) \<subseteq> dom (files w2)" by (simp add: runMerged_def)
    with dom have "dom (files w) \<subseteq> dom (files w2)" by (rule subset_trans)
    with all s show ?thesis by (auto intro: completedProperly_other)
  qed
qed

text \<open>Marking the session failed after a failed attempt.\<close>

lemma mark_failed:
  assumes "runOpen w1 sid st w2"
  shows "runOpen w1 sid SessionFailed
           (snd (smUpdateSessionStatus env sid SessionFailed err details w2 :: (Thrown + unit) \<times> World))"
proof -
  obtain r w3 where u: "smUpdateSessionStatus env sid SessionFailed err details w2
      = (r :: Thrown + unit, w3)"
    by (cases "smUpdateSessionStatus env sid SessionFailed err details w2 :: (Thrown + unit) \<times> World")
  from tripleD[OF sessionStatus_runOpen assms u] u show ?thesis by simp
qed

lemma generateVideo_invariant:
  "noVoiceoverArtifacts w \<Longrightarrow> \<forall>k. completedProperly w k \<Longrightarrow>
   generateVideo n env req imagePath w = (res, w') \<Longrightarrow>
   (\<forall>k. completedProperly w' k) \<and> noVoiceoverArtifacts w'"
proof (induction n arbitrary: w res w')
  case 0
  then show ?case by simp
next
  case (Suc n)
  obtain session w1 where create: "smCreateSession env req imagePath w = (session, w1)"
    by (cases "smCreateSession env req imagePath w")
  obtain r w2 where attempt: "generationAttempt env session w1 = (r, w2)"
    by (cases "generationAttempt env session w1")
  let ?sid = "sessionId session"
  note facts = smCreateSession_facts[OF create]
  have oth: "\<forall>k. k \<noteq> ?sid \<longrightarrow> sessions w1 k = sessions w k" using facts(2) by simp
  have dom: "dom (files w) \<subseteq> dom (files w1)" using facts(3) by simp
  from tripleD[OF generationAttempt_outcome smCreateSession_open[OF create Suc.prems(1)] attempt]
  have post: "case r of
        Inr u \<Rightarrow> runMerged w1 ?sid SessionCompleted (finalVideoFile env ?sid) w2
      | Inl e \<Rightarrow> runOpen w1 ?sid SessionPending w2 \<or> runOpen w1 ?sid SessionProcessing w2" .
  show ?case
  proof (cases r)
    case (Inr u)
    with Suc.prems(3) create attempt have "w' = w2" by simp
    moreover from post Inr have m: "runMerged w1 ?sid SessionCompleted (finalVideoFile env ?sid) w2"
      by simp
    ultimately show ?thesis
      using completedProperly_merged[OF Suc.prems(2) oth dom m] m by (simp add: runMerged_def)
  next
    case (Inl e)
    with post obtain st where op: "runOpen w1 ?sid st w2" and st: "st \<noteq> SessionCompleted"
      by auto
    show ?thesis
    proof (cases e)
      case None
      with Inl Suc.prems(3) create attempt have "w' = w2" by simp
      with completedProperly_open[OF Suc.prems(2) oth dom op st] op show ?thesis
        by (simp add: runOpen_def)
    next
      case (Some t)
      let ?a = "toAppError t (generationContext ?sid)"
      let ?w3 = "snd (smUpdateSessionStatus env ?sid SessionFailed
                    (Some (summaryMessage (createErrorSummary ?a))) (Some (createErrorSummary ?a)) w2
                  :: (Thrown + unit) \<times> World)"
      have op3: "runOpen w1 ?sid SessionFailed ?w3" by (rule mark_failed[OF op])
      have all3: "\<forall>k. completedProperly ?w3 k"
        by (rule completedProperly_open[OF Suc.prems(2) oth dom op3]) simp
      have j3: "noVoiceoverArtifacts ?w3" using op3 by (simp add: runOpen_def)
      from Suc.prems(3) create attempt Inl Some
      have res: "(if attemptRecovery ?a then generateVideo n env req imagePath ?w3
                  else (Some (Inl (AppErr ?a)), ?w3)) = (res, w')"
        by (simp add: Let_def)
      show ?thesis
      proof (cases "attemptRecovery ?a")
        case True
        with res have "generateVideo n env req imagePath ?w3 = (res, w')" by simp
        from Suc.IH[OF j3 all3 this] show ?thesis .
      next
        case False
        with res have "w' = ?w3" by simp
        with all3 j3 show ?thesis by simp
      qed
    qed
  qed
qed


subsection \<open>Completion of a session and the final video\<close>

text \<open>
  One run of \<open>generateVideo\<close> creates a session and attempts the pipeline on it.
  Started from a world whose stored artifacts documents have no \<open>voiceoverPaths\<close>
  property, the attempt has exactly two outcomes.
  If it returns, the session is \<open>completed\<close>, its merge stage is \<open>completed\<close>, its final
  video path is the run's \<open>final_video.mp4\<close> and that file exists.
  Otherwise an error was thrown (never \<open>null\<close>): the session is still \<open>pending\<close> or
  \<open>processing\<close>, its merge stage is not \<open>completed\<close>; the \<open>catch\<close> block then marks the
  session \<open>failed\<close>, with no final video path, before it either starts a fresh session
  (recovery) or rethrows.
  Hence a store in which every completed session has a completed merge stage and an
  existing final video stays so through \<open>generateVideo\<close>, however often it restarts.
\<close>

lemma attempt_outcome_without_voiceover:
  assumes clean: "noVoiceoverArtifacts w"
    and create: "smCreateSession env req imagePath w = (session, w1)"
    and attempt: "generationAttempt env session w1 = (r, w2)"
  shows "(case r of
            Inr u \<Rightarrow>
              map_option sessionStatus (sessions w2 (sessionId session)) = Some SessionCompleted
              \<and> mergeStatus w2 (sessionId session) = Some Completed
              \<and> map_option finalVideoPath (sessions w2 (sessionId session))
                   = Some (Some (finalVideoFile env (sessionId session)))
              \<and> files w2 (finalVideoFile env (sessionId session)) \<noteq> None
              \<and> generateVideo (Suc fuel) env req imagePath w
                   = (Some (Inr (sessionId session)), w2)
          | Inl e \<Rightarrow>
              (\<exists>t appError w3.
                  e = Some t
                \<and> appError = toAppError t (generationContext (sessionId session))
                \<and> w3 = snd (smUpdateSessionStatus env (sessionId session) SessionFailed
                              (Some (summaryMessage (createErrorSummary appError)))
                              (Some (createErrorSummary appError)) w2 :: (Thrown + unit) \<times> World)
                \<and> map_option sessionStatus (sessions w2 (sessionId session))
                      \<in> {Some SessionPending, Some SessionProcessing}
                \<and> mergeStatus w2 (sessionId session) \<noteq> Some Completed
                \<and> map_option sessionStatus (sessions w3 (sessionId session)) = Some SessionFailed
                \<and> map_option finalVideoPath (sessions w3 (sessionId session)) = Some None
                \<and> mergeStatus w3 (sessionId session) \<noteq> Some Completed
                \<and> generateVideo (Suc fuel) env req imagePath w
                     = (if attemptRecovery appError then generateVideo fuel env req imagePath w3
                        else (Some (Inl (AppErr appError)), w3))))
         \<and> ((\<forall>k. completedProperly w k)
              \<longrightarrow> (\<forall>n k. completedProperly (snd (generateVideo n env req imagePath w)) k))"
proof (intro conjI impI allI)
  let ?sid = "sessionId session"
  from tripleD[OF generationAttempt_outcome smCreateSession_open[OF create clean] attempt]
  have post: "case r of
        Inr u \<Rightarrow> runMerged w1 ?sid SessionCompleted (finalVideoFile env ?sid) w2
      | Inl e \<Rightarrow> runOpen w1 ?sid SessionPending w2 \<or> runOpen w1 ?sid SessionProcessing w2" .
  show "case r of
            Inr u \<Rightarrow>
              map_option sessionStatus (sessions w2 (sessionId session)) = Some SessionCompleted
              \<and> mergeStatus w2 (sessionId session) = Some Completed
              \<and> map_option finalVideoPath (sessions w2 (sessionId session))
                   = Some (Some (finalVideoFile env (sessionId session)))
              \<and> files w2 (finalVideoFile env (sessionId session)) \<noteq> None
              \<and> generateVideo (Suc fuel) env req imagePath w
                   = (Some (Inr (sessionId session)), w2)
          | Inl e \<Rightarrow>
              (\<exists>t appError w3.
                  e = Some t
                \<and> appError = toAppError t (generationContext (sessionId session))
                \<and> w3 = snd (smUpdateSessionStatus env (sessionId session) SessionFailed
                              (Some (summaryMessage (createErrorSummary appError)))
                              (Some (createErrorSummary appError)) w2 :: (Thrown + unit) \<times> World)
                \<and> map_option sessionStatus (sessions w2 (sessionId session))
                      \<in> {Some SessionPending, Some SessionProcessing}
                \<and> mergeStatus w2 (sessionId session) \<noteq> Some Completed
                \<and> map_option sessionStatus (sessions w3 (sessionId session)) = Some SessionFailed
                \<and> map_option finalVideoPath (sessions w3 (sessionId session)) = Some None
                \<and> mergeStatus w3 (sessionId session) \<noteq> Some Completed
                \<and> generateVideo (Suc fuel) env req imagePath w
                     = (if attemptRecovery appError then generateVideo fuel env req imagePath w3
                        else (Some (Inl (AppErr appError)), w3)))"
  proof (cases r)
    case (Inr u)
    with post have m: "runMerged w1 ?sid SessionCompleted (finalVideoFile env ?sid) w2" by simp
    have "generateVideo (Suc fuel) env req imagePath w = (Some (Inr ?sid), w2)"
      using create attempt Inr by simp
    with m Inr show ?thesis by (auto simp: runMerged_def)
  next
    case (Inl e)
    with generationAttempt_not_null[OF attempt] obtain t where e: "e = Some t" by (cases e) auto
    from post Inl obtain st where op: "runOpen w1 ?sid st w2"
      and st: "st = SessionPending \<or> st = SessionProcessing" by auto
    let ?a = "toAppError t (generationContext ?sid)"
    let ?w3 = "snd (smUpdateSessionStatus env ?sid SessionFailed
                    (Some (summaryMessage (createErrorSummary ?a))) (Some (createErrorSummary ?a)) w2
                  :: (Thrown + unit) \<times> World)"
    have op3: "runOpen w1 ?sid SessionFailed ?w3" by (rule mark_failed[OF op])
    have gen: "generateVideo (Suc fuel) env req imagePath w
        = (if attemptRecovery ?a then generateVideo fuel env req imagePath ?w3
           else (Some (Inl (AppErr ?a)), ?w3))"
      using create attempt Inl e by (simp add: Let_def)
    have a2: "map_option sessionStatus (sessions w2 ?sid) \<in> {Some SessionPending, Some SessionProcessing}"
      using op st by (auto simp: runOpen_def)
    have b2: "mergeStatus w2 ?sid \<noteq> Some Completed" using op by (auto simp: runOpen_def)
    have a3: "map_option sessionStatus (sessions ?w3 ?sid) = Some SessionFailed"
      using op3 by (auto simp: runOpen_def)
    have c3: "map_option finalVideoPath (sessions ?w3 ?sid) = Some None"
      using op3 by (auto simp: runOpen_def)
    have b3: "mergeStatus ?w3 ?sid \<noteq> Some Completed" using op3 by (auto simp: runOpen_def)
    from e a2 b2 a3 c3 b3 gen Inl show ?thesis by simp
  qed
next
  fix n k
  assume all: "\<forall>k. completedProperly w k"
  obtain res w' where g: "generateVideo n env req imagePath w = (res, w')"
    by (cases "generateVideo n env req imagePath w")
  from generateVideo_invariant[OF clean all g] g
  show "completedProperly (snd (generateVideo n env req imagePath w)) k" by simp
qed



subsection \<open>A rejected reply of the prompt generator\<close>

lemma validatePrompts_rejects_scenes:
  assumes scenes: "parsedScenePrompts p = Some scenes"
    and bad: "int (length scenes) \<noteq> n
       \<or> (\<exists>sc\<in>set scenes. \<not> truthy (parsedImagePrompt sc) \<or> \<not> truthy (parsedVideoPrompt sc))"
  shows "\<exists>m. validatePrompts n voice music p = Inl (newError m)"
proof (cases "int (length scenes) \<noteq> n")
  case True
  with scenes have "validatePrompts n voice music p
      = Inl (newError (''Expected '' @ showInt n @ '' scenes, got '' @ showNat (length scenes)))"
    by (simp add: validatePrompts_def)
  then show ?thesis by (rule exI)
next
  case False
  with bad obtain sc where "sc \<in> set scenes" "invalidScene sc" by (auto simp: invalidScene_def)
  then have "find invalidScene scenes \<noteq> None" by (auto simp: find_None_iff)
  then obtain sc' where "find invalidScene scenes = Some sc'" by auto
  with scenes False have "validatePrompts n voice music p
      = Inl (newError (''Invalid scene prompt structure for scene '' @ showSceneNumber sc'))"
    by (simp add: validatePrompts_def)
  then show ?thesis by (rule exI)
qed

lemma validatePrompts_rejects:
  assumes bad: "case parsedScenePrompts p of
        None \<Rightarrow> True
      | Some scenes \<Rightarrow>
          int (length scenes) \<noteq> n
          \<or> (\<exists>sc\<in>set scenes. \<not> truthy (parsedImagePrompt sc) \<or> \<not> truthy (parsedVideoPrompt sc))"
  shows "\<exists>m. validatePrompts n voice music p = Inl (newError m)"
proof (cases "parsedScenePrompts p")
  case None
  then have "validatePrompts n voice music p
      = Inl (newError ''Invalid response structure: missing scenePrompts array'')"
    by (simp add: validatePrompts_def)
  then show ?thesis by (rule exI)
next
  case (Some scenes)
  with bad show ?thesis by (auto intro: validatePrompts_rejects_scenes)
qed

lemma plain_classified:
  assumes "plainMessage m"
  shows "toAppError (newError m) c = newAppError m 500 True False (Ctx c)"
  using assms
  by (simp add: plainMessage_def toAppError_def newError_def handleServiceError_def msgIncludes_def
      msgIncludesOpt_def orElse_def)

lemma plain_not_recovered:
  assumes "plainMessage m"
  shows "\<not> attemptRecovery (newAppError m 500 True False c)"
  using assms by (simp add: plainMessage_def attemptRecovery_def newAppError_def)

lemma chatfree_step:
  "logged (\<lambda>c. \<not> isChatCall c) a b \<Longrightarrow> filter isChatCall (newCalls a b) = []"
  by (auto simp: logged_def newCalls_def list_all_iff filter_empty_conv)

lemma now_chatfree: "logged (\<lambda>c. c = Now) a b \<Longrightarrow> logged (\<lambda>c. \<not> isChatCall c) a b"
  by (erule logged_mono) (simp add: isChatCall_def)

text \<open>One invocation of the prompts stage whose reply is rejected.\<close>

lemma generatePrompts_rejected:
  assumes chat: "\<And>h c. chatEnv env h c = Inr (ParsedContent p)"
    and rej: "validatePrompts (sceneCount (request session)) False (includeMusic (request session)) p
                = Inl t"
  shows "\<exists>w' t1 t2.
      generatePrompts env session w = (Inl t, w')
    \<and> sessions w' = updateStageStatus t2 (sessionId session) Prompts Error
                       (Some ''Failed to generate prompts'') None (thrownMessage t)
                       (updateStageStatus t1 (sessionId session) Prompts Processing
                          (Some ''Generating scene prompts...'') None None (sessions w))
    \<and> logged (\<lambda>c. True) w w'
    \<and> filter isChatCall (newCalls w w')
        = [ChatCompletion (sceneCount (request session)) (description (request session)) False
             (includeMusic (request session))]"
proof -
  let ?sid = "sessionId session"
  let ?call = "ChatCompletion (sceneCount (request session)) (description (request session)) False
             (includeMusic (request session))"
  obtain ra wa where a: "smUpdateStageStatus env ?sid Prompts Processing
      (Some ''Generating scene prompts...'') None None w = (ra :: Thrown + unit, wa)"
    by (cases "smUpdateStageStatus env ?sid Prompts Processing
      (Some ''Generating scene prompts...'') None None w :: (Thrown + unit) \<times> World")
  note fa = smUpdateStageStatus_frame[OF a]
  let ?wb = "logCall ?call wa"
  have b: "openaiGeneratePrompts env (sceneCount (request session)) (description (request session))
      False (includeMusic (request session)) ?sid wa = (Inl t, ?wb)"
    by (simp add: openaiGeneratePrompts_def catchOp_def bindOp_def chatCompletion_def chat rej
        throwOp_def)
  obtain rc wc where c: "smUpdateStageStatus env ?sid Prompts Error
      (Some ''Failed to generate prompts'') None (thrownMessage t) ?wb = (rc :: Thrown + unit, wc)"
    by (cases "smUpdateStageStatus env ?sid Prompts Error
      (Some ''Failed to generate prompts'') None (thrownMessage t) ?wb :: (Thrown + unit) \<times> World")
  note fc = smUpdateStageStatus_frame[OF c]
  have run: "generatePrompts env session w = (Inl t, wc)"
    using a b c fa fc by (simp add: generatePrompts_def bindOp_def catchOp_def throwOp_def)
  have sb: "sessions ?wb = sessions wa" by (simp add: logCall_def)
  have l1: "logged (\<lambda>c. \<not> isChatCall c) w wa" using fa by (auto intro: now_chatfree)
  have l2: "logged (\<lambda>c. True) wa ?wb" by (simp add: logged_logCall)
  have l3: "logged (\<lambda>c. \<not> isChatCall c) ?wb wc" using fc by (auto intro: now_chatfree)
  have l12: "logged (\<lambda>c. True) w ?wb"
    by (rule logged_trans[OF logged_mono[OF l1] l2]) simp
  have l13: "logged (\<lambda>c. True) w wc"
    by (rule logged_trans[OF l12 logged_mono[OF l3]]) simp
  have "newCalls w wc = newCalls w wa @ newCalls wa ?wb @ newCalls ?wb wc"
    using newCalls_trans[OF l12 l3] newCalls_trans[OF l1 l2] by simp
  then have "filter isChatCall (newCalls w wc) = [?call]"
    using chatfree_step[OF l1] chatfree_step[OF l3]
    by (simp add: newCalls_logCall isChatCall_def)
  with run fa fc sb l13 show ?thesis by auto
qed

lemma prompts_stage_stops:
  assumes chat: "\<And>h c. chatEnv env h c = Inr (ParsedContent p)"
    and rej: "validatePrompts (sceneCount (request session)) False (includeMusic (request session)) p
                = Inl (newError m)"
    and plain: "plainMessage m"
  shows "fst (executeWithRetry (generatePrompts env session) ''prompts'' (sessionId session) 3 w)
     = \<lparr>outcome = Inl (Some (newAppError m 500 True False
                                (Ctx (stageErrorContext (sessionId session) ''prompts'' 1)))),
        invocations = 1, delays = []\<rparr>
    \<and> snd (executeWithRetry (generatePrompts env session) ''prompts'' (sessionId session) 3 w)
        = snd (generatePrompts env session w)"
proof -
  from generatePrompts_rejected[OF chat rej] obtain w' where
    run: "generatePrompts env session w = (Inl (newError m), w')" by blast
  let ?a = "toAppError (newError m) (stageErrorContext (sessionId session) ''prompts'' 1)"
  have a: "?a = newAppError m 500 True False (Ctx (stageErrorContext (sessionId session) ''prompts'' 1))"
    by (rule plain_classified[OF plain])
  have stop: "\<not> shouldRetry ?a (int 1) 3"
    unfolding a by (simp add: shouldRetry_def newAppError_def)
  have "executeWithRetryLoop (generatePrompts env session) ''prompts'' (sessionId session) 3 1 None 0 [] w
      = (\<lparr>outcome = Inl (Some ?a), invocations = 0 + 1, delays = []\<rparr>, w')"
    by (rule executeWithRetryLoop_stop[where operation = "generatePrompts env session"
          and s = w and attempt = 1 and maxRetries = 3, OF _ run stop]) simp
  with a run show ?thesis by (simp add: executeWithRetry_def)
qed


text \<open>The rest of a run around a rejected reply.\<close>

lemma ensureAll_ok:
  assumes disk: "\<And>h c. fsFailure env h c = None"
  shows "\<exists>w'. ensureAll env ds w = (Inr (), w') \<and> sessions w' = sessions w
           \<and> logged (\<lambda>c. \<not> isChatCall c) w w'"
proof (induction ds arbitrary: w)
  case Nil
  show ?case by (simp add: returnOp_def logged_refl)
next
  case (Cons d ds)
  let ?w1 = "logCall (EnsureDir d) w"
  have step: "ensureDir env d w = (Inr (), ?w1)" by (simp add: ensureDir_def disk)
  from Cons.IH[of ?w1] obtain w' where rest: "ensureAll env ds ?w1 = (Inr (), w')"
    and s: "sessions w' = sessions ?w1" and l: "logged (\<lambda>c. \<not> isChatCall c) ?w1 w'" by blast
  have "logged (\<lambda>c. \<not> isChatCall c) w ?w1" by (rule logged_logCall) (simp add: isChatCall_def)
  from logged_trans[OF this l] step rest s show ?case
    by (simp add: bindOp_def logCall_def)
qed

lemma smCreateSession_session:
  assumes "smCreateSession env req imagePath w = (session, w1)"
  shows "request session = req"
    and "sessions w1 (sessionId session) = Some session"
    and "logged (\<lambda>c. \<not> isChatCall c) w w1"
    and "map_option status (stageOf (sessions w1) (sessionId session) Prompts) = Some Pending"
    and "list_all (\<lambda>stg. map_option status (stageOf (sessions w1) (sessionId session) stg) = Some Pending)
           [Images, Videos, Merge]"
  using assms
  by (auto simp: smCreateSession_def createSession_def Let_def logCall_def logged_def isChatCall_def
      stageOf_def pendingStage_def)

lemma stageOf_updateSessionStatus:
  "stageOf (updateSessionStatus t sid st e d store) k stg = stageOf store k stg"
  by (auto simp: stageOf_def updateSessionStatus_def Let_def split: option.splits)

lemma status_updateStageStatus:
  assumes "stageOf store sid stg \<noteq> None"
  shows "map_option status (stageOf (updateStageStatus now sid stg st msg prog err store) sid stg)
           = Some st"
proof -
  from stageOf_cases[of store sid stg] assms obtain session i
    where s: "store sid = Some session"
      and i: "findIndex (\<lambda>s. stage s = stg) (stages session) = Some i" by auto
  from stageOf_update_same[where store = store and sid = sid and now = now and st = st
      and msg = msg and prog = prog and err = err, OF s i]
  show ?thesis by auto
qed

lemma updateSessionStatus_failed:
  assumes "store sid = Some s" and "m \<noteq> []"
  shows "map_option sessionStatus (updateSessionStatus t sid SessionFailed (Some m) d store sid)
           = Some SessionFailed"
    and "map_option sessionError (updateSessionStatus t sid SessionFailed (Some m) d store sid)
           = Some (Some m)"
  using assms by (auto simp: updateSessionStatus_def Let_def truthy_def)

lemma updateSessionStatus_exists:
  "store sid = Some s \<Longrightarrow> \<exists>s'. updateSessionStatus t sid st e d store sid = Some s'"
  by (auto simp: updateSessionStatus_def Let_def)


lemma ill_typed_scene_number_printed:
  "validatePrompts 3 False False quotedNumberReply
     = Inl (newError ''Invalid scene prompt structure for scene two'')"
  by code_simp

text \<open>
  Claim C6, as stated, has the prompts stage fail with a validation-class error that is
  never retried. The checks of \<open>generatePrompts\<close> throw plain \<open>Error\<close>s, which the stage
  executor hands to \<open>handleServiceError\<close>; no rule of it builds a \<open>ValidationError\<close>.
  Asked for three scenes and given two, the stage fails with an error of the base class
  \<open>AppError\<close>. Given three scenes of which the one numbered 503 has an empty image
  prompt, the message contains \<open>503\<close>, the error is taken for a transient one and the
  stage is invoked three times.
\<close>

theorem prompts_rejection_class_counterexample:
  "map_option errClass (failureOf (fst (executeWithRetry (generatePrompts happyEnv exampleSession)
       ''prompts'' ''s1'' 3 startedWorld))) = Some AppErrorC
   \<and> map_option errMessage (failureOf (fst (executeWithRetry (generatePrompts happyEnv exampleSession)
       ''prompts'' ''s1'' 3 startedWorld))) = Some ''Expected 3 scenes, got 2''
   \<and> map_option errMessage (failureOf (fst (executeWithRetry (generatePrompts numberedEnv exampleSession)
       ''prompts'' ''s1'' 3 startedWorld))) = Some ''Invalid scene prompt structure for scene 503''
   \<and> invocations (fst (executeWithRetry (generatePrompts numberedEnv exampleSession)
       ''prompts'' ''s1'' 3 startedWorld)) = 3"
  by (intro conjI; code_simp)

text \<open>
  Claim C6, amended. When the reply does not hold exactly \<open>sceneCount\<close> scenes (or no
  list of scenes at all), or one of its scenes has an empty image or video prompt,
  \<open>generatePrompts\<close> rejects it with a plain error. Take a run in which the prompt generator gives that reply at every call
  and no file-system call fails (so that the session directories are created), and let
  the message of the rejection match none of the substring rules of the classifier and
  of the recovery strategies. Then the error is classified as a non-retryable
  \<open>AppError\<close> of the base class (status 500) carrying the same message, not as a
  \<open>ValidationError\<close>; the stage executor invokes the prompts stage once; \<open>generateVideo\<close>
  rethrows the error after marking the session \<open>failed\<close> with that message; the prompts
  stage is left in \<open>error\<close>, the images, videos and merge stages are still \<open>pending\<close>,
  and the run has made one chat-completion call.
\<close>

theorem prompts_rejection_fatal:
  assumes chat: "\<And>h c. chatEnv env h c = Inr (ParsedContent p)"
    and disk: "\<And>h c. fsFailure env h c = None"
    and bad: "case parsedScenePrompts p of
        None \<Rightarrow> True
      | Some scenes \<Rightarrow>
          int (length scenes) \<noteq> sceneCount req
          \<or> (\<exists>sc\<in>set scenes.
                \<not> truthy (parsedImagePrompt sc) \<or> \<not> truthy (parsedVideoPrompt sc))"
  shows "\<exists>m. validatePrompts (sceneCount req) False (includeMusic req) p = Inl (newError m)
      \<and> (plainMessage m \<longrightarrow>
          (let sid = uuidEnv env (calls w);
               a = newAppError m 500 True False (Ctx (stageErrorContext sid ''prompts'' 1));
               session = fst (smCreateSession env req imagePath w);
               w' = snd (generateVideo (Suc fuel) env req imagePath w)
           in errClass a = AppErrorC \<and> \<not> retryable a
            \<and> (\<forall>wx. fst (executeWithRetry (generatePrompts env session) ''prompts'' sid 3 wx)
                        = \<lparr>outcome = Inl (Some a), invocations = 1, delays = []\<rparr>)
            \<and> fst (generateVideo (Suc fuel) env req imagePath w) = Some (Inl (AppErr a))
            \<and> map_option sessionStatus (sessions w' sid) = Some SessionFailed
            \<and> map_option sessionError (sessions w' sid) = Some (Some m)
            \<and> map_option status (stageOf (sessions w') sid Prompts) = Some Error
            \<and> list_all (\<lambda>stg. map_option status (stageOf (sessions w') sid stg) = Some Pending)
                 [Images, Videos, Merge]
            \<and> filter isChatCall (newCalls w w')
                 = [ChatCompletion (sceneCount req) (description req) False (includeMusic req)]))"
proof -
  from validatePrompts_rejects[OF bad] obtain m
    where rej: "validatePrompts (sceneCount req) False (includeMusic req) p = Inl (newError m)"
    by blast
  have "plainMessage m \<longrightarrow>
          (let sid = uuidEnv env (calls w);
               a = newAppError m 500 True False (Ctx (stageErrorContext sid ''prompts'' 1));
               session = fst (smCreateSession env req imagePath w);
               w' = snd (generateVideo (Suc fuel) env req imagePath w)
           in errClass a = AppErrorC \<and> \<not> retryable a
            \<and> (\<forall>wx. fst (executeWithRetry (generatePrompts env session) ''prompts'' sid 3 wx)
                        = \<lparr>outcome = Inl (Some a), invocations = 1, delays = []\<rparr>)
            \<and> fst (generateVideo (Suc fuel) env req imagePath w) = Some (Inl (AppErr a))
            \<and> map_option sessionStatus (sessions w' sid) = Some SessionFailed
            \<and> map_option sessionError (sessions w' sid) = Some (Some m)
            \<and> map_option status (stageOf (sessions w') sid Prompts) = Some Error
            \<and> list_all (\<lambda>stg. map_option status (stageOf (sessions w') sid stg) = Some Pending)
                 [Images, Videos, Merge]
            \<and> filter isChatCall (newCalls w w')
                 = [ChatCompletion (sceneCount req) (description req) False (includeMusic req)])"
  proof
    assume plain: "plainMessage m"
    then have m: "m \<noteq> []" by (simp add: plainMessage_def)
    obtain session w1 where create: "smCreateSession env req imagePath w = (session, w1)"
      by (cases "smCreateSession env req imagePath w")
    let ?sid = "sessionId session"
    let ?a = "newAppError m 500 True False (Ctx (stageErrorContext ?sid ''prompts'' 1))"
    note cf = smCreateSession_facts[OF create]
    note cs = smCreateSession_session[OF create]
    have rej': "validatePrompts (sceneCount (request session)) False
        (includeMusic (request session)) p = Inl (newError m)"
      using rej cs(1) by simp
    \<comment> \<open>the three directories\<close>
    from ensureAll_ok[OF disk] obtain wd where
      dirs: "ensureSessionDirectories env ?sid w1 = (Inr (), wd)"
      and sd: "sessions wd = sessions w1" and ld: "logged (\<lambda>c. \<not> isChatCall c) w1 wd"
      unfolding ensureSessionDirectories_def by blast
    \<comment> \<open>the session is marked as processing\<close>
    obtain re we where upd: "smUpdateSessionStatus env ?sid SessionProcessing None None wd
        = (re :: Thrown option + unit, we)"
      by (cases "smUpdateSessionStatus env ?sid SessionProcessing None None wd
        :: (Thrown option + unit) \<times> World")
    note fe = smUpdateSessionStatus_frame[OF upd]
    have le: "logged (\<lambda>c. \<not> isChatCall c) wd we" using fe by (auto intro: now_chatfree)
    \<comment> \<open>the prompts stage, invoked once\<close>
    from generatePrompts_rejected[OF chat rej', of we] obtain wc t1 t2 where
      gp: "generatePrompts env session we = (Inl (newError m), wc)"
      and sc: "sessions wc = updateStageStatus t2 ?sid Prompts Error
                       (Some ''Failed to generate prompts'') None (thrownMessage (newError m))
                       (updateStageStatus t1 ?sid Prompts Processing
                          (Some ''Generating scene prompts...'') None None (sessions we))"
      and lc: "logged (\<lambda>c. True) we wc"
      and chats: "filter isChatCall (newCalls we wc)
        = [ChatCompletion (sceneCount (request session)) (description (request session)) False
             (includeMusic (request session))]"
      by blast
    note stop = prompts_stage_stops[OF chat rej' plain]
    have stage: "runStage (generatePrompts env session) ''prompts'' ?sid we
        = (Inl (Some (AppErr ?a)), wc)"
      using stop[of we] gp by (simp add: runStage_def prod_eq_iff split: prod.splits)
    have pipeline: "executeGenerationPipeline env session we = (Inl (Some (AppErr ?a)), wc)"
      by (simp add: executeGenerationPipeline_def bindOp_def stage)
    have attempt: "generationAttempt env session w1 = (Inl (Some (AppErr ?a)), wc)"
      using dirs upd fe pipeline by (simp add: generationAttempt_def bindOp_def liftThrown_def)
    \<comment> \<open>the catch block\<close>
    let ?summary = "createErrorSummary ?a"
    obtain r3 w3 where failed: "smUpdateSessionStatus env ?sid SessionFailed
        (Some (summaryMessage ?summary)) (Some ?summary) wc = (r3 :: Thrown + unit, w3)"
      by (cases "smUpdateSessionStatus env ?sid SessionFailed
        (Some (summaryMessage ?summary)) (Some ?summary) wc :: (Thrown + unit) \<times> World")
    note f3 = smUpdateSessionStatus_frame[OF failed]
    have l3: "logged (\<lambda>c. \<not> isChatCall c) wc w3" using f3 by (auto intro: now_chatfree)
    have gen: "generateVideo (Suc fuel) env req imagePath w = (Some (Inl (AppErr ?a)), w3)"
      using create attempt failed plain_not_recovered[OF plain]
      by (simp add: toAppError_def Let_def)
    \<comment> \<open>the session store at the end\<close>
    have msg: "\<And>c. summaryMessage (createErrorSummary (newAppError m 500 True False c)) = m"
      by (simp add: createErrorSummary_def Let_def newAppError_def)
    from cs(2) sd have "sessions wd ?sid = Some session" by simp
    from updateSessionStatus_exists[where store = "sessions wd" and sid = ?sid
        and t = "clockEnv env (calls wd)" and st = SessionProcessing and e = None and d = None,
        OF this] fe
    obtain se where se: "sessions we ?sid = Some se" by auto
    from updateStageStatus_session[where store = "sessions we" and sid = ?sid, OF se]
    obtain sp where
      sp: "updateStageStatus t1 ?sid Prompts Processing
             (Some ''Generating scene prompts...'') None None (sessions we) ?sid = Some sp"
      by blast
    from updateStageStatus_session[where store = "updateStageStatus t1 ?sid Prompts Processing
             (Some ''Generating scene prompts...'') None None (sessions we)" and sid = ?sid
        and t = t2 and stg = Prompts and st = Error and msg = "Some ''Failed to generate prompts''"
        and prog = None and err = "thrownMessage (newError m)", OF sp] sc
    obtain sx where sx: "sessions wc ?sid = Some sx" by auto
    have st3: "map_option sessionStatus (sessions w3 ?sid) = Some SessionFailed"
      and er3: "map_option sessionError (sessions w3 ?sid) = Some (Some m)"
      using f3 updateSessionStatus_failed[where store = "sessions wc" and sid = ?sid, OF sx m]
      by (simp_all add: msg)
    have pe: "stageOf (sessions we) ?sid Prompts \<noteq> None"
      using fe sd cs(4) by (auto simp: stageOf_updateSessionStatus)
    have "map_option status (stageOf (updateStageStatus t1 ?sid Prompts Processing
             (Some ''Generating scene prompts...'') None None (sessions we)) ?sid Prompts)
           = Some Processing"
      by (rule status_updateStageStatus[OF pe])
    then have "stageOf (updateStageStatus t1 ?sid Prompts Processing
             (Some ''Generating scene prompts...'') None None (sessions we)) ?sid Prompts \<noteq> None"
      by auto
    from status_updateStageStatus[OF this]
    have p3: "map_option status (stageOf (sessions w3) ?sid Prompts) = Some Error"
      using f3 sc by (simp add: stageOf_updateSessionStatus)
    have others: "\<And>stg. stg \<noteq> Prompts \<Longrightarrow>
        stageOf (sessions w3) ?sid stg = stageOf (sessions w1) ?sid stg"
      using f3 sc fe sd by (simp add: stageOf_updateSessionStatus stageOf_update_other)
    have o3: "list_all (\<lambda>stg. map_option status (stageOf (sessions w3) ?sid stg) = Some Pending)
                 [Images, Videos, Merge]"
      using cs(5) by (simp add: others)
    \<comment> \<open>the log\<close>
    have l01: "logged (\<lambda>c. \<not> isChatCall c) w we"
      by (rule logged_trans[OF logged_trans[OF cs(3) ld] le])
    have "newCalls w w3 = newCalls w we @ newCalls we wc @ newCalls wc w3"
      using newCalls_trans[OF logged_trans[OF logged_mono[OF l01] lc] l3]
        newCalls_trans[OF l01 lc] by simp
    then have c3: "filter isChatCall (newCalls w w3)
        = [ChatCompletion (sceneCount req) (description req) False (includeMusic req)]"
      using chatfree_step[OF l01] chatfree_step[OF l3] chats cs(1) by simp
    have once: "\<And>wx. fst (executeWithRetry (generatePrompts env session) ''prompts'' ?sid 3 wx)
        = \<lparr>outcome = Inl (Some ?a), invocations = 1, delays = []\<rparr>"
      using stop by simp
    show "let sid = uuidEnv env (calls w);
               a = newAppError m 500 True False (Ctx (stageErrorContext sid ''prompts'' 1));
               session = fst (smCreateSession env req imagePath w);
               w' = snd (generateVideo (Suc fuel) env req imagePath w)
           in errClass a = AppErrorC \<and> \<not> retryable a
            \<and> (\<forall>wx. fst (executeWithRetry (generatePrompts env session) ''prompts'' sid 3 wx)
                        = \<lparr>outcome = Inl (Some a), invocations = 1, delays = []\<rparr>)
            \<and> fst (generateVideo (Suc fuel) env req imagePath w) = Some (Inl (AppErr a))
            \<and> map_option sessionStatus (sessions w' sid) = Some SessionFailed
            \<and> map_option sessionError (sessions w' sid) = Some (Some m)
            \<and> map_option status (stageOf (sessions w') sid Prompts) = Some Error
            \<and> list_all (\<lambda>stg. map_option status (stageOf (sessions w') sid stg) = Some Pending)
                 [Images, Videos, Merge]
            \<and> filter isChatCall (newCalls w w')
                 = [ChatCompletion (sceneCount req) (description req) False (includeMusic req)]"
      unfolding Let_def gen fst_conv snd_conv create cf(1)[symmetric]
      using st3 er3 p3 o3 c3 once by (simp add: newAppError_def)
  qed
  with rej show ?thesis by blast
qed

theorem prompts_rejection_fatal_witness:
  "validatePrompts 3 False False twoScenes = Inl (newError ''Expected 3 scenes, got 2'')
   \<and> plainMessage ''Expected 3 scenes, got 2''
   \<and> fst (generateVideo (Suc 0) happyEnv exampleRequest ''uploads/face.png'' uploadedWorld)
       = Some (Inl (AppErr (newAppError ''Expected 3 scenes, got 2'' 500 True False
                              (Ctx (stageErrorContext ''s1'' ''prompts'' 1)))))
   \<and> map_option sessionStatus
        (sessions (snd (generateVideo (Suc 0) happyEnv exampleRequest ''uploads/face.png''
                          uploadedWorld)) ''s1'') = Some SessionFailed
   \<and> filter isChatCall
        (newCalls uploadedWorld
           (snd (generateVideo (Suc 0) happyEnv exampleRequest ''uploads/face.png'' uploadedWorld)))
       = [ChatCompletion 3 ''a calm morning walk'' False False]"
proof -
  have chat: "\<And>h c. chatEnv happyEnv h c = Inr (ParsedContent twoScenes)"
    by (simp add: happyEnv_def)
  have disk: "\<And>h c. fsFailure happyEnv h c = None" by (simp add: happyEnv_def)
  have bad: "case parsedScenePrompts twoScenes of
        None \<Rightarrow> True
      | Some scenes \<Rightarrow>
          int (length scenes) \<noteq> sceneCount exampleRequest
          \<or> (\<exists>sc\<in>set scenes.
                \<not> truthy (parsedImagePrompt sc) \<or> \<not> truthy (parsedVideoPrompt sc))"
    by (simp add: twoScenes_def exampleRequest_def)
  have rejected: "validatePrompts 3 False False twoScenes
      = Inl (newError ''Expected 3 scenes, got 2'')" by code_simp
  have plain: "plainMessage ''Expected 3 scenes, got 2''" by code_simp
  have req: "sceneCount exampleRequest = 3" "includeMusic exampleRequest = False"
    "description exampleRequest = ''a calm morning walk''"
    by (simp_all add: exampleRequest_def)
  have sid: "uuidEnv happyEnv (calls uploadedWorld) = ''s1''" by (simp add: happyEnv_def)
  from prompts_rejection_fatal[where env = happyEnv and p = twoScenes and req = exampleRequest
      and imagePath = "''uploads/face.png''" and w = uploadedWorld and fuel = 0,
      OF chat disk bad]
  obtain m where
    m: "validatePrompts (sceneCount exampleRequest) False (includeMusic exampleRequest) twoScenes
          = Inl (newError m)"
    and run: "plainMessage m \<longrightarrow>
          (let sid = uuidEnv happyEnv (calls uploadedWorld);
               a = newAppError m 500 True False (Ctx (stageErrorContext sid ''prompts'' 1));
               session = fst (smCreateSession happyEnv exampleRequest ''uploads/face.png'' uploadedWorld);
               w' = snd (generateVideo (Suc 0) happyEnv exampleRequest ''uploads/face.png'' uploadedWorld)
           in errClass a = AppErrorC \<and> \<not> retryable a
            \<and> (\<forall>wx. fst (executeWithRetry (generatePrompts happyEnv session) ''prompts'' sid 3 wx)
                        = \<lparr>outcome = Inl (Some a), invocations = 1, delays = []\<rparr>)
            \<and> fst (generateVideo (Suc 0) happyEnv exampleRequest ''uploads/face.png'' uploadedWorld)
                 = Some (Inl (AppErr a))
            \<and> map_option sessionStatus (sessions w' sid) = Some SessionFailed
            \<and> map_option sessionError (sessions w' sid) = Some (Some m)
            \<and> map_option status (stageOf (sessions w') sid Prompts) = Some Error
            \<and> list_all (\<lambda>stg. map_option status (stageOf (sessions w') sid stg) = Some Pending)
                 [Images, Videos, Merge]
            \<and> filter isChatCall (newCalls uploadedWorld w')
                 = [ChatCompletion (sceneCount exampleRequest) (description exampleRequest) False
                      (includeMusic exampleRequest)])"
    by blast
  from m rejected have "m = ''Expected 3 scenes, got 2''" by (simp add: req newError_def)
  with run plain rejected show ?thesis
    unfolding Let_def sid req by (simp del: generateVideo.simps)
qed


end
